theory Spec2Isabelle
  imports Main
begin

section \<open>Errors, identifiers and configuration\<close>

text \<open>
  The development embeds the synthesis of \<open>NetworkAssociationsStack\<close> (one stack per
  account and region) and \<open>NetworkVpcEndpointsStack.setNfwPolicyMap\<close>. A \<open>throw\<close> is
  the left injection of a sum; reading a property of \<open>undefined\<close> is a \<open>TypeError\<close>
  that carries the name of the property, and \<open>DuplicateConstruct i\<close> is the \<open>Error\<close> of the
  construct library for a second construct of the id \<open>i\<close> in the stack.

  KMS keys, log retention, tags, logger calls and cdk-nag suppressions are handed to the
  constructs unchanged and decide no branch; they are left out of the recorded
  constructs.
\<close>

datatype error =
    Error string
  | TypeError string
  | UnknownAccount string
  | DuplicateConstruct string

definition bindE :: "error + 'a \<Rightarrow> ('a \<Rightarrow> error + 'b) \<Rightarrow> error + 'b" where
  "bindE m f = (case m of Inl e \<Rightarrow> Inl e | Inr x \<Rightarrow> f x)"

text \<open>A \<open>for ... of\<close> loop over a list whose body may throw: the first throw ends it.\<close>

fun foldE :: "('a \<Rightarrow> 's \<Rightarrow> error + 's) \<Rightarrow> 'a list \<Rightarrow> 's \<Rightarrow> error + 's" where
  "foldE f [] s = Inr s"
| "foldE f (x # xs) s = (case f x s of Inl e \<Rightarrow> Inl e | Inr s' \<Rightarrow> foldE f xs s')"

text \<open>\<open>Array.prototype.filter\<close> with a predicate that may throw.\<close>

fun filterE :: "('a \<Rightarrow> error + bool) \<Rightarrow> 'a list \<Rightarrow> error + 'a list" where
  "filterE p [] = Inr []"
| "filterE p (x # xs) =
     (case p x of
        Inl e \<Rightarrow> Inl e
      | Inr b \<Rightarrow> (case filterE p xs of
                    Inl e \<Rightarrow> Inl e
                  | Inr ys \<Rightarrow> Inr (if b then x # ys else ys)))"

text \<open>\<open>Array.prototype.map\<close> with a function that may throw.\<close>

fun mapE :: "('a \<Rightarrow> error + 'b) \<Rightarrow> 'a list \<Rightarrow> error + 'b list" where
  "mapE f [] = Inr []"
| "mapE f (x # xs) =
     (case f x of
        Inl e \<Rightarrow> Inl e
      | Inr y \<Rightarrow> (case mapE f xs of Inl e \<Rightarrow> Inl e | Inr ys \<Rightarrow> Inr (y # ys)))"

text \<open>JavaScript truthiness of an optional string: \<open>undefined\<close> and \<open>''\<close> are falsy.\<close>

fun truthy :: "string option \<Rightarrow> bool" where
  "truthy None = False"
| "truthy (Some s) = (s \<noteq> [])"

text \<open>Template literals print \<open>undefined\<close> for an absent value.\<close>

fun str :: "string option \<Rightarrow> string" where
  "str None = ''undefined''"
| "str (Some s) = s"

text \<open>\<open>Number.prototype.toString\<close> in a template literal: the decimal digits of a length.\<close>

definition digit :: "nat \<Rightarrow> char" where
  "digit n = ''0123456789'' ! n"

fun showNat :: "nat \<Rightarrow> string" where
  "showNat n = (if n < 10 then [digit n] else showNat (n div 10) @ [digit (n mod 10)])"

declare showNat.simps [simp del]

text \<open>
  A physical identifier is the value a construct hands out at synthesis: a token that
  stands for a deploy-time lookup. The datatype keeps which lookup it is.
  \<^item> \<open>SsmParameter name\<close>: \<open>StringParameter.valueForStringParameter(this, name)\<close>, a
    parameter of the stack's own account and region;
  \<^item> \<open>SsmParameterLookup name accountId parameterRegion roleName\<close>: the \<open>value\<close> of a
    \<open>SsmParameterLookup\<close> custom resource, which assumes \<open>roleName\<close> in \<open>accountId\<close>;
  \<^item> \<open>AttachmentLookup name owningAccountId transitGatewayId type roleName\<close>: the
    \<open>transitGatewayAttachmentId\<close> of \<open>TransitGatewayAttachment.fromLookup\<close>;
  \<^item> \<open>ResourceShareItem name itemType owningAccountId\<close>: the \<open>resourceShareItemId\<close> (or
    \<open>resourceShareItemArn\<close>) of \<open>getResourceShare(name, itemType, owningAccountId, key)\<close>;
  \<^item> \<open>PeeringId name\<close>: the \<open>peeringId\<close> of the \<open>VpcPeering\<close> construct of that name;
  \<^item> \<open>AssociationAttachment logicalId\<close>: the \<open>transitGatewayAttachmentId\<close> of the
    \<open>DirectConnectGatewayAssociation\<close> construct of that logical id.
\<close>

datatype attachmentType = VPC | VPN | PEERING

datatype ident =
    SsmParameter string
  | SsmParameterLookup string string string string
  | AttachmentLookup string string ident attachmentType "string option"
  | ResourceShareItem string string string
  | PeeringId string
  | AssociationAttachment string

subsection \<open>Network configuration\<close>

text \<open>
  Optional arrays that the source only reads through \<open>?? []\<close> are plain lists; an optional
  value whose presence is tested is an \<open>option\<close>.
\<close>

record routeTableEntryConfig =
  rte_name :: string
  rte_type :: "string option"
  rte_target :: "string option"
  rte_destination :: "string option"
  rte_destinationPrefixList :: "string option"

record routeTableConfig =
  rt_name :: string
  rt_routes :: "routeTableEntryConfig list"

record transitGatewayAttachmentConfig =
  tga_name :: string
  tga_transitGatewayName :: string
  tga_transitGatewayAccount :: string
  tga_routeTableAssociations :: "string list"
  tga_routeTablePropagations :: "string list"

record interfaceEndpointConfig =
  ie_central :: bool
  ie_endpoints :: "string list"

record dnsFirewallRuleGroupConfig =
  dfw_name :: string
  dfw_priority :: nat

record deploymentTargets =
  dt_organizationalUnits :: "string list"
  dt_accounts :: "string list"
  dt_excludedAccounts :: "string list"
  dt_excludedRegions :: "string list"

record vpcBase =
  vpc_name :: string
  vpc_region :: string
  vpc_routeTables :: "routeTableConfig list"
  vpc_transitGatewayAttachments :: "transitGatewayAttachmentConfig list"
  vpc_interfaceEndpoints :: "interfaceEndpointConfig option"
  vpc_useCentralEndpoints :: bool
  vpc_dnsFirewallRuleGroups :: "dnsFirewallRuleGroupConfig list"
  vpc_queryLogs :: "string list"
  vpc_resolverRules :: "string list"

record vpcConfig = vpcBase +
  vpc_account :: string

record vpcTemplatesConfig = vpcBase +
  vpc_deploymentTargets :: deploymentTargets

text \<open>The union \<open>VpcConfig | VpcTemplatesConfig\<close>, told apart by \<open>vpcConfig.is\<close>.\<close>

datatype vpcItem = VpcConfig vpcConfig | VpcTemplatesConfig vpcTemplatesConfig

fun itemName :: "vpcItem \<Rightarrow> string" where
  "itemName (VpcConfig v) = vpc_name v"
| "itemName (VpcTemplatesConfig v) = vpc_name v"

fun itemRegion :: "vpcItem \<Rightarrow> string" where
  "itemRegion (VpcConfig v) = vpc_region v"
| "itemRegion (VpcTemplatesConfig v) = vpc_region v"

fun itemRouteTables :: "vpcItem \<Rightarrow> routeTableConfig list" where
  "itemRouteTables (VpcConfig v) = vpc_routeTables v"
| "itemRouteTables (VpcTemplatesConfig v) = vpc_routeTables v"

fun itemTransitGatewayAttachments :: "vpcItem \<Rightarrow> transitGatewayAttachmentConfig list" where
  "itemTransitGatewayAttachments (VpcConfig v) = vpc_transitGatewayAttachments v"
| "itemTransitGatewayAttachments (VpcTemplatesConfig v) = vpc_transitGatewayAttachments v"

fun itemUseCentralEndpoints :: "vpcItem \<Rightarrow> bool" where
  "itemUseCentralEndpoints (VpcConfig v) = vpc_useCentralEndpoints v"
| "itemUseCentralEndpoints (VpcTemplatesConfig v) = vpc_useCentralEndpoints v"

fun itemDnsFirewallRuleGroups :: "vpcItem \<Rightarrow> dnsFirewallRuleGroupConfig list" where
  "itemDnsFirewallRuleGroups (VpcConfig v) = vpc_dnsFirewallRuleGroups v"
| "itemDnsFirewallRuleGroups (VpcTemplatesConfig v) = vpc_dnsFirewallRuleGroups v"

fun itemQueryLogs :: "vpcItem \<Rightarrow> string list" where
  "itemQueryLogs (VpcConfig v) = vpc_queryLogs v"
| "itemQueryLogs (VpcTemplatesConfig v) = vpc_queryLogs v"

fun itemResolverRules :: "vpcItem \<Rightarrow> string list" where
  "itemResolverRules (VpcConfig v) = vpc_resolverRules v"
| "itemResolverRules (VpcTemplatesConfig v) = vpc_resolverRules v"

record vpcPeeringConfig =
  vp_name :: string
  vp_vpcs :: "string list"

record prefixListConfig =
  pl_name :: string
  pl_accounts :: "string list"
  pl_regions :: "string list"

text \<open>
  Modelled from the spec: the codecs \<open>NetworkConfigTypes.transitGatewayRouteTable*EntryConfig\<close>
  that tell the four attachment shapes of a transit gateway route apart are not part of
  the sources at hand. The shapes are one variant each (fields as the source reads them:
  \<open>account\<close> and \<open>vpcName\<close>, \<open>directConnectGatewayName\<close>, \<open>vpnConnectionName\<close>,
  \<open>transitGatewayPeeringName\<close>), and each \<open>is\<close> test accepts its own variant only.
\<close>

datatype routeAttachment =
    VpcEntry string string
  | DxGatewayEntry string
  | VpnEntry string
  | TgwPeeringEntry string

record transitGatewayRouteEntryConfig =
  tre_destinationCidrBlock :: "string option"
  tre_destinationPrefixList :: "string option"
  tre_blackhole :: "bool option"
  tre_attachment :: "routeAttachment option"

record transitGatewayRouteTableConfig =
  trt_name :: string
  trt_routes :: "transitGatewayRouteEntryConfig list"

record transitGatewayConfig =
  tgw_name :: string
  tgw_account :: string
  tgw_region :: string
  tgw_routeTables :: "transitGatewayRouteTableConfig list"

record vpnConnectionConfig =
  vpn_name :: string
  vpn_transitGateway :: "string option"
  vpn_routeTableAssociations :: "string list option"
  vpn_routeTablePropagations :: "string list option"

record customerGatewayConfig =
  cgw_name :: string
  cgw_account :: string
  cgw_region :: string
  cgw_vpnConnections :: "vpnConnectionConfig list"

record dxTransitGatewayAssociationConfig =
  dxa_name :: string
  dxa_account :: string
  dxa_allowedPrefixes :: "string list"
  dxa_routeTableAssociations :: "string list"
  dxa_routeTablePropagations :: "string list"

record dxGatewayConfig =
  dx_name :: string
  dx_account :: string
  dx_transitGatewayAssociations :: "dxTransitGatewayAssociationConfig list"

record nfwFirewallConfig =
  nfw_name :: string
  nfw_vpc :: string
  nfw_firewallPolicy :: string

record centralNetworkServicesConfig =
  cns_delegatedAdminAccount :: string
  cns_queryLogDestinations :: "string list option"
  cns_firewalls :: "nfwFirewallConfig list option"

record tgwPeeringSideConfig =
  tps_account :: string
  tps_transitGatewayName :: string

record networkConfig =
  vpcs :: "vpcConfig list"
  vpcTemplates :: "vpcTemplatesConfig list"
  vpcPeering :: "vpcPeeringConfig list"
  prefixLists :: "prefixListConfig list"
  transitGateways :: "transitGatewayConfig list"
  customerGateways :: "customerGatewayConfig list"
  directConnectGateways :: "dxGatewayConfig list"
  centralNetworkServices :: "centralNetworkServicesConfig option"

text \<open>\<open>[...props.networkConfig.vpcs, ...(props.networkConfig.vpcTemplates ?? [])]\<close>\<close>

definition allVpcItems :: "networkConfig \<Rightarrow> vpcItem list" where
  "allVpcItems cfg = map VpcConfig (vpcs cfg) @ map VpcTemplatesConfig (vpcTemplates cfg)"

subsection \<open>What the stack is given\<close>

text \<open>
  The stack's own account, region and partition, the home region, and the
  collaborators whose code is not among the sources: the account table behind
  \<open>AccountsConfig.getAccountId\<close>, \<open>pascalCase\<close> of the change-case package, the helpers
  of the base class \<open>AcceleratorStack\<close> (\<open>getVpcAccountIds\<close>,
  \<open>getAccountNamesFromDeploymentTarget\<close>, \<open>getExcludedAccountIds\<close>),
  \<open>NetworkConfig.getTgwPeeringRequesterAccepterConfig\<close>, and whether a
  \<open>DirectConnectGatewayAssociation\<close> of a given logical id and owner account has a
  \<open>transitGatewayAttachmentId\<close>. They are parameters.
\<close>

record env =
  stackAccount :: string
  stackRegion :: string
  partition :: string
  homeRegion :: string
  accountIds :: "string \<rightharpoonup> string"
  pascalCase :: "string \<Rightarrow> string"
  getVpcAccountIds :: "vpcItem \<Rightarrow> error + string list"
  getAccountNamesFromDeploymentTarget :: "deploymentTargets \<Rightarrow> string list"
  getExcludedAccountIds :: "deploymentTargets \<Rightarrow> string list"
  getTgwPeeringRequesterAccepterConfig :: "string \<Rightarrow> string \<Rightarrow> tgwPeeringSideConfig option"
  hasAttachmentId :: "string \<Rightarrow> string option \<Rightarrow> bool"

text \<open>
  Modelled from the spec: \<open>AccountsConfig.getAccountId\<close> is not part of the sources at
  hand. The spec's Account/Region Locator gives its contract:
  \<open>locate(accountName) -> physicalAccountId\<close>, which fails with \<open>UnknownAccount\<close> if the
  name is absent.
\<close>

definition getAccountId :: "env \<Rightarrow> string \<Rightarrow> error + string" where
  "getAccountId e n = (case accountIds e n of None \<Rightarrow> Inl (UnknownAccount n) | Some i \<Rightarrow> Inr i)"

section \<open>The stack under construction\<close>

text \<open>
  The constructs instantiated so far, in the order of their \<open>new\<close>, and the writes to
  the instance maps (\<open>MapSet\<close>), in program order.
\<close>

datatype mapName =
    DnsFirewallMap | DxGatewayMap | QueryLogMap | ResolverRuleMap
  | TransitGatewaysMap | TransitGatewayRouteTablesMap | TransitGatewayAttachmentsMap

record associateHostedZonesProps =
  ahz_accountIds :: "string list"
  ahz_hostedZoneIds :: "ident list"
  ahz_hostedZoneAccountId :: string
  ahz_roleName :: string
  ahz_centralEndpointsAccountId :: string

record crossAcctRouteProps =
  car_id :: string
  car_ownerAccount :: string
  car_ownerRegion :: string
  car_partition :: string
  car_roleName :: string
  car_routeTableId :: ident
  car_destination :: "string option"
  car_destinationPrefixListId :: "ident option"

record vpcPeeringProps =
  vpp_name :: string
  vpp_peerOwnerId :: string
  vpp_peerRegion :: string
  vpp_peerVpcId :: ident
  vpp_peerRoleName :: "string option"
  vpp_vpcId :: ident

record dxAssociationProps =
  dap_allowedPrefixes :: "string list"
  dap_directConnectGatewayId :: ident
  dap_directConnectGatewayOwnerAccount :: "string option"
  dap_gatewayId :: ident

datatype event =
    MapSet mapName string ident
  | CrossAccountRouteFramework
  | TransitGatewayRouteTableAssociation string ident ident
  | TransitGatewayRouteTablePropagation string ident ident
  | TransitGatewayStaticRoute string ident "bool option" string "ident option"
  | TransitGatewayPrefixListReference string ident "bool option" "ident option" ident
  | AssociateHostedZones associateHostedZonesProps
  | ResolverFirewallRuleGroupAssociation string ident nat ident
  | QueryLoggingConfigAssociation string ident ident
  | ResolverRuleAssociation string ident ident
  | VpcPeering vpcPeeringProps
  | PutSsmParameter string string string string ident
  | PeeringRoute string string ident "string option" "ident option"
  | CrossAcctPeeringRoute string crossAcctRouteProps
  | DirectConnectGatewayAssociation string dxAssociationProps

text \<open>
  The interface \<open>Peering\<close>. \<open>setPeeringList\<close> fills \<open>accepter\<close> with \<open>accepterVpc[0]\<close>,
  which is \<open>undefined\<close> when no VPC has the name: the field is an option.
\<close>

record peering =
  p_name :: string
  p_requester :: vpcConfig
  p_accepter :: "vpcConfig option"

record stack =
  dnsFirewallMap :: "string \<rightharpoonup> ident"
  dxGatewayMap :: "string \<rightharpoonup> ident"
  peeringList :: "peering list"
  prefixListMap :: "string \<rightharpoonup> ident"
  queryLogMap :: "string \<rightharpoonup> ident"
  resolverRuleMap :: "string \<rightharpoonup> ident"
  routeTableMap :: "string \<rightharpoonup> ident"
  transitGatewaysMap :: "string \<rightharpoonup> ident"
  transitGatewayRouteTables :: "string \<rightharpoonup> ident"
  transitGatewayAttachments :: "string \<rightharpoonup> ident"
  crossAcctRouteProvider :: bool
  constructs :: "string list"
  trace :: "event list"

definition emit :: "event \<Rightarrow> stack \<Rightarrow> stack" where
  "emit ev s = s\<lparr>trace := trace s @ [ev]\<rparr>"

text \<open>
  Construct ids. \<open>new C(this, id, ...)\<close> and \<open>C.fromLookup(this, id, ...)\<close> make a child of
  the stack under \<open>id\<close>. The constructor of a construct (class \<open>Node\<close> of the library
  \<open>constructs\<close>, on which every construct is built) replaces each path separator \<open>/\<close> of
  the id by \<open>--\<close>, throws \<open>Only root constructs may have an empty ID\<close> when the id is
  empty, and throws \<open>There is already a Construct with name '<id>' in <stack>\<close> when the
  stack has a child of that id. \<open>constructs s\<close> holds the ids of the children that the
  constructor of the stack has made so far, \<open>addChild\<close> is that check, and \<open>construct\<close>
  records the construct after it.

  \<open>StringParameter.valueForStringParameter\<close> gives one parameter per name and never
  throws for a name it has seen. The routes of \<open>addPeeringRoute\<close> and
  \<open>addCrossAcctPeeringRoute\<close> are made by the peering construct, whose class is not among
  the sources, as is \<open>getResourceShare\<close> of the base class; their ids are not recorded
  here.
\<close>

definition sanitizeId :: "string \<Rightarrow> string" where
  "sanitizeId i = concat (map (\<lambda>c. if c = CHR ''/'' then ''--'' else [c]) i)"

definition addChild :: "string \<Rightarrow> stack \<Rightarrow> error + stack" where
  "addChild i s =
     (if sanitizeId i = [] then Inl (Error ''Only root constructs may have an empty ID'')
      else if sanitizeId i \<in> set (constructs s) then Inl (DuplicateConstruct (sanitizeId i))
      else Inr (s\<lparr>constructs := constructs s @ [sanitizeId i]\<rparr>))"

definition construct :: "string \<Rightarrow> event \<Rightarrow> stack \<Rightarrow> error + stack" where
  "construct i ev s = bindE (addChild i s) (\<lambda>s1. Inr (emit ev s1))"

text \<open>
  The composite keys of the maps are template literals that join two names with \<open>_\<close>,
  such as \<open>`${owningAccount}_${vpcItem.name}`\<close>.
\<close>

definition joinKey :: "string \<Rightarrow> string \<Rightarrow> string" where
  "joinKey a b = a @ ''_'' @ b"

text \<open>
  The key of the shared attachments map: \<open>`${owningAccount}_${vpcItem.name}`\<close> for a VPC
  attachment, \<open>`${vpnItem.name}_${tgw.name}`\<close> for a VPN attachment and
  \<open>`${dxgwItem.name}_${tgw.name}`\<close> for a Direct Connect gateway attachment.
\<close>

definition attachmentKey :: "string \<Rightarrow> string \<Rightarrow> string" where
  "attachmentKey a b = joinKey a b"

subsection \<open>The peering list and the cross-account route provider\<close>

text \<open>\<open>xs[i]\<close>: \<open>undefined\<close> out of range.\<close>

fun nthOpt :: "'a list \<Rightarrow> nat \<Rightarrow> 'a option" where
  "nthOpt [] i = None"
| "nthOpt (x # xs) 0 = Some x"
| "nthOpt (x # xs) (Suc i) = nthOpt xs i"

definition setPeeringList_body ::
  "env \<Rightarrow> networkConfig \<Rightarrow> vpcPeeringConfig \<Rightarrow> peering list \<Rightarrow> error + peering list" where
  "setPeeringList_body e cfg peering peeringList' =
     (let requesterVpc = filter (\<lambda>item. Some (vpc_name item) = nthOpt (vp_vpcs peering) 0) (vpcs cfg);
          accepterVpc = filter (\<lambda>item. Some (vpc_name item) = nthOpt (vp_vpcs peering) 1) (vpcs cfg)
      in case nthOpt requesterVpc 0 of
           None \<Rightarrow> Inl (TypeError ''account'')
         | Some requester \<Rightarrow>
             bindE (getAccountId e (vpc_account requester))
               (\<lambda>requesterAccountId.
                  if stackAccount e = requesterAccountId \<and> stackRegion e = vpc_region requester
                  then Inr (peeringList' @ [\<lparr>p_name = vp_name peering, p_requester = requester,
                                           p_accepter = nthOpt accepterVpc 0\<rparr>])
                  else Inr peeringList'))"

definition setPeeringList :: "env \<Rightarrow> networkConfig \<Rightarrow> error + peering list" where
  "setPeeringList e cfg = foldE (setPeeringList_body e cfg) (vpcPeering cfg) []"

text \<open>
  The test on a route table entry that the peering functions share:
  \<open>routeTableEntry.type && routeTableEntry.type === 'vpcPeering' &&
  routeTableEntry.target === peering.name\<close>.
\<close>

definition targetsPeering :: "string \<Rightarrow> routeTableEntryConfig \<Rightarrow> bool" where
  "targetsPeering peeringName routeTableEntry =
     (truthy (rte_type routeTableEntry) \<and> rte_type routeTableEntry = Some ''vpcPeering''
      \<and> rte_target routeTableEntry = Some peeringName)"

definition createCrossAcctRouteProvider_entry ::
  "peering \<Rightarrow> vpcConfig \<Rightarrow> routeTableEntryConfig \<Rightarrow> bool \<Rightarrow> bool" where
  "createCrossAcctRouteProvider_entry peering accepter routeTableEntry createFramework =
     (if targetsPeering (p_name peering) routeTableEntry
         \<and> (vpc_account accepter \<noteq> vpc_account (p_requester peering)
            \<or> vpc_region accepter \<noteq> vpc_region (p_requester peering))
      then True else createFramework)"

definition createCrossAcctRouteProvider_peering :: "peering \<Rightarrow> bool \<Rightarrow> error + bool" where
  "createCrossAcctRouteProvider_peering peering createFramework =
     (case p_accepter peering of
        None \<Rightarrow> Inl (TypeError ''routeTables'')
      | Some accepter \<Rightarrow>
          Inr (fold (\<lambda>routeTable. fold (createCrossAcctRouteProvider_entry peering accepter)
                                      (rt_routes routeTable))
                 (vpc_routeTables accepter) createFramework))"

definition createCrossAcctRouteProvider :: "stack \<Rightarrow> error + stack" where
  "createCrossAcctRouteProvider s =
     bindE (foldE createCrossAcctRouteProvider_peering (peeringList s) False)
       (\<lambda>createFramework.
          if createFramework
          then bindE (construct ''CrossAccountRouteFramework'' CrossAccountRouteFramework s)
                 (\<lambda>s1. Inr (s1\<lparr>crossAcctRouteProvider := True\<rparr>))
          else Inr (s\<lparr>crossAcctRouteProvider := False\<rparr>))"

subsection \<open>Prefix list and route table maps\<close>

definition vpcPeeringRole :: "string \<Rightarrow> string" where
  "vpcPeeringRole r = ''AWSAccelerator-VpcPeeringRole-'' @ r"

text \<open>
  \<open>setCrossAcctPrefixLists\<close> and \<open>setCrossAcctRouteTables\<close> fill a local map and create one
  \<open>SsmParameterLookup\<close> construct for each entry they add: their state is the local map
  together with the stack.
\<close>

definition setCrossAcctPrefixLists_entry ::
  "env \<Rightarrow> peering \<Rightarrow> vpcConfig \<Rightarrow> string \<Rightarrow> bool \<Rightarrow> routeTableEntryConfig
   \<Rightarrow> (string \<rightharpoonup> ident) \<times> stack \<Rightarrow> error + (string \<rightharpoonup> ident) \<times> stack" where
  "setCrossAcctPrefixLists_entry e peering accepter accepterAccountId crossAccountCondition
     routeTableEntry st =
     (case st of
        (prefixListMap', s) \<Rightarrow>
          (let mapKey = vpc_account accepter @ ''_'' @ vpc_region accepter @ ''_''
                        @ str (rte_destinationPrefixList routeTableEntry)
           in if targetsPeering (p_name peering) routeTableEntry \<and> crossAccountCondition
                 \<and> truthy (rte_destinationPrefixList routeTableEntry)
                 \<and> prefixListMap' mapKey = None
              then bindE (addChild (pascalCase e (''SsmParamLookup''
                                      @ str (rte_destinationPrefixList routeTableEntry))) s)
                     (\<lambda>s1. Inr (prefixListMap'(mapKey \<mapsto>
                                   SsmParameterLookup
                                     (''/accelerator/network/prefixList/''
                                      @ str (rte_destinationPrefixList routeTableEntry) @ ''/id'')
                                     accepterAccountId (vpc_region accepter)
                                     (vpcPeeringRole (vpc_region accepter))), s1))
              else Inr st))"

definition setCrossAcctPrefixLists_peering ::
  "env \<Rightarrow> peering \<Rightarrow> (string \<rightharpoonup> ident) \<times> stack \<Rightarrow> error + (string \<rightharpoonup> ident) \<times> stack" where
  "setCrossAcctPrefixLists_peering e peering st =
     bindE (getAccountId e (vpc_account (p_requester peering)))
       (\<lambda>requesterAccountId.
          case p_accepter peering of
            None \<Rightarrow> Inl (TypeError ''account'')
          | Some accepter \<Rightarrow>
              bindE (getAccountId e (vpc_account accepter))
                (\<lambda>accepterAccountId.
                   let crossAccountCondition =
                         (accepterAccountId \<noteq> requesterAccountId
                          \<or> vpc_region accepter \<noteq> vpc_region (p_requester peering))
                   in foldE (\<lambda>routeTable.
                               foldE (setCrossAcctPrefixLists_entry e peering accepter
                                        accepterAccountId crossAccountCondition)
                                 (rt_routes routeTable))
                        (vpc_routeTables accepter) st))"

definition setCrossAcctPrefixLists :: "env \<Rightarrow> stack \<Rightarrow> error + (string \<rightharpoonup> ident) \<times> stack" where
  "setCrossAcctPrefixLists e s =
     foldE (setCrossAcctPrefixLists_peering e) (peeringList s) (Map.empty, s)"

definition setPrefixListMap_item ::
  "env \<Rightarrow> prefixListConfig \<Rightarrow> (string \<rightharpoonup> ident) \<Rightarrow> error + (string \<rightharpoonup> ident)" where
  "setPrefixListMap_item e prefixListItem prefixListMap' =
     bindE (mapE (getAccountId e) (pl_accounts prefixListItem))
       (\<lambda>accountIds.
          if stackAccount e \<in> set accountIds \<and> stackRegion e \<in> set (pl_regions prefixListItem)
          then Inr (prefixListMap'(pl_name prefixListItem \<mapsto>
                      SsmParameter (''/accelerator/network/prefixList/''
                                    @ pl_name prefixListItem @ ''/id'')))
          else Inr prefixListMap')"

text \<open>
  \<open>crossAcctPrefixLists.forEach((value, key) => prefixListMap'.set(key, value))\<close>: the
  entries of the second map are written over the first, which is \<open>++\<close>.
\<close>

definition setPrefixListMap ::
  "env \<Rightarrow> networkConfig \<Rightarrow> stack \<Rightarrow> error + (string \<rightharpoonup> ident) \<times> stack" where
  "setPrefixListMap e cfg s =
     bindE (foldE (setPrefixListMap_item e) (prefixLists cfg) Map.empty)
       (\<lambda>prefixListMap'.
          bindE (setCrossAcctPrefixLists e s)
            (\<lambda>(crossAcctPrefixLists, s1). Inr (prefixListMap' ++ crossAcctPrefixLists, s1)))"

definition setCrossAcctRouteTables_entry ::
  "env \<Rightarrow> peering \<Rightarrow> vpcConfig \<Rightarrow> string \<Rightarrow> bool \<Rightarrow> routeTableConfig \<Rightarrow> routeTableEntryConfig
   \<Rightarrow> (string \<rightharpoonup> ident) \<times> stack \<Rightarrow> error + (string \<rightharpoonup> ident) \<times> stack" where
  "setCrossAcctRouteTables_entry e peering accepter accepterAccountId crossAccountCondition
     routeTable routeTableEntry st =
     (case st of
        (routeTableMap', s) \<Rightarrow>
          if targetsPeering (p_name peering) routeTableEntry \<and> crossAccountCondition
             \<and> routeTableMap' (joinKey (vpc_name accepter) (rt_name routeTable)) = None
          then bindE (addChild (pascalCase e (''SsmParamLookup'' @ rt_name routeTable)) s)
                 (\<lambda>s1. Inr (routeTableMap'(joinKey (vpc_name accepter) (rt_name routeTable) \<mapsto>
                               SsmParameterLookup
                                 (''/accelerator/network/vpc/'' @ vpc_name accepter
                                  @ ''/routeTable/'' @ rt_name routeTable @ ''/id'')
                                 accepterAccountId (vpc_region accepter)
                                 (vpcPeeringRole (vpc_region accepter))), s1))
          else Inr st)"

definition setCrossAcctRouteTables_peering ::
  "env \<Rightarrow> peering \<Rightarrow> (string \<rightharpoonup> ident) \<times> stack \<Rightarrow> error + (string \<rightharpoonup> ident) \<times> stack" where
  "setCrossAcctRouteTables_peering e peering st =
     bindE (getAccountId e (vpc_account (p_requester peering)))
       (\<lambda>requesterAccountId.
          case p_accepter peering of
            None \<Rightarrow> Inl (TypeError ''account'')
          | Some accepter \<Rightarrow>
              bindE (getAccountId e (vpc_account accepter))
                (\<lambda>accepterAccountId.
                   let crossAccountCondition =
                         (accepterAccountId \<noteq> requesterAccountId
                          \<or> vpc_region accepter \<noteq> vpc_region (p_requester peering))
                   in foldE (\<lambda>routeTable.
                               foldE (setCrossAcctRouteTables_entry e peering accepter
                                        accepterAccountId crossAccountCondition routeTable)
                                 (rt_routes routeTable))
                        (vpc_routeTables accepter) st))"

definition setCrossAcctRouteTables :: "env \<Rightarrow> stack \<Rightarrow> error + (string \<rightharpoonup> ident) \<times> stack" where
  "setCrossAcctRouteTables e s =
     foldE (setCrossAcctRouteTables_peering e) (peeringList s) (Map.empty, s)"

definition setRouteTableMap_item ::
  "env \<Rightarrow> vpcItem \<Rightarrow> (string \<rightharpoonup> ident) \<Rightarrow> error + (string \<rightharpoonup> ident)" where
  "setRouteTableMap_item e vpcItem routeTableMap' =
     bindE (getVpcAccountIds e vpcItem)
       (\<lambda>vpcAccountIds.
          if stackAccount e \<in> set vpcAccountIds \<and> itemRegion vpcItem = stackRegion e
          then Inr (fold (\<lambda>routeTableItem m.
                            m(joinKey (itemName vpcItem) (rt_name routeTableItem) \<mapsto>
                              SsmParameter (''/accelerator/network/vpc/'' @ itemName vpcItem
                                            @ ''/routeTable/'' @ rt_name routeTableItem @ ''/id'')))
                      (itemRouteTables vpcItem) routeTableMap')
          else Inr routeTableMap')"

definition setRouteTableMap ::
  "env \<Rightarrow> networkConfig \<Rightarrow> stack \<Rightarrow> error + (string \<rightharpoonup> ident) \<times> stack" where
  "setRouteTableMap e cfg s =
     bindE (foldE (setRouteTableMap_item e) (allVpcItems cfg) Map.empty)
       (\<lambda>routeTableMap'.
          bindE (setCrossAcctRouteTables e s)
            (\<lambda>(crossAcctRouteTables, s1). Inr (routeTableMap' ++ crossAcctRouteTables, s1)))"

subsection \<open>Transit gateway maps, attachments, associations and propagations\<close>

definition setTransitGateway :: "string \<Rightarrow> ident \<Rightarrow> stack \<Rightarrow> stack" where
  "setTransitGateway k v s =
     emit (MapSet TransitGatewaysMap k v) (s\<lparr>transitGatewaysMap := (transitGatewaysMap s)(k \<mapsto> v)\<rparr>)"

definition setTransitGatewayRouteTable :: "string \<Rightarrow> ident \<Rightarrow> stack \<Rightarrow> stack" where
  "setTransitGatewayRouteTable k v s =
     emit (MapSet TransitGatewayRouteTablesMap k v)
       (s\<lparr>transitGatewayRouteTables := (transitGatewayRouteTables s)(k \<mapsto> v)\<rparr>)"

definition setTransitGatewayAttachment :: "string \<Rightarrow> ident \<Rightarrow> stack \<Rightarrow> stack" where
  "setTransitGatewayAttachment k v s =
     emit (MapSet TransitGatewayAttachmentsMap k v)
       (s\<lparr>transitGatewayAttachments := (transitGatewayAttachments s)(k \<mapsto> v)\<rparr>)"

definition setTransitGatewayMap :: "env \<Rightarrow> transitGatewayConfig \<Rightarrow> stack \<Rightarrow> error + stack" where
  "setTransitGatewayMap e tgwItem s =
     bindE (getAccountId e (tgw_account tgwItem))
       (\<lambda>accountId.
          if accountId = stackAccount e \<and> tgw_region tgwItem = stackRegion e
          then Inr (setTransitGateway (tgw_name tgwItem)
                      (SsmParameter (''/accelerator/network/transitGateways/'' @ tgw_name tgwItem
                                     @ ''/id'')) s)
          else Inr s)"

definition setTransitGatewayRouteTableMap ::
  "env \<Rightarrow> transitGatewayConfig \<Rightarrow> stack \<Rightarrow> error + stack" where
  "setTransitGatewayRouteTableMap e tgwItem s =
     bindE (getAccountId e (tgw_account tgwItem))
       (\<lambda>accountId.
          if accountId = stackAccount e \<and> tgw_region tgwItem = stackRegion e
          then Inr (fold (\<lambda>routeTableItem.
                            setTransitGatewayRouteTable
                              (joinKey (tgw_name tgwItem) (trt_name routeTableItem))
                              (SsmParameter (''/accelerator/network/transitGateways/''
                                             @ tgw_name tgwItem @ ''/routeTables/''
                                             @ trt_name routeTableItem @ ''/id'')))
                      (tgw_routeTables tgwItem) s)
          else Inr s)"

fun getTransitGatewayAttachmentAccounts :: "env \<Rightarrow> vpcItem \<Rightarrow> string list \<times> string list" where
  "getTransitGatewayAttachmentAccounts e (VpcConfig v) = ([vpc_account v], [])"
| "getTransitGatewayAttachmentAccounts e (VpcTemplatesConfig v) =
     (getAccountNamesFromDeploymentTarget e (vpc_deploymentTargets v),
      getExcludedAccountIds e (vpc_deploymentTargets v))"

definition describeTgwAttachRole :: "env \<Rightarrow> string" where
  "describeTgwAttachRole e = ''AWSAccelerator-DescribeTgwAttachRole-'' @ stackRegion e"

definition setTransitGatewayVpcAttachmentsMap_owner ::
  "env \<Rightarrow> vpcItem \<Rightarrow> transitGatewayAttachmentConfig \<Rightarrow> string \<Rightarrow> ident \<Rightarrow> string list
   \<Rightarrow> string \<Rightarrow> stack \<Rightarrow> error + stack" where
  "setTransitGatewayVpcAttachmentsMap_owner e vpcItem tgwAttachmentItem accountId transitGatewayId
     excludedAccountIds owningAccount s =
     bindE (getAccountId e owningAccount)
       (\<lambda>owningAccountId.
          if owningAccountId \<in> set excludedAccountIds then Inr s
          else if accountId = owningAccountId
          then Inr (setTransitGatewayAttachment (attachmentKey owningAccount (itemName vpcItem))
                      (SsmParameter (''/accelerator/network/vpc/'' @ itemName vpcItem
                                     @ ''/transitGatewayAttachment/'' @ tga_name tgwAttachmentItem
                                     @ ''/id'')) s)
          else bindE (addChild (pascalCase e (tga_name tgwAttachmentItem @ owningAccount
                                              @ ''VpcTransitGatewayAttachment'')) s)
                 (\<lambda>s1. Inr (setTransitGatewayAttachment
                              (attachmentKey owningAccount (itemName vpcItem))
                              (AttachmentLookup (tga_name tgwAttachmentItem) owningAccountId
                                 transitGatewayId VPC (Some (describeTgwAttachRole e))) s1)))"

definition setTransitGatewayVpcAttachmentsMap_attachment ::
  "env \<Rightarrow> vpcItem \<Rightarrow> string list \<Rightarrow> string list \<Rightarrow> transitGatewayAttachmentConfig
   \<Rightarrow> stack \<Rightarrow> error + stack" where
  "setTransitGatewayVpcAttachmentsMap_attachment e vpcItem accountNames excludedAccountIds
     tgwAttachmentItem s =
     bindE (getAccountId e (tga_transitGatewayAccount tgwAttachmentItem))
       (\<lambda>accountId.
          if accountId = stackAccount e
          then (case transitGatewaysMap s (tga_transitGatewayName tgwAttachmentItem) of
                  None \<Rightarrow> Inl (Error (''Transit Gateway ''
                                      @ tga_transitGatewayName tgwAttachmentItem @ '' not found''))
                | Some transitGatewayId \<Rightarrow>
                    foldE (setTransitGatewayVpcAttachmentsMap_owner e vpcItem tgwAttachmentItem
                             accountId transitGatewayId excludedAccountIds)
                      accountNames s)
          else Inr s)"

definition setTransitGatewayVpcAttachmentsMap :: "env \<Rightarrow> vpcItem \<Rightarrow> stack \<Rightarrow> error + stack" where
  "setTransitGatewayVpcAttachmentsMap e vpcItem s =
     (case getTransitGatewayAttachmentAccounts e vpcItem of
        (accountNames, excludedAccountIds) \<Rightarrow>
          if itemRegion vpcItem = stackRegion e
          then foldE (setTransitGatewayVpcAttachmentsMap_attachment e vpcItem accountNames
                        excludedAccountIds)
                 (itemTransitGatewayAttachments vpcItem) s
          else Inr s)"

text \<open>
  The logical id of an association or propagation of a VPC attachment; a VPC template
  adds the owning account. \<open>suffix\<close> is \<open>Association\<close> or \<open>Propagation\<close>.
\<close>

fun vpcRouteTableLogicalId ::
  "env \<Rightarrow> vpcItem \<Rightarrow> transitGatewayAttachmentConfig \<Rightarrow> string \<Rightarrow> string \<Rightarrow> string \<Rightarrow> string" where
  "vpcRouteTableLogicalId e (VpcConfig v) tgwAttachmentItem routeTableItem owningAccount suffix =
     pascalCase e (tga_name tgwAttachmentItem) @ pascalCase e routeTableItem @ suffix"
| "vpcRouteTableLogicalId e (VpcTemplatesConfig v) tgwAttachmentItem routeTableItem owningAccount suffix =
     pascalCase e (tga_name tgwAttachmentItem) @ pascalCase e routeTableItem
     @ pascalCase e owningAccount @ suffix"

definition createVpcTransitGatewayAssociations_routeTable ::
  "env \<Rightarrow> vpcItem \<Rightarrow> transitGatewayAttachmentConfig \<Rightarrow> string \<Rightarrow> ident \<Rightarrow> string
   \<Rightarrow> stack \<Rightarrow> error + stack" where
  "createVpcTransitGatewayAssociations_routeTable e vpcItem tgwAttachmentItem owningAccount
     transitGatewayAttachmentId routeTableItem s =
     (case transitGatewayRouteTables s
             (joinKey (tga_transitGatewayName tgwAttachmentItem) routeTableItem) of
        None \<Rightarrow> Inl (Error (''Transit Gateway Route Table ''
                            @ joinKey (tga_transitGatewayName tgwAttachmentItem) routeTableItem
                            @ '' not found''))
      | Some transitGatewayRouteTableId \<Rightarrow>
          construct
            (vpcRouteTableLogicalId e vpcItem tgwAttachmentItem routeTableItem owningAccount
               ''Association'')
            (TransitGatewayRouteTableAssociation
                       (vpcRouteTableLogicalId e vpcItem tgwAttachmentItem routeTableItem
                          owningAccount ''Association'')
                       transitGatewayAttachmentId transitGatewayRouteTableId) s)"

definition createVpcTransitGatewayAssociations_owner ::
  "env \<Rightarrow> vpcItem \<Rightarrow> transitGatewayAttachmentConfig \<Rightarrow> string list \<Rightarrow> string
   \<Rightarrow> stack \<Rightarrow> error + stack" where
  "createVpcTransitGatewayAssociations_owner e vpcItem tgwAttachmentItem excludedAccountIds
     owningAccount s =
     bindE (getAccountId e owningAccount)
       (\<lambda>owningAccountId.
          if owningAccountId \<in> set excludedAccountIds then Inr s
          else (case transitGatewayAttachments s (attachmentKey owningAccount (itemName vpcItem)) of
                  None \<Rightarrow> Inl (Error (''Transit Gateway attachment ''
                                      @ attachmentKey owningAccount (itemName vpcItem)
                                      @ '' not found''))
                | Some transitGatewayAttachmentId \<Rightarrow>
                    foldE (createVpcTransitGatewayAssociations_routeTable e vpcItem
                             tgwAttachmentItem owningAccount transitGatewayAttachmentId)
                      (tga_routeTableAssociations tgwAttachmentItem) s))"

definition createVpcTransitGatewayAssociations_attachment ::
  "env \<Rightarrow> vpcItem \<Rightarrow> string list \<Rightarrow> string list \<Rightarrow> transitGatewayAttachmentConfig
   \<Rightarrow> stack \<Rightarrow> error + stack" where
  "createVpcTransitGatewayAssociations_attachment e vpcItem accountNames excludedAccountIds
     tgwAttachmentItem s =
     bindE (getAccountId e (tga_transitGatewayAccount tgwAttachmentItem))
       (\<lambda>accountId.
          if accountId = stackAccount e
          then foldE (createVpcTransitGatewayAssociations_owner e vpcItem tgwAttachmentItem
                        excludedAccountIds)
                 accountNames s
          else Inr s)"

definition createVpcTransitGatewayAssociations :: "env \<Rightarrow> vpcItem \<Rightarrow> stack \<Rightarrow> error + stack" where
  "createVpcTransitGatewayAssociations e vpcItem s =
     (case getTransitGatewayAttachmentAccounts e vpcItem of
        (accountNames, excludedAccountIds) \<Rightarrow>
          if itemRegion vpcItem = stackRegion e
          then foldE (createVpcTransitGatewayAssociations_attachment e vpcItem accountNames
                        excludedAccountIds)
                 (itemTransitGatewayAttachments vpcItem) s
          else Inr s)"

definition createVpcTransitGatewayPropagations_routeTable ::
  "env \<Rightarrow> vpcItem \<Rightarrow> transitGatewayAttachmentConfig \<Rightarrow> string \<Rightarrow> ident \<Rightarrow> string
   \<Rightarrow> stack \<Rightarrow> error + stack" where
  "createVpcTransitGatewayPropagations_routeTable e vpcItem tgwAttachmentItem owningAccount
     transitGatewayAttachmentId routeTableItem s =
     (case transitGatewayRouteTables s
             (joinKey (tga_transitGatewayName tgwAttachmentItem) routeTableItem) of
        None \<Rightarrow> Inl (Error (''Transit Gateway Route Table ''
                            @ joinKey (tga_transitGatewayName tgwAttachmentItem) routeTableItem
                            @ '' not found''))
      | Some transitGatewayRouteTableId \<Rightarrow>
          construct
            (vpcRouteTableLogicalId e vpcItem tgwAttachmentItem routeTableItem owningAccount
               ''Propagation'')
            (TransitGatewayRouteTablePropagation
                       (vpcRouteTableLogicalId e vpcItem tgwAttachmentItem routeTableItem
                          owningAccount ''Propagation'')
                       transitGatewayAttachmentId transitGatewayRouteTableId) s)"

definition createVpcTransitGatewayPropagations_owner ::
  "env \<Rightarrow> vpcItem \<Rightarrow> transitGatewayAttachmentConfig \<Rightarrow> string list \<Rightarrow> string
   \<Rightarrow> stack \<Rightarrow> error + stack" where
  "createVpcTransitGatewayPropagations_owner e vpcItem tgwAttachmentItem excludedAccountIds
     owningAccount s =
     bindE (getAccountId e owningAccount)
       (\<lambda>owningAccountId.
          if owningAccountId \<in> set excludedAccountIds then Inr s
          else (case transitGatewayAttachments s (attachmentKey owningAccount (itemName vpcItem)) of
                  None \<Rightarrow> Inl (Error (''Transit Gateway attachment ''
                                      @ attachmentKey owningAccount (itemName vpcItem)
                                      @ '' not found''))
                | Some transitGatewayAttachmentId \<Rightarrow>
                    foldE (createVpcTransitGatewayPropagations_routeTable e vpcItem
                             tgwAttachmentItem owningAccount transitGatewayAttachmentId)
                      (tga_routeTablePropagations tgwAttachmentItem) s))"

definition createVpcTransitGatewayPropagations_attachment ::
  "env \<Rightarrow> vpcItem \<Rightarrow> string list \<Rightarrow> string list \<Rightarrow> transitGatewayAttachmentConfig
   \<Rightarrow> stack \<Rightarrow> error + stack" where
  "createVpcTransitGatewayPropagations_attachment e vpcItem accountNames excludedAccountIds
     tgwAttachmentItem s =
     bindE (getAccountId e (tga_transitGatewayAccount tgwAttachmentItem))
       (\<lambda>accountId.
          if accountId = stackAccount e
          then foldE (createVpcTransitGatewayPropagations_owner e vpcItem tgwAttachmentItem
                        excludedAccountIds)
                 accountNames s
          else Inr s)"

definition createVpcTransitGatewayPropagations :: "env \<Rightarrow> vpcItem \<Rightarrow> stack \<Rightarrow> error + stack" where
  "createVpcTransitGatewayPropagations e vpcItem s =
     (case getTransitGatewayAttachmentAccounts e vpcItem of
        (accountNames, excludedAccountIds) \<Rightarrow>
          if itemRegion vpcItem = stackRegion e
          then foldE (createVpcTransitGatewayPropagations_attachment e vpcItem accountNames
                        excludedAccountIds)
                 (itemTransitGatewayAttachments vpcItem) s
          else Inr s)"

definition inScope :: "env \<Rightarrow> string \<Rightarrow> string \<Rightarrow> bool" where
  "inScope e accountId r = (accountId = stackAccount e \<and> r = stackRegion e)"

definition setTransitGatewayVpnAttachmentsMap ::
  "env \<Rightarrow> networkConfig \<Rightarrow> customerGatewayConfig \<Rightarrow> vpnConnectionConfig \<Rightarrow> stack \<Rightarrow> error + stack" where
  "setTransitGatewayVpnAttachmentsMap e cfg cgwItem vpnItem s =
     bindE (getAccountId e (cgw_account cgwItem))
       (\<lambda>accountId.
          if inScope e accountId (cgw_region cgwItem) \<and> truthy (vpn_transitGateway vpnItem)
          then (case find (\<lambda>tgwItem. Some (tgw_name tgwItem) = vpn_transitGateway vpnItem)
                       (transitGateways cfg) of
                  None \<Rightarrow> Inl (TypeError ''name'')
                | Some tgw \<Rightarrow>
                    (case transitGatewaysMap s (tgw_name tgw) of
                       None \<Rightarrow> Inl (Error (''Transit Gateway '' @ tgw_name tgw @ '' not found''))
                     | Some transitGatewayId \<Rightarrow>
                         bindE (addChild (pascalCase e (vpn_name vpnItem
                                                      @ ''VpnTransitGatewayAttachment'')) s)
                           (\<lambda>s1. Inr (setTransitGatewayAttachment
                                        (attachmentKey (vpn_name vpnItem) (tgw_name tgw))
                                        (AttachmentLookup (vpn_name vpnItem) accountId
                                           transitGatewayId VPN None) s1))))
          else Inr s)"

definition createVpnTransitGatewayAssociations_routeTable ::
  "env \<Rightarrow> vpnConnectionConfig \<Rightarrow> ident \<Rightarrow> string \<Rightarrow> stack \<Rightarrow> error + stack" where
  "createVpnTransitGatewayAssociations_routeTable e vpnItem transitGatewayAttachmentId
     routeTableItem s =
     (case transitGatewayRouteTables s
             (joinKey (str (vpn_transitGateway vpnItem)) routeTableItem) of
        None \<Rightarrow> Inl (Error (''Transit Gateway Route Table ''
                            @ joinKey (str (vpn_transitGateway vpnItem)) routeTableItem
                            @ '' not found''))
      | Some transitGatewayRouteTableId \<Rightarrow>
          construct
            (pascalCase e (vpn_name vpnItem) @ pascalCase e routeTableItem @ ''Association'')
            (TransitGatewayRouteTableAssociation
                       (pascalCase e (vpn_name vpnItem) @ pascalCase e routeTableItem
                        @ ''Association'')
                       transitGatewayAttachmentId transitGatewayRouteTableId) s)"

definition createVpnTransitGatewayAssociations ::
  "env \<Rightarrow> customerGatewayConfig \<Rightarrow> vpnConnectionConfig \<Rightarrow> stack \<Rightarrow> error + stack" where
  "createVpnTransitGatewayAssociations e cgwItem vpnItem s =
     bindE (getAccountId e (cgw_account cgwItem))
       (\<lambda>accountId.
          case vpn_routeTableAssociations vpnItem of
            None \<Rightarrow> Inr s
          | Some routeTableAssociations \<Rightarrow>
              if inScope e accountId (cgw_region cgwItem)
              then (case transitGatewayAttachments s
                           (attachmentKey (vpn_name vpnItem) (str (vpn_transitGateway vpnItem))) of
                      None \<Rightarrow> Inl (Error (''Transit Gateway attachment ''
                                          @ attachmentKey (vpn_name vpnItem)
                                              (str (vpn_transitGateway vpnItem))
                                          @ '' not found''))
                    | Some transitGatewayAttachmentId \<Rightarrow>
                        foldE (createVpnTransitGatewayAssociations_routeTable e vpnItem
                                 transitGatewayAttachmentId)
                          routeTableAssociations s)
              else Inr s)"

definition createVpnTransitGatewayPropagations_routeTable ::
  "env \<Rightarrow> vpnConnectionConfig \<Rightarrow> ident \<Rightarrow> string \<Rightarrow> stack \<Rightarrow> error + stack" where
  "createVpnTransitGatewayPropagations_routeTable e vpnItem transitGatewayAttachmentId
     routeTableItem s =
     (case transitGatewayRouteTables s
             (joinKey (str (vpn_transitGateway vpnItem)) routeTableItem) of
        None \<Rightarrow> Inl (Error (''Transit Gateway Route Table ''
                            @ joinKey (str (vpn_transitGateway vpnItem)) routeTableItem
                            @ '' not found''))
      | Some transitGatewayRouteTableId \<Rightarrow>
          construct
            (pascalCase e (vpn_name vpnItem) @ pascalCase e routeTableItem @ ''Propagation'')
            (TransitGatewayRouteTablePropagation
                       (pascalCase e (vpn_name vpnItem) @ pascalCase e routeTableItem
                        @ ''Propagation'')
                       transitGatewayAttachmentId transitGatewayRouteTableId) s)"

definition createVpnTransitGatewayPropagations ::
  "env \<Rightarrow> customerGatewayConfig \<Rightarrow> vpnConnectionConfig \<Rightarrow> stack \<Rightarrow> error + stack" where
  "createVpnTransitGatewayPropagations e cgwItem vpnItem s =
     bindE (getAccountId e (cgw_account cgwItem))
       (\<lambda>accountId.
          case vpn_routeTablePropagations vpnItem of
            None \<Rightarrow> Inr s
          | Some routeTablePropagations \<Rightarrow>
              if inScope e accountId (cgw_region cgwItem)
              then (case transitGatewayAttachments s
                           (attachmentKey (vpn_name vpnItem) (str (vpn_transitGateway vpnItem))) of
                      None \<Rightarrow> Inl (Error (''Transit Gateway attachment ''
                                          @ attachmentKey (vpn_name vpnItem)
                                              (str (vpn_transitGateway vpnItem))
                                          @ '' not found''))
                    | Some transitGatewayAttachmentId \<Rightarrow>
                        foldE (createVpnTransitGatewayPropagations_routeTable e vpnItem
                                 transitGatewayAttachmentId)
                          routeTablePropagations s)
              else Inr s)"

definition createTransitGatewayResources_tgw ::
  "env \<Rightarrow> transitGatewayConfig \<Rightarrow> stack \<Rightarrow> error + stack" where
  "createTransitGatewayResources_tgw e tgwItem s =
     bindE (setTransitGatewayMap e tgwItem s) (setTransitGatewayRouteTableMap e tgwItem)"

definition createTransitGatewayResources_vpc :: "env \<Rightarrow> vpcItem \<Rightarrow> stack \<Rightarrow> error + stack" where
  "createTransitGatewayResources_vpc e vpcItem s =
     bindE (setTransitGatewayVpcAttachmentsMap e vpcItem s)
       (\<lambda>s1. bindE (createVpcTransitGatewayAssociations e vpcItem s1)
                (createVpcTransitGatewayPropagations e vpcItem))"

definition createTransitGatewayResources_vpn ::
  "env \<Rightarrow> networkConfig \<Rightarrow> customerGatewayConfig \<Rightarrow> vpnConnectionConfig \<Rightarrow> stack \<Rightarrow> error + stack" where
  "createTransitGatewayResources_vpn e cfg cgwItem vpnItem s =
     bindE (setTransitGatewayVpnAttachmentsMap e cfg cgwItem vpnItem s)
       (\<lambda>s1. bindE (createVpnTransitGatewayAssociations e cgwItem vpnItem s1)
                (createVpnTransitGatewayPropagations e cgwItem vpnItem))"

definition createTransitGatewayResources_cgw ::
  "env \<Rightarrow> networkConfig \<Rightarrow> customerGatewayConfig \<Rightarrow> stack \<Rightarrow> error + stack" where
  "createTransitGatewayResources_cgw e cfg cgwItem s =
     foldE (createTransitGatewayResources_vpn e cfg cgwItem) (cgw_vpnConnections cgwItem) s"

definition createTransitGatewayResources :: "env \<Rightarrow> networkConfig \<Rightarrow> stack \<Rightarrow> error + stack" where
  "createTransitGatewayResources e cfg s =
     bindE (foldE (createTransitGatewayResources_tgw e) (transitGateways cfg) s)
       (\<lambda>s1. bindE (foldE (createTransitGatewayResources_vpc e) (allVpcItems cfg) s1)
                (foldE (createTransitGatewayResources_cgw e cfg) (customerGateways cfg)))"

subsection \<open>Route 53 private hosted zone associations\<close>

definition isCentralEndpointVpc :: "env \<Rightarrow> vpcConfig \<Rightarrow> error + bool" where
  "isCentralEndpointVpc e item =
     (case vpc_interfaceEndpoints item of
        None \<Rightarrow> Inr False
      | Some ie \<Rightarrow>
          if \<not> ie_central ie then Inr False
          else bindE (getAccountId e (vpc_account item))
                 (\<lambda>accountId. Inr (accountId = stackAccount e \<and> vpc_region item = stackRegion e)))"

definition pushNew :: "string \<Rightarrow> string list \<Rightarrow> error + string list" where
  "pushNew accountId acc = Inr (if accountId \<in> set acc then acc else acc @ [accountId])"

definition zoneAssociationStep :: "env \<Rightarrow> vpcItem \<Rightarrow> string list \<Rightarrow> error + string list" where
  "zoneAssociationStep e vpcItem acc =
     bindE (getVpcAccountIds e vpcItem)
       (\<lambda>vpcAccountIds.
          if itemRegion vpcItem = stackRegion e \<and> itemUseCentralEndpoints vpcItem
          then foldE pushNew vpcAccountIds acc
          else Inr acc)"

definition hostedZoneIdsOf :: "vpcConfig \<Rightarrow> ident list" where
  "hostedZoneIdsOf v =
     map (\<lambda>service. SsmParameter (''/accelerator/network/vpc/'' @ vpc_name v
                                  @ ''/route53/hostedZone/'' @ service @ ''/id''))
       (case vpc_interfaceEndpoints v of None \<Rightarrow> [] | Some ie \<Rightarrow> ie_endpoints ie)"

definition createHostedZoneAssociations :: "env \<Rightarrow> networkConfig \<Rightarrow> stack \<Rightarrow> error + stack" where
  "createHostedZoneAssociations e cfg s =
     bindE (filterE (isCentralEndpointVpc e) (vpcs cfg))
       (\<lambda>centralEndpointVpcs.
          if partition e \<noteq> ''aws'' \<and> partition e \<noteq> ''aws-cn'' \<and> length centralEndpointVpcs > 0
          then Inl (Error ''Central Endpoint VPC is only possible in commercial regions'')
          else if length centralEndpointVpcs > 1
          then Inl (Error (''multiple ('' @ showNat (length centralEndpointVpcs)
                           @ '') central endpoint vpcs detected, should only be one''))
          else (case centralEndpointVpcs of
                  [] \<Rightarrow> Inr s
                | centralEndpointVpc # _ \<Rightarrow>
                    bindE (foldE (zoneAssociationStep e) (allVpcItems cfg) [])
                      (\<lambda>zoneAssociationAccountIds.
                         bindE (getAccountId e (vpc_account centralEndpointVpc))
                           (\<lambda>centralId.
                              construct ''AssociateHostedZones''
                                (AssociateHostedZones
                                   \<lparr>ahz_accountIds = zoneAssociationAccountIds,
                                    ahz_hostedZoneIds = hostedZoneIdsOf centralEndpointVpc,
                                    ahz_hostedZoneAccountId = stackAccount e,
                                    ahz_roleName = ''AWSAccelerator-EnableCentralEndpointsRole-''
                                                   @ stackRegion e,
                                    ahz_centralEndpointsAccountId = centralId\<rparr>) s))))"

subsection \<open>Central network service associations\<close>

definition setDnsFirewall :: "string \<Rightarrow> ident \<Rightarrow> stack \<Rightarrow> stack" where
  "setDnsFirewall k v s =
     emit (MapSet DnsFirewallMap k v) (s\<lparr>dnsFirewallMap := (dnsFirewallMap s)(k \<mapsto> v)\<rparr>)"

definition setQueryLog :: "string \<Rightarrow> ident \<Rightarrow> stack \<Rightarrow> stack" where
  "setQueryLog k v s =
     emit (MapSet QueryLogMap k v) (s\<lparr>queryLogMap := (queryLogMap s)(k \<mapsto> v)\<rparr>)"

definition setResolverRule :: "string \<Rightarrow> ident \<Rightarrow> stack \<Rightarrow> stack" where
  "setResolverRule k v s =
     emit (MapSet ResolverRuleMap k v) (s\<lparr>resolverRuleMap := (resolverRuleMap s)(k \<mapsto> v)\<rparr>)"

definition vpcIdOf :: "string \<Rightarrow> ident" where
  "vpcIdOf n = SsmParameter (''/accelerator/network/vpc/'' @ n @ ''/id'')"

definition lookupDnsFirewall :: "env \<Rightarrow> string \<Rightarrow> string \<Rightarrow> stack \<Rightarrow> stack" where
  "lookupDnsFirewall e owningAccountId n s =
     (if dnsFirewallMap s n = None
      then (if owningAccountId = stackAccount e
            then setDnsFirewall n
                   (SsmParameter (''/accelerator/network/route53Resolver/firewall/ruleGroups/''
                                  @ n @ ''/id'')) s
            else setDnsFirewall n
                   (ResourceShareItem (n @ ''_ResolverFirewallRuleGroupShare'')
                      ''route53resolver:FirewallRuleGroup'' owningAccountId) s)
      else s)"

definition createDnsFirewallAssociations_item ::
  "env \<Rightarrow> vpcItem \<Rightarrow> string \<Rightarrow> dnsFirewallRuleGroupConfig \<Rightarrow> stack \<Rightarrow> error + stack" where
  "createDnsFirewallAssociations_item e vpcItem owningAccountId firewallItem s =
     (let s1 = lookupDnsFirewall e owningAccountId (dfw_name firewallItem) s
      in case dnsFirewallMap s1 (dfw_name firewallItem) of
           None \<Rightarrow> Inl (Error (''[network-associations-stack] Could not find existing DNS firewall rule group ''
                               @ dfw_name firewallItem))
         | Some firewallRuleGroupId \<Rightarrow>
             construct
               (pascalCase e (itemName vpcItem @ dfw_name firewallItem
                @ ''RuleGroupAssociation''))
               (ResolverFirewallRuleGroupAssociation
                          (pascalCase e (itemName vpcItem @ dfw_name firewallItem
                                         @ ''RuleGroupAssociation''))
                          firewallRuleGroupId (dfw_priority firewallItem)
                          (vpcIdOf (itemName vpcItem))) s1)"

definition createDnsFirewallAssociations :: "env \<Rightarrow> vpcItem \<Rightarrow> string \<Rightarrow> stack \<Rightarrow> error + stack" where
  "createDnsFirewallAssociations e vpcItem owningAccountId s =
     foldE (createDnsFirewallAssociations_item e vpcItem owningAccountId)
       (itemDnsFirewallRuleGroups vpcItem) s"

definition lookupQueryLog :: "env \<Rightarrow> string \<Rightarrow> string \<Rightarrow> stack \<Rightarrow> stack" where
  "lookupQueryLog e owningAccountId nameItem s =
     (if queryLogMap s nameItem = None
      then (if owningAccountId = stackAccount e
            then setQueryLog nameItem
                   (SsmParameter (''/accelerator/network/route53Resolver/queryLogConfigs/''
                                  @ nameItem @ ''/id'')) s
            else setQueryLog nameItem
                   (ResourceShareItem (nameItem @ ''_QueryLogConfigShare'')
                      ''route53resolver:ResolverQueryLogConfig'' owningAccountId) s)
      else s)"

definition createQueryLogConfigAssociations_assoc ::
  "env \<Rightarrow> vpcItem \<Rightarrow> string \<Rightarrow> stack \<Rightarrow> error + stack" where
  "createQueryLogConfigAssociations_assoc e vpcItem nameItem s =
     (case queryLogMap s nameItem of
        None \<Rightarrow> Inl (Error (''[network-associations-stack] Could not find existing DNS query log config ''
                            @ nameItem))
      | Some resolverQueryLogConfigId \<Rightarrow>
          construct
            (pascalCase e (itemName vpcItem @ nameItem @ ''QueryLogAssociation''))
            (QueryLoggingConfigAssociation
                       (pascalCase e (itemName vpcItem @ nameItem @ ''QueryLogAssociation''))
                       resolverQueryLogConfigId (vpcIdOf (itemName vpcItem))) s)"

definition queryLogConfigNames :: "centralNetworkServicesConfig \<Rightarrow> string \<Rightarrow> string list" where
  "queryLogConfigNames centralNetworkConfig configItem =
     (case cns_queryLogDestinations centralNetworkConfig of
        None \<Rightarrow> []
      | Some destinations \<Rightarrow>
          (if ''s3'' \<in> set destinations then [configItem @ ''-s3''] else [])
          @ (if ''cloud-watch-logs'' \<in> set destinations then [configItem @ ''-cwl''] else []))"

definition createQueryLogConfigAssociations_item ::
  "env \<Rightarrow> networkConfig \<Rightarrow> vpcItem \<Rightarrow> string \<Rightarrow> string \<Rightarrow> stack \<Rightarrow> error + stack" where
  "createQueryLogConfigAssociations_item e cfg vpcItem owningAccountId configItem s =
     (case centralNetworkServices cfg of
        None \<Rightarrow> Inl (TypeError ''route53Resolver'')
      | Some centralNetworkConfig \<Rightarrow>
          (let configNames = queryLogConfigNames centralNetworkConfig configItem
           in foldE (createQueryLogConfigAssociations_assoc e vpcItem) configNames
                (fold (lookupQueryLog e owningAccountId) configNames s)))"

definition createQueryLogConfigAssociations ::
  "env \<Rightarrow> networkConfig \<Rightarrow> vpcItem \<Rightarrow> string \<Rightarrow> stack \<Rightarrow> error + stack" where
  "createQueryLogConfigAssociations e cfg vpcItem owningAccountId s =
     foldE (createQueryLogConfigAssociations_item e cfg vpcItem owningAccountId)
       (itemQueryLogs vpcItem) s"

definition lookupResolverRule :: "env \<Rightarrow> string \<Rightarrow> string \<Rightarrow> stack \<Rightarrow> stack" where
  "lookupResolverRule e owningAccountId ruleItem s =
     (if resolverRuleMap s ruleItem = None
      then (if owningAccountId = stackAccount e
            then setResolverRule ruleItem
                   (SsmParameter (''/accelerator/network/route53Resolver/rules/''
                                  @ ruleItem @ ''/id'')) s
            else setResolverRule ruleItem
                   (ResourceShareItem (ruleItem @ ''_ResolverRule'')
                      ''route53resolver:ResolverRule'' owningAccountId) s)
      else s)"

definition createResolverRuleAssociations_item ::
  "env \<Rightarrow> vpcItem \<Rightarrow> string \<Rightarrow> string \<Rightarrow> stack \<Rightarrow> error + stack" where
  "createResolverRuleAssociations_item e vpcItem owningAccountId ruleItem s =
     (let s1 = lookupResolverRule e owningAccountId ruleItem s
      in case resolverRuleMap s1 ruleItem of
           None \<Rightarrow> Inl (Error (''[network-associations-stack] Could not find existing Route 53 Resolver rule ''
                               @ ruleItem))
         | Some resolverRuleId \<Rightarrow>
             construct
               (pascalCase e (itemName vpcItem @ ruleItem @ ''RuleAssociation''))
               (ResolverRuleAssociation
                          (pascalCase e (itemName vpcItem @ ruleItem @ ''RuleAssociation''))
                          resolverRuleId (vpcIdOf (itemName vpcItem))) s1)"

definition createResolverRuleAssociations :: "env \<Rightarrow> vpcItem \<Rightarrow> string \<Rightarrow> stack \<Rightarrow> error + stack" where
  "createResolverRuleAssociations e vpcItem owningAccountId s =
     foldE (createResolverRuleAssociations_item e vpcItem owningAccountId)
       (itemResolverRules vpcItem) s"

definition createCentralNetworkAssociations_vpc ::
  "env \<Rightarrow> networkConfig \<Rightarrow> centralNetworkServicesConfig \<Rightarrow> vpcItem \<Rightarrow> stack \<Rightarrow> error + stack" where
  "createCentralNetworkAssociations_vpc e cfg centralNetworkConfig vpcItem s =
     bindE (getVpcAccountIds e vpcItem)
       (\<lambda>vpcAccountIds.
          bindE (getAccountId e (cns_delegatedAdminAccount centralNetworkConfig))
            (\<lambda>delegatedAdminAccountId.
               if stackAccount e \<in> set vpcAccountIds \<and> itemRegion vpcItem = stackRegion e
               then bindE (createDnsFirewallAssociations e vpcItem delegatedAdminAccountId s)
                      (\<lambda>s1. bindE (createQueryLogConfigAssociations e cfg vpcItem
                                      delegatedAdminAccountId s1)
                               (createResolverRuleAssociations e vpcItem delegatedAdminAccountId))
               else Inr s))"

definition createCentralNetworkAssociations :: "env \<Rightarrow> networkConfig \<Rightarrow> stack \<Rightarrow> error + stack" where
  "createCentralNetworkAssociations e cfg s =
     (case centralNetworkServices cfg of
        None \<Rightarrow> Inr s
      | Some centralNetworkConfig \<Rightarrow>
          foldE (createCentralNetworkAssociations_vpc e cfg centralNetworkConfig)
            (allVpcItems cfg) s)"

subsection \<open>VPC peering connections and routes\<close>

text \<open>
  The second argument of the route functions is the \<open>VpcPeering\<close> construct; the
  functions read its \<open>name\<close> and call \<open>addPeeringRoute\<close> or \<open>addCrossAcctPeeringRoute\<close> on
  it, so the model passes the name. \<open>this.ssmParameters.push\<close> appends to a list of the
  base class that no function here reads; it is left out.
\<close>

definition peeringRouteId :: "env \<Rightarrow> string \<Rightarrow> routeTableConfig \<Rightarrow> routeTableEntryConfig \<Rightarrow> string" where
  "peeringRouteId e vpcName routeTable routeTableEntry =
     pascalCase e (vpcName @ ''Vpc'') @ pascalCase e (rt_name routeTable @ ''RouteTable'')
     @ pascalCase e (rte_name routeTableEntry)"

definition createRequesterVpcPeeringRoutes_entry ::
  "env \<Rightarrow> vpcConfig \<Rightarrow> string \<Rightarrow> routeTableConfig \<Rightarrow> routeTableEntryConfig
   \<Rightarrow> stack \<Rightarrow> error + stack" where
  "createRequesterVpcPeeringRoutes_entry e requesterVpc peeringName routeTable routeTableEntry s =
     (if targetsPeering peeringName routeTableEntry
      then (case routeTableMap s (joinKey (vpc_name requesterVpc) (rt_name routeTable)) of
              None \<Rightarrow> Inl (Error (''Route Table '' @ rt_name routeTable @ '' not found''))
            | Some routeTableId \<Rightarrow>
                if truthy (rte_destinationPrefixList routeTableEntry)
                then (case prefixListMap s (str (rte_destinationPrefixList routeTableEntry)) of
                        None \<Rightarrow> Inl (Error (''[network-associations-stack] Prefix list ''
                                            @ str (rte_destinationPrefixList routeTableEntry)
                                            @ '' not found''))
                      | Some destinationPrefixListId \<Rightarrow>
                          Inr (emit (PeeringRoute peeringName
                                       (peeringRouteId e (vpc_name requesterVpc) routeTable
                                          routeTableEntry)
                                       routeTableId None (Some destinationPrefixListId)) s))
                else Inr (emit (PeeringRoute peeringName
                                  (peeringRouteId e (vpc_name requesterVpc) routeTable
                                     routeTableEntry)
                                  routeTableId (rte_destination routeTableEntry) None) s))
      else Inr s)"

definition createRequesterVpcPeeringRoutes ::
  "env \<Rightarrow> vpcConfig \<Rightarrow> string \<Rightarrow> stack \<Rightarrow> error + stack" where
  "createRequesterVpcPeeringRoutes e requesterVpc peeringName s =
     foldE (\<lambda>routeTable.
              foldE (createRequesterVpcPeeringRoutes_entry e requesterVpc peeringName routeTable)
                (rt_routes routeTable))
       (vpc_routeTables requesterVpc) s"

definition createAccepterVpcPeeringRoutes_entry ::
  "env \<Rightarrow> string \<Rightarrow> vpcConfig \<Rightarrow> vpcConfig \<Rightarrow> string \<Rightarrow> routeTableConfig
   \<Rightarrow> routeTableEntryConfig \<Rightarrow> stack \<Rightarrow> error + stack" where
  "createAccepterVpcPeeringRoutes_entry e accepterAccountId accepterVpc requesterVpc peeringName
     routeTable routeTableEntry s =
     (if targetsPeering peeringName routeTableEntry
      then (case routeTableMap s (joinKey (vpc_name accepterVpc) (rt_name routeTable)) of
              None \<Rightarrow> Inl (Error (''[network-associations-stack] Route Table ''
                                  @ rt_name routeTable @ '' not found''))
            | Some routeTableId \<Rightarrow>
                if vpc_account requesterVpc = vpc_account accepterVpc
                   \<and> vpc_region requesterVpc = vpc_region accepterVpc
                then (if truthy (rte_destinationPrefixList routeTableEntry)
                      then (case prefixListMap s (str (rte_destinationPrefixList routeTableEntry)) of
                              None \<Rightarrow> Inl (Error (''[network-associations-stack] Prefix list ''
                                                  @ str (rte_destinationPrefixList routeTableEntry)
                                                  @ '' not found''))
                            | Some destinationPrefixListId \<Rightarrow>
                                Inr (emit (PeeringRoute peeringName
                                             (peeringRouteId e (vpc_name accepterVpc) routeTable
                                                routeTableEntry)
                                             routeTableId None (Some destinationPrefixListId)) s))
                      else Inr (emit (PeeringRoute peeringName
                                        (peeringRouteId e (vpc_name accepterVpc) routeTable
                                           routeTableEntry)
                                        routeTableId (rte_destination routeTableEntry) None) s))
                else (let destinationPrefixListId =
                            (if truthy (rte_destinationPrefixList routeTableEntry)
                             then prefixListMap s
                                    (vpc_account accepterVpc @ ''_'' @ vpc_region accepterVpc @ ''_''
                                     @ str (rte_destinationPrefixList routeTableEntry))
                             else None);
                          destination =
                            (if truthy (rte_destinationPrefixList routeTableEntry)
                             then None else rte_destination routeTableEntry)
                      in if \<not> crossAcctRouteProvider s
                         then Inl (Error (''[network-associations-stack] Cross-account route provider not created but required for ''
                                          @ rte_name routeTableEntry))
                         else Inr (emit (CrossAcctPeeringRoute peeringName
                                           \<lparr>car_id = peeringRouteId e (vpc_name accepterVpc)
                                                       routeTable routeTableEntry,
                                            car_ownerAccount = accepterAccountId,
                                            car_ownerRegion = vpc_region accepterVpc,
                                            car_partition = partition e,
                                            car_roleName = vpcPeeringRole (vpc_region accepterVpc),
                                            car_routeTableId = routeTableId,
                                            car_destination = destination,
                                            car_destinationPrefixListId = destinationPrefixListId\<rparr>)
                                     s)))
      else Inr s)"

definition createAccepterVpcPeeringRoutes ::
  "env \<Rightarrow> string \<Rightarrow> vpcConfig \<Rightarrow> vpcConfig \<Rightarrow> string \<Rightarrow> stack \<Rightarrow> error + stack" where
  "createAccepterVpcPeeringRoutes e accepterAccountId accepterVpc requesterVpc peeringName s =
     foldE (\<lambda>routeTable.
              foldE (createAccepterVpcPeeringRoutes_entry e accepterAccountId accepterVpc
                       requesterVpc peeringName routeTable)
                (rt_routes routeTable))
       (vpc_routeTables accepterVpc) s"

definition createVpcPeeringRoutes ::
  "env \<Rightarrow> string \<Rightarrow> vpcConfig \<Rightarrow> vpcConfig \<Rightarrow> string \<Rightarrow> stack \<Rightarrow> error + stack" where
  "createVpcPeeringRoutes e accepterAccountId requesterVpc accepterVpc peeringName s =
     bindE (createRequesterVpcPeeringRoutes e requesterVpc peeringName s)
       (createAccepterVpcPeeringRoutes e accepterAccountId accepterVpc requesterVpc peeringName)"

definition createVpcPeeringConnections_peering :: "env \<Rightarrow> peering \<Rightarrow> stack \<Rightarrow> error + stack" where
  "createVpcPeeringConnections_peering e peering s =
     bindE (getAccountId e (vpc_account (p_requester peering)))
       (\<lambda>requesterAccountId.
          case p_accepter peering of
            None \<Rightarrow> Inl (TypeError ''account'')
          | Some accepter \<Rightarrow>
              bindE (getAccountId e (vpc_account accepter))
                (\<lambda>accepterAccountId.
                   let crossAccountCondition =
                         (accepterAccountId \<noteq> requesterAccountId
                          \<or> vpc_region accepter \<noteq> vpc_region (p_requester peering))
                   in bindE (if crossAccountCondition
                             then addChild (pascalCase e (''SsmParamLookup'' @ p_name peering)) s
                             else Inr s)
                        (\<lambda>s0.
                           bindE (construct (p_name peering @ ''VpcPeering'')
                                    (VpcPeering
                                       \<lparr>vpp_name = p_name peering,
                                        vpp_peerOwnerId = accepterAccountId,
                                        vpp_peerRegion = vpc_region accepter,
                                        vpp_peerVpcId =
                                          (if crossAccountCondition
                                           then SsmParameterLookup
                                                  (''/accelerator/network/vpc/''
                                                   @ vpc_name accepter @ ''/id'')
                                                  accepterAccountId (vpc_region accepter)
                                                  (vpcPeeringRole (vpc_region accepter))
                                           else vpcIdOf (vpc_name accepter)),
                                        vpp_peerRoleName =
                                          (if crossAccountCondition
                                           then Some (vpcPeeringRole (vpc_region accepter))
                                           else None),
                                        vpp_vpcId = vpcIdOf (vpc_name (p_requester peering))\<rparr>)
                                    s0)
                             (\<lambda>s1.
                                bindE (if crossAccountCondition
                                       then construct
                                              (pascalCase e (''CrossAcctSsmParam''
                                                             @ pascalCase e (p_name peering)
                                                             @ ''VpcPeering''))
                                              (PutSsmParameter (vpc_region accepter)
                                                 (''/accelerator/network/vpcPeering/''
                                                  @ p_name peering @ ''/id'')
                                                 accepterAccountId
                                                 (vpcPeeringRole (vpc_region accepter))
                                                 (PeeringId (p_name peering))) s1
                                       else Inr s1)
                                  (createVpcPeeringRoutes e accepterAccountId (p_requester peering)
                                     accepter (p_name peering))))))"

definition createVpcPeeringConnections :: "env \<Rightarrow> stack \<Rightarrow> error + stack" where
  "createVpcPeeringConnections e s = foldE (createVpcPeeringConnections_peering e) (peeringList s) s"

subsection \<open>Direct Connect gateways\<close>

definition setDxGateway :: "string \<Rightarrow> ident \<Rightarrow> stack \<Rightarrow> stack" where
  "setDxGateway k v s =
     emit (MapSet DxGatewayMap k v) (s\<lparr>dxGatewayMap := (dxGatewayMap s)(k \<mapsto> v)\<rparr>)"

definition dxGatewayParameter :: "dxGatewayConfig \<Rightarrow> string" where
  "dxGatewayParameter dxgwItem =
     ''/accelerator/network/directConnectGateways/'' @ dx_name dxgwItem @ ''/id''"

definition dxGatewayRole :: "env \<Rightarrow> dxGatewayConfig \<Rightarrow> string" where
  "dxGatewayRole e dxgwItem =
     ''AWSAccelerator-Get'' @ pascalCase e (dx_name dxgwItem) @ ''SsmParamRole-'' @ homeRegion e"

definition dxGatewayLookupId :: "env \<Rightarrow> dxGatewayConfig \<Rightarrow> string" where
  "dxGatewayLookupId e dxgwItem = pascalCase e (''SsmParamLookup'' @ dx_name dxgwItem)"

definition setDxGatewayMap ::
  "env \<Rightarrow> dxGatewayConfig \<Rightarrow> transitGatewayConfig \<Rightarrow> string \<Rightarrow> stack \<Rightarrow> error + stack" where
  "setDxGatewayMap e dxgwItem tgw tgwAccountId s =
     bindE (if dx_account dxgwItem \<noteq> tgw_account tgw \<and> inScope e tgwAccountId (tgw_region tgw)
            then bindE (getAccountId e (dx_account dxgwItem))
                   (\<lambda>directConnectGatewayOwnerAccount.
                      bindE (addChild (dxGatewayLookupId e dxgwItem) s)
                        (\<lambda>s0. Inr (setDxGateway (dx_name dxgwItem)
                                     (SsmParameterLookup (dxGatewayParameter dxgwItem)
                                        directConnectGatewayOwnerAccount (homeRegion e)
                                        (dxGatewayRole e dxgwItem)) s0)))
            else Inr s)
       (\<lambda>s1. if dx_account dxgwItem = tgw_account tgw \<and> inScope e tgwAccountId (tgw_region tgw)
              then (if tgw_region tgw = homeRegion e
                    then Inr (setDxGateway (dx_name dxgwItem)
                                (SsmParameter (dxGatewayParameter dxgwItem)) s1)
                    else bindE (addChild (dxGatewayLookupId e dxgwItem) s1)
                           (\<lambda>s0. Inr (setDxGateway (dx_name dxgwItem)
                                        (SsmParameterLookup (dxGatewayParameter dxgwItem)
                                           (stackAccount e) (homeRegion e)
                                           (dxGatewayRole e dxgwItem)) s0)))
              else Inr s1)"

text \<open>
  The two conditional blocks of \<open>createDxGatewayTgwAssociations\<close> fill
  \<open>associationLogicalId\<close> and \<open>associationProps\<close> and set \<open>createAssociation\<close>; the pair is
  \<open>None\<close> while \<open>createAssociation\<close> is false.
\<close>

definition dxAssociationIds ::
  "dxGatewayConfig \<Rightarrow> transitGatewayConfig \<Rightarrow> stack \<Rightarrow> error + ident \<times> ident" where
  "dxAssociationIds dxgwItem tgw s =
     (case dxGatewayMap s (dx_name dxgwItem) of
        None \<Rightarrow> Inl (Error (''[network-associations-stack] Create DX Gateway associations: unable to locate DX Gateway ID for ''
                            @ dx_name dxgwItem))
      | Some directConnectGatewayId \<Rightarrow>
          (case transitGatewaysMap s (tgw_name tgw) of
             None \<Rightarrow> Inl (Error (''[network-associations-stack] Create DX Gateway associations: unable to locate transit gateway ID for ''
                                 @ tgw_name tgw))
           | Some gatewayId \<Rightarrow> Inr (directConnectGatewayId, gatewayId)))"

definition createDxGatewayTgwAssociations_proposal ::
  "env \<Rightarrow> dxGatewayConfig \<Rightarrow> transitGatewayConfig \<Rightarrow> dxTransitGatewayAssociationConfig
   \<Rightarrow> string \<Rightarrow> stack \<Rightarrow> error + (string \<times> dxAssociationProps) option" where
  "createDxGatewayTgwAssociations_proposal e dxgwItem tgw associationItem tgwAccountId s =
     (if dx_account dxgwItem \<noteq> tgw_account tgw \<and> inScope e tgwAccountId (tgw_region tgw)
      then bindE (getAccountId e (dx_account dxgwItem))
             (\<lambda>directConnectGatewayOwnerAccount.
                bindE (dxAssociationIds dxgwItem tgw s)
                  (\<lambda>(directConnectGatewayId, gatewayId).
                     Inr (Some (pascalCase e (dx_name dxgwItem @ tgw_name tgw
                                              @ ''DxGatewayAssociationProposal''),
                                \<lparr>dap_allowedPrefixes = dxa_allowedPrefixes associationItem,
                                 dap_directConnectGatewayId = directConnectGatewayId,
                                 dap_directConnectGatewayOwnerAccount =
                                   Some directConnectGatewayOwnerAccount,
                                 dap_gatewayId = gatewayId\<rparr>))))
      else Inr None)"

definition createDxGatewayTgwAssociations_direct ::
  "env \<Rightarrow> dxGatewayConfig \<Rightarrow> transitGatewayConfig \<Rightarrow> dxTransitGatewayAssociationConfig
   \<Rightarrow> string \<Rightarrow> (string \<times> dxAssociationProps) option \<Rightarrow> stack
   \<Rightarrow> error + (string \<times> dxAssociationProps) option" where
  "createDxGatewayTgwAssociations_direct e dxgwItem tgw associationItem tgwAccountId before s =
     (if dx_account dxgwItem = tgw_account tgw \<and> inScope e tgwAccountId (tgw_region tgw)
      then bindE (dxAssociationIds dxgwItem tgw s)
             (\<lambda>(directConnectGatewayId, gatewayId).
                Inr (Some (pascalCase e (dx_name dxgwItem @ tgw_name tgw
                                         @ ''DxGatewayAssociation''),
                           \<lparr>dap_allowedPrefixes = dxa_allowedPrefixes associationItem,
                            dap_directConnectGatewayId = directConnectGatewayId,
                            dap_directConnectGatewayOwnerAccount = None,
                            dap_gatewayId = gatewayId\<rparr>)))
      else Inr before)"

definition createDxGatewayTgwAssociations ::
  "env \<Rightarrow> dxGatewayConfig \<Rightarrow> transitGatewayConfig \<Rightarrow> dxTransitGatewayAssociationConfig
   \<Rightarrow> string \<Rightarrow> stack \<Rightarrow> error + stack" where
  "createDxGatewayTgwAssociations e dxgwItem tgw associationItem tgwAccountId s =
     bindE (createDxGatewayTgwAssociations_proposal e dxgwItem tgw associationItem tgwAccountId s)
       (\<lambda>proposal.
          bindE (createDxGatewayTgwAssociations_direct e dxgwItem tgw associationItem tgwAccountId
                   proposal s)
            (\<lambda>association.
               case association of
                 None \<Rightarrow> Inr s
               | Some (associationLogicalId, associationProps) \<Rightarrow>
                   if associationLogicalId = []
                   then Inl (Error (''[network-associations-stack] Create DX Gateway associations: unable to process properties for association between DX Gateway ''
                                    @ dx_name dxgwItem @ '' and transit gateway '' @ tgw_name tgw))
                   else bindE (construct associationLogicalId
                                 (DirectConnectGatewayAssociation associationLogicalId
                                    associationProps) s)
                          (\<lambda>s1. if hasAttachmentId e associationLogicalId
                                      (dap_directConnectGatewayOwnerAccount associationProps)
                                 then Inr (setTransitGatewayAttachment
                                             (attachmentKey (dx_name dxgwItem) (tgw_name tgw))
                                             (AssociationAttachment associationLogicalId) s1)
                                 else Inr s1)))"

definition createDxTgwRouteTableAssociations ::
  "env \<Rightarrow> dxGatewayConfig \<Rightarrow> transitGatewayConfig \<Rightarrow> string \<Rightarrow> string \<Rightarrow> stack \<Rightarrow> error + stack" where
  "createDxTgwRouteTableAssociations e dxgwItem tgw tgwRouteTableName tgwAccountId s =
     (if inScope e tgwAccountId (tgw_region tgw)
      then (case transitGatewayAttachments s (attachmentKey (dx_name dxgwItem) (tgw_name tgw)) of
              None \<Rightarrow> Inl (Error (''[network-associations-stack] Create DX TGW route table associations: unable to locate attachment ''
                                  @ attachmentKey (dx_name dxgwItem) (tgw_name tgw)))
            | Some transitGatewayAttachmentId \<Rightarrow>
                (case transitGatewayRouteTables s (joinKey (tgw_name tgw) tgwRouteTableName) of
                   None \<Rightarrow> Inl (Error (''[network-associations-stack] Create DX TGW route table associations: unable to locate route table ''
                                       @ joinKey (tgw_name tgw) tgwRouteTableName))
                 | Some transitGatewayRouteTableId \<Rightarrow>
                     construct
                       (pascalCase e (dx_name dxgwItem @ tgwRouteTableName @ ''Association''))
                       (TransitGatewayRouteTableAssociation
                                  (pascalCase e (dx_name dxgwItem @ tgwRouteTableName
                                                 @ ''Association''))
                                  transitGatewayAttachmentId transitGatewayRouteTableId) s))
      else Inr s)"

definition createDxTgwRouteTablePropagations ::
  "env \<Rightarrow> dxGatewayConfig \<Rightarrow> transitGatewayConfig \<Rightarrow> string \<Rightarrow> string \<Rightarrow> stack \<Rightarrow> error + stack" where
  "createDxTgwRouteTablePropagations e dxgwItem tgw tgwRouteTableName tgwAccountId s =
     (if inScope e tgwAccountId (tgw_region tgw)
      then (case transitGatewayAttachments s (attachmentKey (dx_name dxgwItem) (tgw_name tgw)) of
              None \<Rightarrow> Inl (Error (''[network-associations-stack] Create DX TGW route table associations: unable to locate attachment ''
                                  @ attachmentKey (dx_name dxgwItem) (tgw_name tgw)))
            | Some transitGatewayAttachmentId \<Rightarrow>
                (case transitGatewayRouteTables s (joinKey (tgw_name tgw) tgwRouteTableName) of
                   None \<Rightarrow> Inl (Error (''[network-associations-stack] Create DX TGW route table associations: unable to locate route table ''
                                       @ joinKey (tgw_name tgw) tgwRouteTableName))
                 | Some transitGatewayRouteTableId \<Rightarrow>
                     construct
                       (pascalCase e (dx_name dxgwItem @ tgwRouteTableName @ ''Propagation''))
                       (TransitGatewayRouteTablePropagation
                                  (pascalCase e (dx_name dxgwItem @ tgwRouteTableName
                                                 @ ''Propagation''))
                                  transitGatewayAttachmentId transitGatewayRouteTableId) s))
      else Inr s)"

definition createDirectConnectResources_association ::
  "env \<Rightarrow> networkConfig \<Rightarrow> dxGatewayConfig \<Rightarrow> dxTransitGatewayAssociationConfig
   \<Rightarrow> stack \<Rightarrow> error + stack" where
  "createDirectConnectResources_association e cfg dxgwItem associationItem s =
     (case find (\<lambda>item. tgw_name item = dxa_name associationItem
                        \<and> tgw_account item = dxa_account associationItem)
             (transitGateways cfg) of
        None \<Rightarrow> Inl (Error (''[network-associations-stack] Unable to locate transit gateway ''
                            @ dxa_name associationItem))
      | Some tgw \<Rightarrow>
          bindE (getAccountId e (tgw_account tgw))
            (\<lambda>tgwAccountId.
               bindE (setDxGatewayMap e dxgwItem tgw tgwAccountId s)
                 (\<lambda>s1. bindE (createDxGatewayTgwAssociations e dxgwItem tgw associationItem
                                 tgwAccountId s1)
                    (\<lambda>s2. bindE (foldE (\<lambda>routeTableAssociationItem.
                                           createDxTgwRouteTableAssociations e dxgwItem tgw
                                             routeTableAssociationItem tgwAccountId)
                                    (dxa_routeTableAssociations associationItem) s2)
                             (foldE (\<lambda>routeTablePropagationItem.
                                       createDxTgwRouteTablePropagations e dxgwItem tgw
                                         routeTablePropagationItem tgwAccountId)
                                (dxa_routeTablePropagations associationItem))))))"

definition createDirectConnectResources :: "env \<Rightarrow> networkConfig \<Rightarrow> stack \<Rightarrow> error + stack" where
  "createDirectConnectResources e cfg s =
     foldE (\<lambda>dxgwItem.
              foldE (createDirectConnectResources_association e cfg dxgwItem)
                (dx_transitGatewayAssociations dxgwItem))
       (directConnectGateways cfg) s"

subsection \<open>Transit gateway static routes and prefix list references\<close>

definition getTgwPeeringAttachmentId ::
  "env \<Rightarrow> string \<Rightarrow> transitGatewayConfig \<Rightarrow> stack \<Rightarrow> error + ident \<times> stack" where
  "getTgwPeeringAttachmentId e transitGatewayPeeringName tgwItem s =
     (case (getTgwPeeringRequesterAccepterConfig e transitGatewayPeeringName ''requester'',
            getTgwPeeringRequesterAccepterConfig e transitGatewayPeeringName ''accepter'') of
        (Some requesterConfig, Some accepterConfig) \<Rightarrow>
          bindE (getAccountId e (tps_account requesterConfig))
            (\<lambda>requesterAccountId.
               if requesterAccountId = stackAccount e
               then Inr (SsmParameter (''/accelerator/network/transitGateways/'' @ tgw_name tgwItem
                                       @ ''/peering/'' @ transitGatewayPeeringName @ ''/id''), s)
               else bindE (getAccountId e (tps_account accepterConfig))
                      (\<lambda>accepterAccountId.
                         if accepterAccountId = stackAccount e
                         then (case transitGatewaysMap s (tps_transitGatewayName accepterConfig) of
                                 None \<Rightarrow> Inl (Error (''Transit Gateway ''
                                                     @ tps_transitGatewayName accepterConfig
                                                     @ '' not found''))
                               | Some transitGatewayId \<Rightarrow>
                                   bindE (addChild
                                            (pascalCase e
                                               (tps_account accepterConfig
                                                @ transitGatewayPeeringName
                                                @ ''TransitGatewayPeeringAttachment'')) s)
                                     (\<lambda>s1. Inr (AttachmentLookup transitGatewayPeeringName
                                                  (stackAccount e) transitGatewayId PEERING None,
                                                s1)))
                         else Inl (Error (''Transit Gateway attachment id not found for ''
                                          @ transitGatewayPeeringName))))
      | _ \<Rightarrow> Inl (Error (''Transit gateway peering '' @ transitGatewayPeeringName
                         @ '' not found !!!'')))"

text \<open>
  The four conditional blocks on the shape of \<open>routeItem.attachment\<close>, which both halves
  of \<open>createTransitGatewayStaticRouteItem\<close> repeat: each assigns the attachment id, from
  the attachments map for a VPC, Direct Connect gateway or VPN attachment and from
  \<open>getTgwPeeringAttachmentId\<close>, which may create a lookup construct, for a peering
  attachment.
\<close>

fun routeAttachmentId ::
  "env \<Rightarrow> transitGatewayConfig \<Rightarrow> routeAttachment option \<Rightarrow> stack
   \<Rightarrow> error + ident option \<times> stack" where
  "routeAttachmentId e tgwItem None s = Inr (None, s)"
| "routeAttachmentId e tgwItem (Some (VpcEntry account vpcName)) s =
     Inr (transitGatewayAttachments s (attachmentKey account vpcName), s)"
| "routeAttachmentId e tgwItem (Some (DxGatewayEntry directConnectGatewayName)) s =
     Inr (transitGatewayAttachments s (attachmentKey directConnectGatewayName (tgw_name tgwItem)),
          s)"
| "routeAttachmentId e tgwItem (Some (VpnEntry vpnConnectionName)) s =
     Inr (transitGatewayAttachments s (attachmentKey vpnConnectionName (tgw_name tgwItem)), s)"
| "routeAttachmentId e tgwItem (Some (TgwPeeringEntry transitGatewayPeeringName)) s =
     bindE (getTgwPeeringAttachmentId e transitGatewayPeeringName tgwItem s)
       (\<lambda>(i, s1). Inr (Some i, s1))"

text \<open>
  \<open>routeId\<close> starts as \<open>''\<close>; the blackhole block and then the block of the attachment's
  shape overwrite it.
\<close>

fun staticRouteId :: "string \<Rightarrow> string \<Rightarrow> bool option \<Rightarrow> routeAttachment option \<Rightarrow> string" where
  "staticRouteId rt cidr blackhole None =
     (if blackhole = Some True then rt @ ''-'' @ cidr @ ''-blackhole'' else [])"
| "staticRouteId rt cidr blackhole (Some (VpcEntry account vpcName)) =
     rt @ ''-'' @ cidr @ ''-'' @ vpcName @ ''-'' @ account"
| "staticRouteId rt cidr blackhole (Some (DxGatewayEntry n)) = rt @ ''-'' @ cidr @ ''-'' @ n"
| "staticRouteId rt cidr blackhole (Some (VpnEntry n)) = rt @ ''-'' @ cidr @ ''-'' @ n"
| "staticRouteId rt cidr blackhole (Some (TgwPeeringEntry n)) = rt @ ''-'' @ cidr @ ''-'' @ n"

fun prefixListRouteId ::
  "env \<Rightarrow> string \<Rightarrow> string \<Rightarrow> bool option \<Rightarrow> routeAttachment option \<Rightarrow> string" where
  "prefixListRouteId e rt pl blackhole None =
     (if blackhole = Some True then pascalCase e (rt @ pl @ ''Blackhole'') else [])"
| "prefixListRouteId e rt pl blackhole (Some (VpcEntry account vpcName)) =
     pascalCase e (rt @ pl @ vpcName @ account)"
| "prefixListRouteId e rt pl blackhole (Some (DxGatewayEntry n)) = pascalCase e (rt @ pl @ n)"
| "prefixListRouteId e rt pl blackhole (Some (VpnEntry n)) = pascalCase e (rt @ pl @ n)"
| "prefixListRouteId e rt pl blackhole (Some (TgwPeeringEntry n)) = pascalCase e (rt @ pl @ n)"

definition attachmentNotFound :: "transitGatewayRouteTableConfig \<Rightarrow> error" where
  "attachmentNotFound routeTableItem =
     Error (''[network-associations-stack] Unable to locate transit gateway attachment ID for route table item ''
            @ trt_name routeTableItem)"

definition createTransitGatewayStaticRouteItem_route ::
  "env \<Rightarrow> transitGatewayConfig \<Rightarrow> transitGatewayRouteTableConfig
   \<Rightarrow> transitGatewayRouteEntryConfig \<Rightarrow> ident \<Rightarrow> stack \<Rightarrow> error + stack" where
  "createTransitGatewayStaticRouteItem_route e tgwItem routeTableItem routeItem
     transitGatewayRouteTableId s =
     (if truthy (tre_destinationCidrBlock routeItem)
      then bindE (routeAttachmentId e tgwItem (tre_attachment routeItem) s)
             (\<lambda>(transitGatewayAttachmentId, s1).
                if tre_attachment routeItem \<noteq> None \<and> transitGatewayAttachmentId = None
                then Inl (attachmentNotFound routeTableItem)
                else construct
                       (staticRouteId (trt_name routeTableItem)
                          (str (tre_destinationCidrBlock routeItem))
                          (tre_blackhole routeItem) (tre_attachment routeItem))
                       (TransitGatewayStaticRoute
                          (staticRouteId (trt_name routeTableItem)
                             (str (tre_destinationCidrBlock routeItem))
                             (tre_blackhole routeItem) (tre_attachment routeItem))
                          transitGatewayRouteTableId (tre_blackhole routeItem)
                          (str (tre_destinationCidrBlock routeItem))
                          transitGatewayAttachmentId) s1)
      else Inr s)"

definition createTransitGatewayStaticRouteItem_prefixList ::
  "env \<Rightarrow> transitGatewayConfig \<Rightarrow> transitGatewayRouteTableConfig
   \<Rightarrow> transitGatewayRouteEntryConfig \<Rightarrow> ident \<Rightarrow> stack \<Rightarrow> error + stack" where
  "createTransitGatewayStaticRouteItem_prefixList e tgwItem routeTableItem routeItem
     transitGatewayRouteTableId s =
     (if truthy (tre_destinationPrefixList routeItem)
      then (case prefixListMap s (str (tre_destinationPrefixList routeItem)) of
              None \<Rightarrow> Inl (Error (''[network-associations-stack] Prefix list ''
                                  @ str (tre_destinationPrefixList routeItem) @ '' not found''))
            | Some prefixListId \<Rightarrow>
                bindE (routeAttachmentId e tgwItem (tre_attachment routeItem) s)
                  (\<lambda>(transitGatewayAttachmentId, s1).
                     if tre_attachment routeItem \<noteq> None \<and> transitGatewayAttachmentId = None
                     then Inl (attachmentNotFound routeTableItem)
                     else construct
                            (prefixListRouteId e (trt_name routeTableItem)
                               (str (tre_destinationPrefixList routeItem))
                               (tre_blackhole routeItem) (tre_attachment routeItem))
                            (TransitGatewayPrefixListReference
                               (prefixListRouteId e (trt_name routeTableItem)
                                  (str (tre_destinationPrefixList routeItem))
                                  (tre_blackhole routeItem) (tre_attachment routeItem))
                               prefixListId (tre_blackhole routeItem)
                               transitGatewayAttachmentId transitGatewayRouteTableId) s1))
      else Inr s)"

definition createTransitGatewayStaticRouteItem ::
  "env \<Rightarrow> transitGatewayConfig \<Rightarrow> transitGatewayRouteTableConfig
   \<Rightarrow> transitGatewayRouteEntryConfig \<Rightarrow> ident \<Rightarrow> stack \<Rightarrow> error + stack" where
  "createTransitGatewayStaticRouteItem e tgwItem routeTableItem routeItem
     transitGatewayRouteTableId s =
     bindE (createTransitGatewayStaticRouteItem_route e tgwItem routeTableItem routeItem
              transitGatewayRouteTableId s)
       (createTransitGatewayStaticRouteItem_prefixList e tgwItem routeTableItem routeItem
          transitGatewayRouteTableId)"

definition createTransitGatewayStaticRoutes_routeTable ::
  "env \<Rightarrow> transitGatewayConfig \<Rightarrow> transitGatewayRouteTableConfig \<Rightarrow> stack \<Rightarrow> error + stack" where
  "createTransitGatewayStaticRoutes_routeTable e tgwItem routeTableItem s =
     (case transitGatewayRouteTables s (joinKey (tgw_name tgwItem) (trt_name routeTableItem)) of
        None \<Rightarrow> Inl (Error (''[network-associations-stack] Transit Gateway route table ''
                            @ joinKey (tgw_name tgwItem) (trt_name routeTableItem)
                            @ '' not found''))
      | Some transitGatewayRouteTableId \<Rightarrow>
          foldE (\<lambda>routeItem.
                   createTransitGatewayStaticRouteItem e tgwItem routeTableItem routeItem
                     transitGatewayRouteTableId)
            (trt_routes routeTableItem) s)"

definition createTransitGatewayStaticRoutes_tgw ::
  "env \<Rightarrow> transitGatewayConfig \<Rightarrow> stack \<Rightarrow> error + stack" where
  "createTransitGatewayStaticRoutes_tgw e tgwItem s =
     bindE (getAccountId e (tgw_account tgwItem))
       (\<lambda>accountId.
          if inScope e accountId (tgw_region tgwItem)
          then foldE (createTransitGatewayStaticRoutes_routeTable e tgwItem)
                 (tgw_routeTables tgwItem) s
          else Inr s)"

definition createTransitGatewayStaticRoutes :: "env \<Rightarrow> networkConfig \<Rightarrow> stack \<Rightarrow> error + stack" where
  "createTransitGatewayStaticRoutes e cfg s =
     foldE (createTransitGatewayStaticRoutes_tgw e) (transitGateways cfg) s"

subsection \<open>The constructor\<close>

definition newStack :: stack where
  "newStack =
     \<lparr>dnsFirewallMap = Map.empty, dxGatewayMap = Map.empty, peeringList = [],
      prefixListMap = Map.empty, queryLogMap = Map.empty, resolverRuleMap = Map.empty,
      routeTableMap = Map.empty, transitGatewaysMap = Map.empty,
      transitGatewayRouteTables = Map.empty, transitGatewayAttachments = Map.empty,
      crossAcctRouteProvider = False,
      constructs = [''AcceleratorGetCloudWatchKey'', ''AcceleratorGetLambdaKey''], trace = []\<rparr>"

text \<open>
  The constructor of \<open>NetworkAssociationsStack\<close>, from \<open>setPeeringList\<close> to
  \<open>createTransitGatewayStaticRoutes\<close>. The steps after it (target groups, listeners,
  subnet tags, SSM parameters, managed directories) read none of the maps above and
  create no transit gateway, peering, Direct Connect or resolver construct.
\<close>

definition networkAssociationsStack :: "env \<Rightarrow> networkConfig \<Rightarrow> error + stack" where
  "networkAssociationsStack e cfg =
     bindE (setPeeringList e cfg)
       (\<lambda>peeringList'.
          bindE (createCrossAcctRouteProvider (newStack\<lparr>peeringList := peeringList'\<rparr>))
            (\<lambda>s1. bindE (setPrefixListMap e cfg s1)
               (\<lambda>(prefixListMap', s1a).
                  bindE (setRouteTableMap e cfg (s1a\<lparr>prefixListMap := prefixListMap'\<rparr>))
                    (\<lambda>(routeTableMap', s1b).
                       bindE (createTransitGatewayResources e cfg
                                (s1b\<lparr>routeTableMap := routeTableMap'\<rparr>))
                         (\<lambda>s2. bindE (createHostedZoneAssociations e cfg s2)
                            (\<lambda>s3. bindE (createCentralNetworkAssociations e cfg s3)
                               (\<lambda>s4. bindE (createVpcPeeringConnections e s4)
                                  (\<lambda>s5. bindE (createDirectConnectResources e cfg s5)
                                     (createTransitGatewayStaticRoutes e cfg)))))))))"

subsection \<open>The network firewall policy map of the VPC endpoints stack\<close>

definition setNfwPolicyMap_firewall ::
  "env \<Rightarrow> string \<Rightarrow> vpcItem \<Rightarrow> nfwFirewallConfig \<Rightarrow> (string \<rightharpoonup> ident) \<Rightarrow> (string \<rightharpoonup> ident)" where
  "setNfwPolicyMap_firewall e delegatedAdminAccountId vpcItem firewallItem policyMap =
     (if nfw_vpc firewallItem = itemName vpcItem \<and> policyMap (nfw_firewallPolicy firewallItem) = None
      then policyMap(nfw_firewallPolicy firewallItem \<mapsto>
             (if delegatedAdminAccountId = stackAccount e
              then SsmParameter (''/accelerator/network/networkFirewall/policies/''
                                 @ nfw_firewallPolicy firewallItem @ ''/arn'')
              else ResourceShareItem (nfw_firewallPolicy firewallItem @ ''_NetworkFirewallPolicyShare'')
                     ''network-firewall:FirewallPolicy'' delegatedAdminAccountId))
      else policyMap)"

definition setNfwPolicyMap_vpc ::
  "env \<Rightarrow> string \<Rightarrow> nfwFirewallConfig list \<Rightarrow> vpcItem \<Rightarrow> (string \<rightharpoonup> ident)
   \<Rightarrow> error + (string \<rightharpoonup> ident)" where
  "setNfwPolicyMap_vpc e delegatedAdminAccountId firewalls vpcItem policyMap =
     bindE (getVpcAccountIds e vpcItem)
       (\<lambda>vpcAccountIds.
          if stackAccount e \<in> set vpcAccountIds \<and> itemRegion vpcItem = stackRegion e
          then Inr (fold (setNfwPolicyMap_firewall e delegatedAdminAccountId vpcItem) firewalls
                      policyMap)
          else Inr policyMap)"

definition setNfwPolicyMap :: "env \<Rightarrow> networkConfig \<Rightarrow> error + (string \<rightharpoonup> ident)" where
  "setNfwPolicyMap e cfg =
     (case centralNetworkServices cfg of
        None \<Rightarrow> Inr Map.empty
      | Some centralNetworkConfig \<Rightarrow>
          (case cns_firewalls centralNetworkConfig of
             None \<Rightarrow> Inr Map.empty
           | Some firewalls \<Rightarrow>
               bindE (getAccountId e (cns_delegatedAdminAccount centralNetworkConfig))
                 (\<lambda>delegatedAdminAccountId.
                    foldE (setNfwPolicyMap_vpc e delegatedAdminAccountId firewalls)
                      (allVpcItems cfg) Map.empty)))"

subsection \<open>Reading a trace\<close>

text \<open>
  The maps whose writes the trace records, by name, and the maps that a trace writes
  when it is replayed from given ones.
\<close>

definition logged :: "stack \<Rightarrow> mapName \<Rightarrow> (string \<rightharpoonup> ident)" where
  "logged s M =
     (case M of
        DnsFirewallMap \<Rightarrow> dnsFirewallMap s
      | DxGatewayMap \<Rightarrow> dxGatewayMap s
      | QueryLogMap \<Rightarrow> queryLogMap s
      | ResolverRuleMap \<Rightarrow> resolverRuleMap s
      | TransitGatewaysMap \<Rightarrow> transitGatewaysMap s
      | TransitGatewayRouteTablesMap \<Rightarrow> transitGatewayRouteTables s
      | TransitGatewayAttachmentsMap \<Rightarrow> transitGatewayAttachments s)"

fun written :: "(mapName \<Rightarrow> string \<rightharpoonup> ident) \<Rightarrow> event \<Rightarrow> (mapName \<Rightarrow> string \<rightharpoonup> ident)" where
  "written ms (MapSet M k v) = ms(M := (ms M)(k \<mapsto> v))"
| "written ms ev = ms"

fun replay :: "(mapName \<Rightarrow> string \<rightharpoonup> ident) \<Rightarrow> event list \<Rightarrow> (mapName \<Rightarrow> string \<rightharpoonup> ident)" where
  "replay ms [] = ms"
| "replay ms (ev # t) = replay (written ms ev) t"

text \<open>
  \<open>run ok ms t\<close>: every event of the trace \<open>t\<close> satisfies \<open>ok\<close> for the maps as they are
  when the event happens, \<open>ms\<close> being the maps before the first event.
\<close>

fun run ::
  "((mapName \<Rightarrow> string \<rightharpoonup> ident) \<Rightarrow> event \<Rightarrow> bool) \<Rightarrow> (mapName \<Rightarrow> string \<rightharpoonup> ident)
   \<Rightarrow> event list \<Rightarrow> bool" where
  "run ok ms [] = True"
| "run ok ms (ev # t) = (ok ms ev \<and> run ok (written ms ev) t)"

datatype kind =
    KMapSet mapName | KProvider | KAssociation | KPropagation | KStaticRoute | KHostedZones
  | KResolver | KPeering | KDxAssociation

fun kindOf :: "event \<Rightarrow> kind" where
  "kindOf (MapSet M k v) = KMapSet M"
| "kindOf CrossAccountRouteFramework = KProvider"
| "kindOf (TransitGatewayRouteTableAssociation l a r) = KAssociation"
| "kindOf (TransitGatewayRouteTablePropagation l a r) = KPropagation"
| "kindOf (TransitGatewayStaticRoute i r b c a) = KStaticRoute"
| "kindOf (TransitGatewayPrefixListReference i p b a r) = KStaticRoute"
| "kindOf (AssociateHostedZones p) = KHostedZones"
| "kindOf (ResolverFirewallRuleGroupAssociation l i p v) = KResolver"
| "kindOf (QueryLoggingConfigAssociation l i v) = KResolver"
| "kindOf (ResolverRuleAssociation l i v) = KResolver"
| "kindOf (VpcPeering p) = KPeering"
| "kindOf (PutSsmParameter r n a role v) = KPeering"
| "kindOf (PeeringRoute n i r d p) = KPeering"
| "kindOf (CrossAcctPeeringRoute n p) = KPeering"
| "kindOf (DirectConnectGatewayAssociation l p) = KDxAssociation"

text \<open>
  An association or propagation refers to a resolved attachment when its attachment
  identifier is a value of the attachments map at that moment.
\<close>

fun attachmentResolved :: "(mapName \<Rightarrow> string \<rightharpoonup> ident) \<Rightarrow> event \<Rightarrow> bool" where
  "attachmentResolved ms (TransitGatewayRouteTableAssociation l a r) =
     (a \<in> ran (ms TransitGatewayAttachmentsMap))"
| "attachmentResolved ms (TransitGatewayRouteTablePropagation l a r) =
     (a \<in> ran (ms TransitGatewayAttachmentsMap))"
| "attachmentResolved ms ev = True"

text \<open>
  A write to the DNS firewall, query log or resolver rule map is a first write when the
  key is not in the map; a resolver association reads a cached value when its identifier
  is a value of its map at that moment.
\<close>

fun cachedOnce :: "(mapName \<Rightarrow> string \<rightharpoonup> ident) \<Rightarrow> event \<Rightarrow> bool" where
  "cachedOnce ms (MapSet M k v) =
     (M \<in> {DnsFirewallMap, QueryLogMap, ResolverRuleMap} \<longrightarrow> ms M k = None)"
| "cachedOnce ms (ResolverFirewallRuleGroupAssociation l i p v) = (i \<in> ran (ms DnsFirewallMap))"
| "cachedOnce ms (QueryLoggingConfigAssociation l i v) = (i \<in> ran (ms QueryLogMap))"
| "cachedOnce ms (ResolverRuleAssociation l i v) = (i \<in> ran (ms ResolverRuleMap))"
| "cachedOnce ms ev = True"

text \<open>
  \<open>ext K s s'\<close>: the stack \<open>s'\<close> continues \<open>s\<close> by events of the kinds \<open>K\<close>, each of which
  refers to resolved attachments and cached values, and its recorded maps are those of
  \<open>s\<close> with the writes of these events.
\<close>

definition ext :: "kind set \<Rightarrow> stack \<Rightarrow> stack \<Rightarrow> bool" where
  "ext K s s' =
     (\<exists>new. trace s' = trace s @ new
            \<and> run (\<lambda>ms ev. kindOf ev \<in> K \<and> attachmentResolved ms ev \<and> cachedOnce ms ev)
                  (logged s) new
            \<and> logged s' = replay (logged s) new)"

text \<open>
  \<open>emits K s s'\<close>: moreover nothing but the trace and the construct ids differs between
  \<open>s\<close> and \<open>s'\<close>.
\<close>

definition emits :: "kind set \<Rightarrow> stack \<Rightarrow> stack \<Rightarrow> bool" where
  "emits K s s' = (ext K s s' \<and> s' = s\<lparr>constructs := constructs s', trace := trace s'\<rparr>)"

definition tgwKinds :: "kind set" where
  "tgwKinds = {KMapSet TransitGatewaysMap, KMapSet TransitGatewayRouteTablesMap,
               KMapSet TransitGatewayAttachmentsMap, KAssociation, KPropagation}"

definition centralKinds :: "kind set" where
  "centralKinds = {KMapSet DnsFirewallMap, KMapSet QueryLogMap, KMapSet ResolverRuleMap, KResolver}"

definition dxKinds :: "kind set" where
  "dxKinds = {KMapSet DxGatewayMap, KDxAssociation, KMapSet TransitGatewayAttachmentsMap,
              KAssociation, KPropagation}"

text \<open>
  The kinds of the events between the creation of the route provider and the static
  routes: everything but the provider and the static routes.
\<close>

definition middleKinds :: "kind set" where
  "middleKinds = tgwKinds \<union> {KHostedZones} \<union> centralKinds \<union> {KPeering} \<union> dxKinds"

text \<open>A write of key \<open>k\<close> to the map \<open>M\<close>.\<close>

fun isWrite :: "mapName \<Rightarrow> string \<Rightarrow> event \<Rightarrow> bool" where
  "isWrite M k (MapSet M' k' v) = (M = M' \<and> k = k')"
| "isWrite M k ev = False"

text \<open>The attachment identifier that a transit gateway route table construct is given.\<close>

fun attachmentOf :: "event \<Rightarrow> ident option" where
  "attachmentOf (TransitGatewayRouteTableAssociation l a r) = Some a"
| "attachmentOf (TransitGatewayRouteTablePropagation l a r) = Some a"
| "attachmentOf (TransitGatewayStaticRoute i r b c a) = a"
| "attachmentOf (TransitGatewayPrefixListReference i p b a r) = a"
| "attachmentOf ev = None"

text \<open>The trace of a run, or the error that ended it.\<close>

definition traceOf :: "error + stack \<Rightarrow> error + event list" where
  "traceOf r = (case r of Inl err \<Rightarrow> Inl err | Inr s \<Rightarrow> Inr (trace s))"

subsection \<open>A small organisation, used to run the functions on concrete input\<close>

definition accounts0 :: "string \<rightharpoonup> string" where
  "accounts0 = [''Network'' \<mapsto> ''111'', ''Shared'' \<mapsto> ''222'']"

definition env0 :: env where
  "env0 =
     \<lparr>stackAccount = ''111'', stackRegion = ''us-east-1'', partition = ''aws'',
      homeRegion = ''us-east-1'', accountIds = accounts0, pascalCase = (\<lambda>x. x),
      getVpcAccountIds =
        (\<lambda>vpcItem. case vpcItem of
                      VpcConfig v \<Rightarrow> (case accounts0 (vpc_account v) of
                                        None \<Rightarrow> Inl (UnknownAccount (vpc_account v))
                                      | Some i \<Rightarrow> Inr [i])
                    | VpcTemplatesConfig v \<Rightarrow> Inr []),
      getAccountNamesFromDeploymentTarget = dt_accounts,
      getExcludedAccountIds = (\<lambda>t. []),
      getTgwPeeringRequesterAccepterConfig = (\<lambda>n side. None),
      hasAttachmentId = (\<lambda>logicalId owner. owner = None)\<rparr>"

definition mkVpc :: "string \<Rightarrow> string \<Rightarrow> string \<Rightarrow> vpcConfig" where
  "mkVpc n a r =
     \<lparr>vpc_name = n, vpc_region = r, vpc_routeTables = [], vpc_transitGatewayAttachments = [],
      vpc_interfaceEndpoints = None, vpc_useCentralEndpoints = False,
      vpc_dnsFirewallRuleGroups = [], vpc_queryLogs = [], vpc_resolverRules = [],
      vpc_account = a\<rparr>"

definition mkConfig :: "vpcConfig list \<Rightarrow> networkConfig" where
  "mkConfig vs =
     \<lparr>vpcs = vs, vpcTemplates = [], vpcPeering = [], prefixLists = [], transitGateways = [],
      customerGateways = [], directConnectGateways = [], centralNetworkServices = None\<rparr>"

definition centralVpc :: "string \<Rightarrow> vpcConfig" where
  "centralVpc n =
     (mkVpc n ''Network'' ''us-east-1'')
       \<lparr>vpc_interfaceEndpoints := Some \<lparr>ie_central = True, ie_endpoints = [''ec2'']\<rparr>\<rparr>"

definition tgwT :: transitGatewayConfig where
  "tgwT =
     \<lparr>tgw_name = ''T'', tgw_account = ''Network'', tgw_region = ''us-east-1'',
      tgw_routeTables =
        [\<lparr>trt_name = ''RT'',
          trt_routes = [\<lparr>tre_destinationCidrBlock = Some ''10.0.0.0/8'',
                         tre_destinationPrefixList = None, tre_blackhole = Some True,
                         tre_attachment = None\<rparr>]\<rparr>]\<rparr>"

definition attachedVpc :: "string \<Rightarrow> vpcConfig" where
  "attachedVpc n =
     (mkVpc n ''Network'' ''us-east-1'')
       \<lparr>vpc_transitGatewayAttachments :=
          [\<lparr>tga_name = n @ ''Att'', tga_transitGatewayName = ''T'',
            tga_transitGatewayAccount = ''Network'', tga_routeTableAssociations = [''RT''],
            tga_routeTablePropagations = []\<rparr>]\<rparr>"

definition twoAttachedVpcs :: networkConfig where
  "twoAttachedVpcs = (mkConfig [attachedVpc ''A1'', attachedVpc ''A2''])\<lparr>transitGateways := [tgwT]\<rparr>"

definition tgwT2 :: transitGatewayConfig where
  "tgwT2 = \<lparr>tgw_name = ''T2'', tgw_account = ''Network'', tgw_region = ''us-east-1'',
             tgw_routeTables = []\<rparr>"

definition doublyAttachedVpc :: vpcConfig where
  "doublyAttachedVpc =
     (mkVpc ''A'' ''Network'' ''us-east-1'')
       \<lparr>vpc_transitGatewayAttachments :=
          [\<lparr>tga_name = ''ToT'', tga_transitGatewayName = ''T'',
            tga_transitGatewayAccount = ''Network'', tga_routeTableAssociations = [''RT''],
            tga_routeTablePropagations = []\<rparr>,
           \<lparr>tga_name = ''ToT2'', tga_transitGatewayName = ''T2'',
            tga_transitGatewayAccount = ''Network'', tga_routeTableAssociations = [],
            tga_routeTablePropagations = []\<rparr>]\<rparr>"

definition twoAttachments :: networkConfig where
  "twoAttachments = (mkConfig [doublyAttachedVpc])\<lparr>transitGateways := [tgwT, tgwT2]\<rparr>"

definition env1 :: env where
  "env1 = env0\<lparr>getTgwPeeringRequesterAccepterConfig :=
                  (\<lambda>n side. if n = ''P''
                             then Some \<lparr>tps_account = (if side = ''requester'' then ''Network''
                                                        else ''Shared''),
                                       tps_transitGatewayName = ''T''\<rparr>
                             else None)\<rparr>"

definition routeVia :: "routeAttachment \<Rightarrow> transitGatewayRouteEntryConfig" where
  "routeVia x =
     \<lparr>tre_destinationCidrBlock = Some ''10.1.0.0/16'', tre_destinationPrefixList = None,
      tre_blackhole = None, tre_attachment = Some x\<rparr>"

definition tgwWith :: "transitGatewayRouteEntryConfig list \<Rightarrow> transitGatewayConfig" where
  "tgwWith rs =
     \<lparr>tgw_name = ''T'', tgw_account = ''Network'', tgw_region = ''us-east-1'',
      tgw_routeTables = [\<lparr>trt_name = ''RT'', trt_routes = rs\<rparr>]\<rparr>"

definition peeringRoute :: networkConfig where
  "peeringRoute = (mkConfig [])\<lparr>transitGateways := [tgwWith [routeVia (TgwPeeringEntry ''P'')]]\<rparr>"

definition resolverVpc :: "string \<Rightarrow> vpcConfig" where
  "resolverVpc n =
     (mkVpc n ''Network'' ''us-east-1'')
       \<lparr>vpc_dnsFirewallRuleGroups := [\<lparr>dfw_name = ''fw'', dfw_priority = 101\<rparr>],
        vpc_queryLogs := [''ql''], vpc_resolverRules := [''rule'']\<rparr>"

definition centralServices :: networkConfig where
  "centralServices =
     (mkConfig [resolverVpc ''V1'', resolverVpc ''V2''])
       \<lparr>centralNetworkServices :=
          Some \<lparr>cns_delegatedAdminAccount = ''Shared'', cns_queryLogDestinations = Some [''s3''],
                cns_firewalls = Some [\<lparr>nfw_name = ''nfw'', nfw_vpc = ''V1'',
                                       nfw_firewallPolicy = ''policy''\<rparr>]\<rparr>\<rparr>"



definition missingAccepter :: networkConfig where
  "missingAccepter =
     (mkConfig [mkVpc ''A'' ''Network'' ''us-east-1''])
       \<lparr>vpcPeering := [\<lparr>vp_name = ''P'', vp_vpcs = [''A'', ''Missing'']\<rparr>]\<rparr>"

definition dxShared :: dxGatewayConfig where
  "dxShared =
     \<lparr>dx_name = ''DX'', dx_account = ''Shared'',
      dx_transitGatewayAssociations =
        [\<lparr>dxa_name = ''T'', dxa_account = ''Network'', dxa_allowedPrefixes = [''10.0.0.0/8''],
          dxa_routeTableAssociations = [''RT''], dxa_routeTablePropagations = []\<rparr>]\<rparr>"

definition dxProposal :: networkConfig where
  "dxProposal = (mkConfig [])\<lparr>transitGateways := [tgwT], directConnectGateways := [dxShared]\<rparr>"

text \<open>
  Two VPCs of two accounts and a peering between them; the accepter \<open>B\<close> has a route
  entry that targets the peering.
\<close>

definition peerEntry :: routeTableEntryConfig where
  "peerEntry =
     \<lparr>rte_name = ''toPeer'', rte_type = Some ''vpcPeering'', rte_target = Some ''P'',
      rte_destination = Some ''10.1.0.0/16'', rte_destinationPrefixList = None\<rparr>"

definition crossPeering :: networkConfig where
  "crossPeering =
     (mkConfig [mkVpc ''A'' ''Network'' ''us-east-1'',
                (mkVpc ''B'' ''Shared'' ''us-east-1'')
                  \<lparr>vpc_routeTables := [\<lparr>rt_name = ''rtB'', rt_routes = [peerEntry]\<rparr>]\<rparr>])
       \<lparr>vpcPeering := [\<lparr>vp_name = ''P'', vp_vpcs = [''A'', ''B'']\<rparr>]\<rparr>"

text \<open>
  The same peering with both VPCs in the stack's account and region, and one requester
  with two accepters of another account whose route tables have the same name (\<open>rt\<close>)
  or different names.
\<close>

definition samePeering :: networkConfig where
  "samePeering =
     (mkConfig [mkVpc ''A'' ''Network'' ''us-east-1'',
                (mkVpc ''B'' ''Network'' ''us-east-1'')
                  \<lparr>vpc_routeTables := [\<lparr>rt_name = ''rtB'', rt_routes = [peerEntry]\<rparr>]\<rparr>])
       \<lparr>vpcPeering := [\<lparr>vp_name = ''P'', vp_vpcs = [''A'', ''B'']\<rparr>]\<rparr>"

definition acceptingVpc :: "string \<Rightarrow> string \<Rightarrow> string \<Rightarrow> vpcConfig" where
  "acceptingVpc n rt p =
     (mkVpc n ''Shared'' ''us-east-1'')
       \<lparr>vpc_routeTables :=
          [\<lparr>rt_name = rt,
            rt_routes = [\<lparr>rte_name = ''toA'', rte_type = Some ''vpcPeering'', rte_target = Some p,
                          rte_destination = Some ''10.1.0.0/16'',
                          rte_destinationPrefixList = None\<rparr>]\<rparr>]\<rparr>"

definition twoAccepters :: "string \<Rightarrow> string \<Rightarrow> networkConfig" where
  "twoAccepters rtB rtC =
     (mkConfig [mkVpc ''A'' ''Network'' ''us-east-1'', acceptingVpc ''B'' rtB ''P1'',
                acceptingVpc ''C'' rtC ''P2''])
       \<lparr>vpcPeering := [\<lparr>vp_name = ''P1'', vp_vpcs = [''A'', ''B'']\<rparr>,
                       \<lparr>vp_name = ''P2'', vp_vpcs = [''A'', ''C'']\<rparr>]\<rparr>"

text \<open>
  A Direct Connect gateway of the account \<open>Shared\<close> associated with the given transit
  gateways of the account \<open>Network\<close>, without route table associations.
\<close>

definition dxTo :: "string list \<Rightarrow> dxGatewayConfig" where
  "dxTo ts =
     \<lparr>dx_name = ''DX'', dx_account = ''Shared'',
      dx_transitGatewayAssociations =
        map (\<lambda>t. \<lparr>dxa_name = t, dxa_account = ''Network'', dxa_allowedPrefixes = [''10.0.0.0/8''],
                   dxa_routeTableAssociations = [], dxa_routeTablePropagations = []\<rparr>) ts\<rparr>"

definition dxAssociations :: "string list \<Rightarrow> networkConfig" where
  "dxAssociations ts =
     (mkConfig [])\<lparr>transitGateways := [tgwT, tgwT2], directConnectGateways := [dxTo ts]\<rparr>"

text \<open>
  The VPC \<open>T\<close> of the account \<open>Network\<close>, attached to the transit gateway \<open>T\<close>, and the VPN
  connection \<open>Network\<close> on the same transit gateway; the route table of \<open>T\<close> has a static
  route to the VPC.
\<close>

definition vpcAndVpn :: networkConfig where
  "vpcAndVpn =
     (mkConfig [(mkVpc ''T'' ''Network'' ''us-east-1'')
                  \<lparr>vpc_transitGatewayAttachments :=
                     [\<lparr>tga_name = ''TAtt'', tga_transitGatewayName = ''T'',
                       tga_transitGatewayAccount = ''Network'', tga_routeTableAssociations = [],
                       tga_routeTablePropagations = []\<rparr>]\<rparr>])
       \<lparr>transitGateways := [tgwWith [routeVia (VpcEntry ''Network'' ''T'')]],
        customerGateways :=
          [\<lparr>cgw_name = ''cgw'', cgw_account = ''Network'', cgw_region = ''us-east-1'',
            cgw_vpnConnections =
              [\<lparr>vpn_name = ''Network'', vpn_transitGateway = Some ''T'',
                vpn_routeTableAssociations = None, vpn_routeTablePropagations = None\<rparr>]\<rparr>]\<rparr>"

text \<open>A VPC attached to the transit gateway \<open>T\<close>, whose route table has a static route to it.\<close>

definition routeToVpc :: networkConfig where
  "routeToVpc =
     (mkConfig [attachedVpc ''A1''])
       \<lparr>transitGateways := [tgwWith [routeVia (VpcEntry ''Network'' ''A1'')]]\<rparr>"

text \<open>The central services with the stack's own account as delegated administrator.\<close>

definition centralServicesOwn :: networkConfig where
  "centralServicesOwn =
     centralServices
       \<lparr>centralNetworkServices :=
          Some \<lparr>cns_delegatedAdminAccount = ''Network'', cns_queryLogDestinations = Some [''s3''],
                cns_firewalls = Some [\<lparr>nfw_name = ''nfw'', nfw_vpc = ''V1'',
                                       nfw_firewallPolicy = ''policy''\<rparr>]\<rparr>\<rparr>"

text \<open>
  The resolution of a shared resource as the specification words it: the local key in
  the owning account, and otherwise the item of the resource share of the owner with the
  given name and resource type.
\<close>

definition sharedResource :: "env \<Rightarrow> string \<Rightarrow> string \<Rightarrow> string \<Rightarrow> string \<Rightarrow> ident" where
  "sharedResource e owner localKey shareName resourceType =
     (if owner = stackAccount e then SsmParameter localKey
      else ResourceShareItem shareName resourceType owner)"

text \<open>
  A write to the DNS firewall, query log or resolver rule map stores the identifier of
  the shared resource of that name.
\<close>

fun sharedWrite :: "env \<Rightarrow> string \<Rightarrow> event \<Rightarrow> bool" where
  "sharedWrite e owner (MapSet M n v) =
     (case M of
        DnsFirewallMap \<Rightarrow>
          v = sharedResource e owner
                (''/accelerator/network/route53Resolver/firewall/ruleGroups/'' @ n @ ''/id'')
                (n @ ''_ResolverFirewallRuleGroupShare'') ''route53resolver:FirewallRuleGroup''
      | QueryLogMap \<Rightarrow>
          v = sharedResource e owner
                (''/accelerator/network/route53Resolver/queryLogConfigs/'' @ n @ ''/id'')
                (n @ ''_QueryLogConfigShare'') ''route53resolver:ResolverQueryLogConfig''
      | ResolverRuleMap \<Rightarrow>
          v = sharedResource e owner
                (''/accelerator/network/route53Resolver/rules/'' @ n @ ''/id'')
                (n @ ''_ResolverRule'') ''route53resolver:ResolverRule''
      | _ \<Rightarrow> True)"
| "sharedWrite e owner ev = True"

text \<open>The identifier that a resolver association is given, with the map it is read from.\<close>

fun resolverIdOf :: "event \<Rightarrow> (mapName \<times> ident) option" where
  "resolverIdOf (ResolverFirewallRuleGroupAssociation l i p v) = Some (DnsFirewallMap, i)"
| "resolverIdOf (QueryLoggingConfigAssociation l i v) = Some (QueryLogMap, i)"
| "resolverIdOf (ResolverRuleAssociation l i v) = Some (ResolverRuleMap, i)"
| "resolverIdOf ev = None"

text \<open>Every write of the trace of a stack is such a write.\<close>

definition sharedWrites :: "env \<Rightarrow> string \<Rightarrow> stack \<Rightarrow> bool" where
  "sharedWrites e owner s = list_all (sharedWrite e owner) (trace s)"


section \<open>Properties\<close>

subsection \<open>Runs and traces\<close>

lemma bindE_Inr_iff: "bindE m f = Inr y \<longleftrightarrow> (\<exists>x. m = Inr x \<and> f x = Inr y)"
  by (cases m) (auto simp: bindE_def)

lemma bindE_InrE:
  assumes "bindE m f = Inr y"
  obtains x where "m = Inr x" and "f x = Inr y"
  using assms by (cases m) (auto simp: bindE_def)

lemma foldE_invariant:
  assumes "foldE f xs s = Inr s'" and "P s"
    and "\<And>x a b. x \<in> set xs \<Longrightarrow> P a \<Longrightarrow> f x a = Inr b \<Longrightarrow> P b"
  shows "P s'"
  using assms
proof (induction xs arbitrary: s)
  case Nil
  then show ?case by simp
next
  case (Cons x xs)
  from Cons.prems(1) obtain a where a: "f x s = Inr a" and rest: "foldE f xs a = Inr s'"
    by (auto split: sum.splits)
  have "P a" using Cons.prems(2,3) a by auto
  then show ?case using Cons.IH [OF rest] Cons.prems(3) by auto
qed

lemma replay_append: "replay ms (t @ u) = replay (replay ms t) u"
  by (induction t arbitrary: ms) auto

lemma run_append: "run ok ms (t @ u) = (run ok ms t \<and> run ok (replay ms t) u)"
  by (induction t arbitrary: ms) auto

lemma run_mono: "run ok ms t \<Longrightarrow> (\<And>m ev. ok m ev \<Longrightarrow> ok' m ev) \<Longrightarrow> run ok' ms t"
  by (induction t arbitrary: ms) auto

lemma ext_refl: "ext K s s"
  by (simp add: ext_def)

lemma ext_trans: "ext K a b \<Longrightarrow> ext K b c \<Longrightarrow> ext K a c"
  unfolding ext_def
  apply (elim exE conjE)
  subgoal for n1 n2
    by (rule exI [of _ "n1 @ n2"]) (simp add: run_append replay_append)
  done

lemma ext_mono: "ext K s s' \<Longrightarrow> K \<subseteq> K' \<Longrightarrow> ext K' s s'"
  unfolding ext_def
  apply (elim exE conjE)
  subgoal for new
    by (rule exI [of _ new]) (auto elim: run_mono)
  done

lemma foldE_ext:
  assumes "foldE f xs s = Inr s'"
    and "\<And>x a b. x \<in> set xs \<Longrightarrow> f x a = Inr b \<Longrightarrow> ext K a b"
  shows "ext K s s'"
  using foldE_invariant [where P = "ext K s", OF assms(1) ext_refl] assms(2) ext_trans
  by blast

lemma fold_ext:
  assumes "\<And>x a. x \<in> set xs \<Longrightarrow> ext K a (f x a)"
  shows "ext K s (fold f xs s)"
  using assms
proof (induction xs arbitrary: s)
  case Nil
  then show ?case by (simp add: ext_refl)
next
  case (Cons x xs)
  have "ext K s (f x s)" using Cons.prems by simp
  moreover have "ext K (f x s) (fold f xs (f x s))" using Cons by simp
  ultimately show ?case using ext_trans by auto
qed

lemma logged_emit [simp]: "logged (emit ev s) = logged s"
  by (rule ext) (simp add: logged_def emit_def split: mapName.splits)

lemma trace_emit [simp]: "trace (emit ev s) = trace s @ [ev]"
  by (simp add: emit_def)

lemma logged_update [simp]:
  "logged (s\<lparr>prefixListMap := m\<rparr>) = logged s"
  "logged (s\<lparr>routeTableMap := m\<rparr>) = logged s"
  "logged (s\<lparr>peeringList := l\<rparr>) = logged s"
  "logged (s\<lparr>crossAcctRouteProvider := b\<rparr>) = logged s"
  by (auto simp: logged_def fun_eq_iff split: mapName.splits)

lemma logged_constructs [simp]: "logged (s\<lparr>constructs := c\<rparr>) = logged s"
  by (auto simp: logged_def fun_eq_iff split: mapName.splits)

lemma addChild_InrE:
  assumes "addChild i s = Inr s'"
  obtains "s' = s\<lparr>constructs := constructs s @ [sanitizeId i]\<rparr>"
    and "sanitizeId i \<noteq> []" and "sanitizeId i \<notin> set (constructs s)"
  using assms by (auto simp: addChild_def split: if_splits)

lemma construct_InrE:
  assumes "construct i ev s = Inr s'"
  obtains "s' = emit ev (s\<lparr>constructs := constructs s @ [sanitizeId i]\<rparr>)"
    and "sanitizeId i \<noteq> []" and "sanitizeId i \<notin> set (constructs s)"
  using assms unfolding construct_def by (auto simp: bindE_def addChild_def split: if_splits)

lemma ext_same: "trace s' = trace s \<Longrightarrow> logged s' = logged s \<Longrightarrow> ext K s s'"
  by (simp add: ext_def)

lemma ext_constructs: "ext K s (s\<lparr>constructs := c\<rparr>)"
  by (simp add: ext_def)

lemma addChild_ext: "addChild i s = Inr s' \<Longrightarrow> ext K s s'"
  by (auto elim!: addChild_InrE simp: ext_constructs)

lemma ext_emit:
  assumes "kindOf ev \<in> K" "attachmentResolved (logged s) ev" "cachedOnce (logged s) ev"
    and "\<And>M. kindOf ev \<noteq> KMapSet M"
  shows "ext K s (emit ev s)"
  unfolding ext_def
  using assms by (intro exI [of _ "[ev]"]) (cases ev; auto)

lemma ext_setTransitGateway: "KMapSet TransitGatewaysMap \<in> K \<Longrightarrow> ext K s (setTransitGateway k v s)"
  unfolding ext_def setTransitGateway_def
  by (intro exI [of _ "[MapSet TransitGatewaysMap k v]"])
     (auto simp: logged_def emit_def fun_eq_iff split: mapName.splits)

lemma ext_setTransitGatewayRouteTable:
  "KMapSet TransitGatewayRouteTablesMap \<in> K \<Longrightarrow> ext K s (setTransitGatewayRouteTable k v s)"
  unfolding ext_def setTransitGatewayRouteTable_def
  by (intro exI [of _ "[MapSet TransitGatewayRouteTablesMap k v]"])
     (auto simp: logged_def emit_def fun_eq_iff split: mapName.splits)

lemma ext_setTransitGatewayAttachment:
  "KMapSet TransitGatewayAttachmentsMap \<in> K \<Longrightarrow> ext K s (setTransitGatewayAttachment k v s)"
  unfolding ext_def setTransitGatewayAttachment_def
  by (intro exI [of _ "[MapSet TransitGatewayAttachmentsMap k v]"])
     (auto simp: logged_def emit_def fun_eq_iff split: mapName.splits)

lemma ext_setDxGateway: "KMapSet DxGatewayMap \<in> K \<Longrightarrow> ext K s (setDxGateway k v s)"
  unfolding ext_def setDxGateway_def
  by (intro exI [of _ "[MapSet DxGatewayMap k v]"])
     (auto simp: logged_def emit_def fun_eq_iff split: mapName.splits)

lemma ext_setDnsFirewall:
  "KMapSet DnsFirewallMap \<in> K \<Longrightarrow> dnsFirewallMap s k = None \<Longrightarrow> ext K s (setDnsFirewall k v s)"
  unfolding ext_def setDnsFirewall_def
  by (intro exI [of _ "[MapSet DnsFirewallMap k v]"])
     (auto simp: logged_def emit_def fun_eq_iff split: mapName.splits)

lemma ext_setQueryLog:
  "KMapSet QueryLogMap \<in> K \<Longrightarrow> queryLogMap s k = None \<Longrightarrow> ext K s (setQueryLog k v s)"
  unfolding ext_def setQueryLog_def
  by (intro exI [of _ "[MapSet QueryLogMap k v]"])
     (auto simp: logged_def emit_def fun_eq_iff split: mapName.splits)

lemma ext_setResolverRule:
  "KMapSet ResolverRuleMap \<in> K \<Longrightarrow> resolverRuleMap s k = None \<Longrightarrow> ext K s (setResolverRule k v s)"
  unfolding ext_def setResolverRule_def
  by (intro exI [of _ "[MapSet ResolverRuleMap k v]"])
     (auto simp: logged_def emit_def fun_eq_iff split: mapName.splits)

lemma ext_construct:
  assumes "construct i ev s = Inr s'"
    and "kindOf ev \<in> K" "attachmentResolved (logged s) ev" "cachedOnce (logged s) ev"
    and "\<And>M. kindOf ev \<noteq> KMapSet M"
  shows "ext K s s'"
proof -
  from assms(1) obtain c where s': "s' = emit ev (s\<lparr>constructs := c\<rparr>)"
    by (rule construct_InrE)
  have "ext K (s\<lparr>constructs := c\<rparr>) (emit ev (s\<lparr>constructs := c\<rparr>))"
    by (rule ext_emit) (simp_all add: assms(2-5))
  with ext_constructs [of K s c] show ?thesis unfolding s' by (rule ext_trans)
qed

lemma ext_setTransitGatewayAttachment_child:
  "KMapSet TransitGatewayAttachmentsMap \<in> K
   \<Longrightarrow> ext K s (setTransitGatewayAttachment k v (s\<lparr>constructs := c\<rparr>))"
  by (rule ext_trans [OF ext_constructs ext_setTransitGatewayAttachment])

lemma ext_setDxGateway_child:
  "KMapSet DxGatewayMap \<in> K \<Longrightarrow> ext K s (setDxGateway k v (s\<lparr>constructs := c\<rparr>))"
  by (rule ext_trans [OF ext_constructs ext_setDxGateway])

lemma setTransitGatewayMap_ext:
  "setTransitGatewayMap e tgwItem s = Inr s' \<Longrightarrow> ext {KMapSet TransitGatewaysMap} s s'"
  by (auto simp: setTransitGatewayMap_def bindE_Inr_iff ext_refl ext_setTransitGateway
           split: if_splits)

lemma setTransitGatewayRouteTableMap_ext:
  "setTransitGatewayRouteTableMap e tgwItem s = Inr s'
   \<Longrightarrow> ext {KMapSet TransitGatewayRouteTablesMap} s s'"
  by (auto simp: setTransitGatewayRouteTableMap_def bindE_Inr_iff ext_refl
           split: if_splits intro!: fold_ext ext_setTransitGatewayRouteTable)

lemma frame_emit [simp]:
  "transitGatewayAttachments (emit ev s) = transitGatewayAttachments s"
  "transitGatewayRouteTables (emit ev s) = transitGatewayRouteTables s"
  "transitGatewaysMap (emit ev s) = transitGatewaysMap s"
  "dnsFirewallMap (emit ev s) = dnsFirewallMap s"
  "queryLogMap (emit ev s) = queryLogMap s"
  "resolverRuleMap (emit ev s) = resolverRuleMap s"
  "dxGatewayMap (emit ev s) = dxGatewayMap s"
  "prefixListMap (emit ev s) = prefixListMap s"
  "routeTableMap (emit ev s) = routeTableMap s"
  "peeringList (emit ev s) = peeringList s"
  "crossAcctRouteProvider (emit ev s) = crossAcctRouteProvider s"
  "constructs (emit ev s) = constructs s"
  by (simp_all add: emit_def)

lemma setTransitGatewayVpcAttachmentsMap_ext:
  "setTransitGatewayVpcAttachmentsMap e vpcItem s = Inr s'
   \<Longrightarrow> ext {KMapSet TransitGatewayAttachmentsMap} s s'"
  unfolding setTransitGatewayVpcAttachmentsMap_def
  by (auto simp: setTransitGatewayVpcAttachmentsMap_attachment_def
                 setTransitGatewayVpcAttachmentsMap_owner_def bindE_Inr_iff ext_refl
                 ext_setTransitGatewayAttachment
                 ext_setTransitGatewayAttachment_child
           split: if_splits prod.splits option.splits elim!: foldE_ext addChild_InrE)


lemma emits_refl: "emits K s s"
  by (simp add: emits_def ext_refl)

lemma emits_trans: "emits K a b \<Longrightarrow> emits K b c \<Longrightarrow> emits K a c"
proof -
  assume ab: "emits K a b" and bc: "emits K b c"
  from ab have b: "b = a\<lparr>constructs := constructs b, trace := trace b\<rparr>" by (simp add: emits_def)
  from bc have c: "c = b\<lparr>constructs := constructs c, trace := trace c\<rparr>" by (simp add: emits_def)
  have "c = a\<lparr>constructs := constructs c, trace := trace c\<rparr>"
    by (subst c, subst b) simp
  moreover from ab bc have "ext K a c" by (auto simp: emits_def intro: ext_trans)
  ultimately show ?thesis by (simp add: emits_def)
qed

lemma emits_ext: "emits K s s' \<Longrightarrow> ext K s s'"
  by (simp add: emits_def)

lemma emits_emit:
  assumes "kindOf ev \<in> K" "attachmentResolved (logged s) ev" "cachedOnce (logged s) ev"
    and "\<And>M. kindOf ev \<noteq> KMapSet M"
  shows "emits K s (emit ev s)"
  unfolding emits_def using ext_emit [OF assms] by (simp add: emit_def)

lemma emits_constructs: "emits K s (s\<lparr>constructs := c\<rparr>)"
  by (simp add: emits_def ext_constructs)

lemma addChild_emits: "addChild i s = Inr s' \<Longrightarrow> emits K s s'"
  by (auto elim!: addChild_InrE simp: emits_constructs)

lemma emits_construct:
  assumes "construct i ev s = Inr s'"
    and "kindOf ev \<in> K" "attachmentResolved (logged s) ev" "cachedOnce (logged s) ev"
    and "\<And>M. kindOf ev \<noteq> KMapSet M"
  shows "emits K s s'"
proof -
  from assms(1) obtain c where s': "s' = emit ev (s\<lparr>constructs := c\<rparr>)"
    by (rule construct_InrE)
  have "emits K (s\<lparr>constructs := c\<rparr>) (emit ev (s\<lparr>constructs := c\<rparr>))"
    by (rule emits_emit) (simp_all add: assms(2-5))
  with emits_constructs [of K s c] show ?thesis unfolding s' by (rule emits_trans)
qed

lemma foldE_emits:
  assumes "foldE f xs s = Inr s'"
    and "\<And>x a b. x \<in> set xs \<Longrightarrow> emits K s a \<Longrightarrow> f x a = Inr b \<Longrightarrow> emits K a b"
  shows "emits K s s'"
  using foldE_invariant [where P = "emits K s", OF assms(1) emits_refl] assms(2) emits_trans
  by blast

lemma emits_frame:
  assumes "emits K s a"
  shows "transitGatewayAttachments a = transitGatewayAttachments s"
    and "transitGatewayRouteTables a = transitGatewayRouteTables s"
    and "transitGatewaysMap a = transitGatewaysMap s"
    and "prefixListMap a = prefixListMap s"
    and "routeTableMap a = routeTableMap s"
    and "crossAcctRouteProvider a = crossAcctRouteProvider s"
    and "peeringList a = peeringList s"
    and "dnsFirewallMap a = dnsFirewallMap s"
    and "queryLogMap a = queryLogMap s"
    and "resolverRuleMap a = resolverRuleMap s"
    and "dxGatewayMap a = dxGatewayMap s"
proof -
  from assms have eq: "a = s\<lparr>constructs := constructs a, trace := trace a\<rparr>"
    by (simp add: emits_def)
  show "transitGatewayAttachments a = transitGatewayAttachments s" by (subst eq) simp
  show "transitGatewayRouteTables a = transitGatewayRouteTables s" by (subst eq) simp
  show "transitGatewaysMap a = transitGatewaysMap s" by (subst eq) simp
  show "prefixListMap a = prefixListMap s" by (subst eq) simp
  show "routeTableMap a = routeTableMap s" by (subst eq) simp
  show "crossAcctRouteProvider a = crossAcctRouteProvider s" by (subst eq) simp
  show "peeringList a = peeringList s" by (subst eq) simp
  show "dnsFirewallMap a = dnsFirewallMap s" by (subst eq) simp
  show "queryLogMap a = queryLogMap s" by (subst eq) simp
  show "resolverRuleMap a = resolverRuleMap s" by (subst eq) simp
  show "dxGatewayMap a = dxGatewayMap s" by (subst eq) simp
qed

lemma emits_association:
  "construct i (TransitGatewayRouteTableAssociation l a r) s = Inr s' \<Longrightarrow> KAssociation \<in> K
   \<Longrightarrow> transitGatewayAttachments s k = Some a \<Longrightarrow> emits K s s'"
  by (erule emits_construct) (auto simp: logged_def ran_def)

lemma emits_propagation:
  "construct i (TransitGatewayRouteTablePropagation l a r) s = Inr s' \<Longrightarrow> KPropagation \<in> K
   \<Longrightarrow> transitGatewayAttachments s k = Some a \<Longrightarrow> emits K s s'"
  by (erule emits_construct) (auto simp: logged_def ran_def)

lemma createVpcTransitGatewayAssociations_routeTable_emits:
  "createVpcTransitGatewayAssociations_routeTable e vpcItem att owner a rt s = Inr s'
   \<Longrightarrow> transitGatewayAttachments s k = Some a \<Longrightarrow> emits {KAssociation} s s'"
  by (auto simp: createVpcTransitGatewayAssociations_routeTable_def
           split: option.splits elim: emits_association)

lemma createVpcTransitGatewayAssociations_owner_emits:
  assumes "createVpcTransitGatewayAssociations_owner e vpcItem att excl owner s = Inr s'"
  shows "emits {KAssociation} s s'"
proof -
  from assms show ?thesis
    unfolding createVpcTransitGatewayAssociations_owner_def
    by (auto simp: bindE_Inr_iff emits_refl emits_frame
             split: if_splits option.splits
             elim!: foldE_emits createVpcTransitGatewayAssociations_routeTable_emits)
qed

lemma createVpcTransitGatewayAssociations_emits:
  "createVpcTransitGatewayAssociations e vpcItem s = Inr s' \<Longrightarrow> emits {KAssociation} s s'"
  unfolding createVpcTransitGatewayAssociations_def
  by (auto simp: createVpcTransitGatewayAssociations_attachment_def bindE_Inr_iff emits_refl
           split: if_splits prod.splits
           elim!: foldE_emits createVpcTransitGatewayAssociations_owner_emits)

lemma createVpcTransitGatewayPropagations_routeTable_emits:
  "createVpcTransitGatewayPropagations_routeTable e vpcItem att owner a rt s = Inr s'
   \<Longrightarrow> transitGatewayAttachments s k = Some a \<Longrightarrow> emits {KPropagation} s s'"
  by (auto simp: createVpcTransitGatewayPropagations_routeTable_def
           split: option.splits elim: emits_propagation)

lemma createVpcTransitGatewayPropagations_owner_emits:
  "createVpcTransitGatewayPropagations_owner e vpcItem att excl owner s = Inr s'
   \<Longrightarrow> emits {KPropagation} s s'"
  unfolding createVpcTransitGatewayPropagations_owner_def
  by (auto simp: bindE_Inr_iff emits_refl emits_frame
           split: if_splits option.splits
           elim!: foldE_emits createVpcTransitGatewayPropagations_routeTable_emits)

lemma createVpcTransitGatewayPropagations_emits:
  "createVpcTransitGatewayPropagations e vpcItem s = Inr s' \<Longrightarrow> emits {KPropagation} s s'"
  unfolding createVpcTransitGatewayPropagations_def
  by (auto simp: createVpcTransitGatewayPropagations_attachment_def bindE_Inr_iff emits_refl
           split: if_splits prod.splits
           elim!: foldE_emits createVpcTransitGatewayPropagations_owner_emits)

lemma setTransitGatewayVpnAttachmentsMap_ext:
  "setTransitGatewayVpnAttachmentsMap e cfg cgwItem vpnItem s = Inr s'
   \<Longrightarrow> ext {KMapSet TransitGatewayAttachmentsMap} s s'"
  by (auto simp: setTransitGatewayVpnAttachmentsMap_def bindE_Inr_iff ext_refl
                 ext_setTransitGatewayAttachment
                 ext_setTransitGatewayAttachment_child
           split: if_splits option.splits elim!: addChild_InrE)

lemma createVpnTransitGatewayAssociations_routeTable_emits:
  "createVpnTransitGatewayAssociations_routeTable e vpnItem a rt s = Inr s'
   \<Longrightarrow> transitGatewayAttachments s k = Some a \<Longrightarrow> emits {KAssociation} s s'"
  by (auto simp: createVpnTransitGatewayAssociations_routeTable_def
           split: option.splits elim: emits_association)

lemma createVpnTransitGatewayAssociations_emits:
  "createVpnTransitGatewayAssociations e cgwItem vpnItem s = Inr s' \<Longrightarrow> emits {KAssociation} s s'"
  unfolding createVpnTransitGatewayAssociations_def
  by (erule bindE_InrE)
     (auto simp: emits_refl emits_frame split: if_splits option.splits
           elim!: foldE_emits createVpnTransitGatewayAssociations_routeTable_emits)

lemma createVpnTransitGatewayPropagations_routeTable_emits:
  "createVpnTransitGatewayPropagations_routeTable e vpnItem a rt s = Inr s'
   \<Longrightarrow> transitGatewayAttachments s k = Some a \<Longrightarrow> emits {KPropagation} s s'"
  by (auto simp: createVpnTransitGatewayPropagations_routeTable_def
           split: option.splits elim: emits_propagation)

lemma createVpnTransitGatewayPropagations_emits:
  "createVpnTransitGatewayPropagations e cgwItem vpnItem s = Inr s' \<Longrightarrow> emits {KPropagation} s s'"
  unfolding createVpnTransitGatewayPropagations_def
  by (erule bindE_InrE)
     (auto simp: emits_refl emits_frame split: if_splits option.splits
           elim!: foldE_emits createVpnTransitGatewayPropagations_routeTable_emits)

lemma createTransitGatewayResources_tgw_ext:
  "createTransitGatewayResources_tgw e tgwItem s = Inr s' \<Longrightarrow> ext tgwKinds s s'"
  unfolding createTransitGatewayResources_tgw_def bindE_Inr_iff
  by (auto 0 3 simp: tgwKinds_def dest!: setTransitGatewayMap_ext setTransitGatewayRouteTableMap_ext
           intro: ext_trans ext_mono)

lemma createTransitGatewayResources_vpc_ext:
  "createTransitGatewayResources_vpc e vpcItem s = Inr s' \<Longrightarrow> ext tgwKinds s s'"
  unfolding createTransitGatewayResources_vpc_def bindE_Inr_iff
  apply (elim exE conjE)
  apply (drule setTransitGatewayVpcAttachmentsMap_ext)
  apply (drule createVpcTransitGatewayAssociations_emits [THEN emits_ext])
  apply (drule createVpcTransitGatewayPropagations_emits [THEN emits_ext])
  apply (rule ext_trans [OF ext_mono ext_trans [OF ext_mono ext_mono]])
  apply (assumption | simp add: tgwKinds_def)+
  done

lemma createTransitGatewayResources_vpn_ext:
  "createTransitGatewayResources_vpn e cfg cgwItem vpnItem s = Inr s' \<Longrightarrow> ext tgwKinds s s'"
  unfolding createTransitGatewayResources_vpn_def bindE_Inr_iff
  apply (elim exE conjE)
  apply (drule setTransitGatewayVpnAttachmentsMap_ext)
  apply (drule createVpnTransitGatewayAssociations_emits [THEN emits_ext])
  apply (drule createVpnTransitGatewayPropagations_emits [THEN emits_ext])
  apply (rule ext_trans [OF ext_mono ext_trans [OF ext_mono ext_mono]])
  apply (assumption | simp add: tgwKinds_def)+
  done

lemma createTransitGatewayResources_ext:
  "createTransitGatewayResources e cfg s = Inr s' \<Longrightarrow> ext tgwKinds s s'"
  unfolding createTransitGatewayResources_def createTransitGatewayResources_cgw_def bindE_Inr_iff
  apply (elim exE conjE)
  apply (rule ext_trans [OF _ ext_trans])
    apply (erule foldE_ext, erule createTransitGatewayResources_tgw_ext)
   apply (erule foldE_ext, erule createTransitGatewayResources_vpc_ext)
  apply (erule foldE_ext, erule foldE_ext, erule createTransitGatewayResources_vpn_ext)
  done

lemma createHostedZoneAssociations_emits:
  "createHostedZoneAssociations e cfg s = Inr s' \<Longrightarrow> emits {KHostedZones} s s'"
  unfolding createHostedZoneAssociations_def
  by (erule bindE_InrE)
     (auto simp: emits_refl split: if_splits list.splits elim!: bindE_InrE emits_construct)

lemma lookupDnsFirewall_ext:
  "ext {KMapSet DnsFirewallMap} s (lookupDnsFirewall e owner n s)"
  by (simp add: lookupDnsFirewall_def ext_refl ext_setDnsFirewall)

lemma lookupQueryLog_ext:
  "ext {KMapSet QueryLogMap} s (lookupQueryLog e owner n s)"
  by (simp add: lookupQueryLog_def ext_refl ext_setQueryLog)

lemma lookupResolverRule_ext:
  "ext {KMapSet ResolverRuleMap} s (lookupResolverRule e owner n s)"
  by (simp add: lookupResolverRule_def ext_refl ext_setResolverRule)

lemma createDnsFirewallAssociations_ext:
  "createDnsFirewallAssociations e vpcItem owner s = Inr s' \<Longrightarrow> ext centralKinds s s'"
  unfolding createDnsFirewallAssociations_def
proof (erule foldE_ext)
  fix x a b
  assume "createDnsFirewallAssociations_item e vpcItem owner x a = Inr b"
  then obtain i l where i: "dnsFirewallMap (lookupDnsFirewall e owner (dfw_name x) a) (dfw_name x) = Some i"
    and b: "construct l (ResolverFirewallRuleGroupAssociation l
                        i (dfw_priority x) (vpcIdOf (itemName vpcItem)))
                   (lookupDnsFirewall e owner (dfw_name x) a) = Inr b"
    by (auto simp: createDnsFirewallAssociations_item_def Let_def split: option.splits)
  have "ext centralKinds a (lookupDnsFirewall e owner (dfw_name x) a)"
    by (rule ext_mono [OF lookupDnsFirewall_ext]) (simp add: centralKinds_def)
  moreover have "ext centralKinds (lookupDnsFirewall e owner (dfw_name x) a) b"
    using b i by (elim ext_construct) (auto simp: centralKinds_def logged_def ran_def)
  ultimately show "ext centralKinds a b" by (rule ext_trans)
qed

lemma createResolverRuleAssociations_ext:
  "createResolverRuleAssociations e vpcItem owner s = Inr s' \<Longrightarrow> ext centralKinds s s'"
  unfolding createResolverRuleAssociations_def
proof (erule foldE_ext)
  fix x a b
  assume "createResolverRuleAssociations_item e vpcItem owner x a = Inr b"
  then obtain i l where i: "resolverRuleMap (lookupResolverRule e owner x a) x = Some i"
    and b: "construct l (ResolverRuleAssociation l i (vpcIdOf (itemName vpcItem)))
                   (lookupResolverRule e owner x a) = Inr b"
    by (auto simp: createResolverRuleAssociations_item_def Let_def split: option.splits)
  have "ext centralKinds a (lookupResolverRule e owner x a)"
    by (rule ext_mono [OF lookupResolverRule_ext]) (simp add: centralKinds_def)
  moreover have "ext centralKinds (lookupResolverRule e owner x a) b"
    using b i by (elim ext_construct) (auto simp: centralKinds_def logged_def ran_def)
  ultimately show "ext centralKinds a b" by (rule ext_trans)
qed

lemma createQueryLogConfigAssociations_assoc_ext:
  "createQueryLogConfigAssociations_assoc e vpcItem n s = Inr s' \<Longrightarrow> ext centralKinds s s'"
  by (auto simp: createQueryLogConfigAssociations_assoc_def centralKinds_def logged_def ran_def
           split: option.splits elim!: ext_construct)

lemma createQueryLogConfigAssociations_ext:
  "createQueryLogConfigAssociations e cfg vpcItem owner s = Inr s' \<Longrightarrow> ext centralKinds s s'"
  unfolding createQueryLogConfigAssociations_def
proof (erule foldE_ext)
  fix x a b
  assume "createQueryLogConfigAssociations_item e cfg vpcItem owner x a = Inr b"
  then obtain c where
    b: "foldE (createQueryLogConfigAssociations_assoc e vpcItem) (queryLogConfigNames c x)
          (fold (lookupQueryLog e owner) (queryLogConfigNames c x) a) = Inr b"
    by (auto simp: createQueryLogConfigAssociations_item_def Let_def split: option.splits)
  have "ext centralKinds a (fold (lookupQueryLog e owner) (queryLogConfigNames c x) a)"
    by (rule fold_ext, rule ext_mono [OF lookupQueryLog_ext]) (simp add: centralKinds_def)
  moreover have "ext centralKinds (fold (lookupQueryLog e owner) (queryLogConfigNames c x) a) b"
    using b by (rule foldE_ext) (erule createQueryLogConfigAssociations_assoc_ext)
  ultimately show "ext centralKinds a b" by (rule ext_trans)
qed

lemma createCentralNetworkAssociations_ext:
  "createCentralNetworkAssociations e cfg s = Inr s' \<Longrightarrow> ext centralKinds s s'"
  unfolding createCentralNetworkAssociations_def createCentralNetworkAssociations_vpc_def
  by (auto simp: ext_refl split: option.splits if_splits
           elim!: foldE_ext bindE_InrE
           dest!: createDnsFirewallAssociations_ext createQueryLogConfigAssociations_ext
                  createResolverRuleAssociations_ext)
     (blast intro: ext_trans)

lemma createRequesterVpcPeeringRoutes_emits:
  "createRequesterVpcPeeringRoutes e requesterVpc n s = Inr s' \<Longrightarrow> emits {KPeering} s s'"
  unfolding createRequesterVpcPeeringRoutes_def createRequesterVpcPeeringRoutes_entry_def
  by (auto simp: emits_refl split: if_splits option.splits
           elim!: foldE_emits intro!: emits_emit)

lemma createAccepterVpcPeeringRoutes_emits:
  "createAccepterVpcPeeringRoutes e aid accepterVpc requesterVpc n s = Inr s'
   \<Longrightarrow> emits {KPeering} s s'"
  unfolding createAccepterVpcPeeringRoutes_def createAccepterVpcPeeringRoutes_entry_def
  by (auto simp: emits_refl Let_def split: if_splits option.splits
           elim!: foldE_emits intro!: emits_emit)

lemma createVpcPeeringRoutes_emits:
  "createVpcPeeringRoutes e aid requesterVpc accepterVpc n s = Inr s' \<Longrightarrow> emits {KPeering} s s'"
  unfolding createVpcPeeringRoutes_def
  by (auto elim!: bindE_InrE
           dest!: createRequesterVpcPeeringRoutes_emits createAccepterVpcPeeringRoutes_emits
           intro: emits_trans)

lemma construct_VpcPeering_emits:
  "construct i (VpcPeering p) s = Inr s' \<Longrightarrow> emits {KPeering} s s'"
  by (erule emits_construct) simp_all

lemma construct_PutSsmParameter_emits:
  "construct i (PutSsmParameter r n a role v) s = Inr s' \<Longrightarrow> emits {KPeering} s s'"
  by (erule emits_construct) simp_all

lemma createVpcPeeringConnections_peering_emits:
  "createVpcPeeringConnections_peering e x a = Inr b \<Longrightarrow> emits {KPeering} a b"
  unfolding createVpcPeeringConnections_peering_def
  by (auto simp: Let_def split: option.splits if_splits elim!: bindE_InrE
           dest!: addChild_emits [where K = "{KPeering}"] construct_VpcPeering_emits
                  construct_PutSsmParameter_emits createVpcPeeringRoutes_emits)
     (blast intro: emits_trans)+

lemma createVpcPeeringConnections_emits:
  "createVpcPeeringConnections e s = Inr s' \<Longrightarrow> emits {KPeering} s s'"
  unfolding createVpcPeeringConnections_def
  by (erule foldE_emits) (erule createVpcPeeringConnections_peering_emits)

lemma createCrossAcctRouteProvider_ext:
  assumes "createCrossAcctRouteProvider s = Inr s'"
  shows "ext {KProvider} s s'"
proof -
  from assms have
    "s' = s\<lparr>crossAcctRouteProvider := False\<rparr>
     \<or> (\<exists>s1. construct ''CrossAccountRouteFramework'' CrossAccountRouteFramework s = Inr s1
             \<and> s' = s1\<lparr>crossAcctRouteProvider := True\<rparr>)"
    unfolding createCrossAcctRouteProvider_def
    by (auto split: if_splits elim!: bindE_InrE)
  then show ?thesis
  proof
    assume "s' = s\<lparr>crossAcctRouteProvider := False\<rparr>"
    then show ?thesis by (simp add: ext_def)
  next
    assume "\<exists>s1. construct ''CrossAccountRouteFramework'' CrossAccountRouteFramework s = Inr s1
             \<and> s' = s1\<lparr>crossAcctRouteProvider := True\<rparr>"
    then obtain s1 where 1: "construct ''CrossAccountRouteFramework'' CrossAccountRouteFramework s = Inr s1"
      and s': "s' = s1\<lparr>crossAcctRouteProvider := True\<rparr>" by blast
    from 1 have "ext {KProvider} s s1" by (rule ext_construct) simp_all
    moreover have "ext {KProvider} s1 s'" unfolding s' by (simp add: ext_def)
    ultimately show ?thesis by (rule ext_trans)
  qed
qed

lemma setDxGatewayMap_ext:
  "setDxGatewayMap e dxgwItem tgw tid s = Inr s' \<Longrightarrow> ext {KMapSet DxGatewayMap} s s'"
  unfolding setDxGatewayMap_def
  by (auto simp: ext_refl ext_setDxGateway ext_setDxGateway_child split: if_splits
           elim!: bindE_InrE addChild_InrE)

lemma createDxGatewayTgwAssociations_ext:
  assumes "createDxGatewayTgwAssociations e dxgwItem tgw associationItem tid s = Inr s'"
  shows "ext {KDxAssociation, KMapSet TransitGatewayAttachmentsMap} s s'"
proof -
  from assms have
    "s' = s \<or> (\<exists>l p. construct l (DirectConnectGatewayAssociation l p) s = Inr s')
     \<or> (\<exists>l p k v s1. construct l (DirectConnectGatewayAssociation l p) s = Inr s1
                       \<and> s' = setTransitGatewayAttachment k v s1)"
    unfolding createDxGatewayTgwAssociations_def
    by (auto simp: Let_def split: option.splits if_splits prod.splits elim!: bindE_InrE)
       blast+
  moreover have "ext {KDxAssociation, KMapSet TransitGatewayAttachmentsMap} s s1"
    if "construct l (DirectConnectGatewayAssociation l p) s = Inr s1" for l p s1
    using that by (rule ext_construct) simp_all
  moreover have "ext {KDxAssociation, KMapSet TransitGatewayAttachmentsMap} t
                   (setTransitGatewayAttachment k v t)" for k v t
    by (rule ext_setTransitGatewayAttachment) simp
  ultimately show ?thesis by (metis ext_refl ext_trans)
qed

lemma createDxTgwRouteTableAssociations_emits:
  "createDxTgwRouteTableAssociations e dxgwItem tgw n tid s = Inr s' \<Longrightarrow> emits {KAssociation} s s'"
  unfolding createDxTgwRouteTableAssociations_def
  by (auto simp: emits_refl split: if_splits option.splits elim: emits_association)

lemma createDxTgwRouteTablePropagations_emits:
  "createDxTgwRouteTablePropagations e dxgwItem tgw n tid s = Inr s' \<Longrightarrow> emits {KPropagation} s s'"
  unfolding createDxTgwRouteTablePropagations_def
  by (auto simp: emits_refl split: if_splits option.splits elim: emits_propagation)

lemma createDirectConnectResources_association_ext:
  assumes "createDirectConnectResources_association e cfg dxgwItem associationItem s = Inr s'"
  shows "ext dxKinds s s'"
proof -
  from assms obtain tgw tid s1 s2 s3 where
    1: "setDxGatewayMap e dxgwItem tgw tid s = Inr s1"
    and 2: "createDxGatewayTgwAssociations e dxgwItem tgw associationItem tid s1 = Inr s2"
    and 3: "foldE (\<lambda>n. createDxTgwRouteTableAssociations e dxgwItem tgw n tid)
              (dxa_routeTableAssociations associationItem) s2 = Inr s3"
    and 4: "foldE (\<lambda>n. createDxTgwRouteTablePropagations e dxgwItem tgw n tid)
              (dxa_routeTablePropagations associationItem) s3 = Inr s'"
    unfolding createDirectConnectResources_association_def
    by (auto split: option.splits elim!: bindE_InrE)
  have "ext dxKinds s s1"
    by (rule ext_mono [OF setDxGatewayMap_ext [OF 1]]) (simp add: dxKinds_def)
  moreover have "ext dxKinds s1 s2"
    by (rule ext_mono [OF createDxGatewayTgwAssociations_ext [OF 2]]) (simp add: dxKinds_def)
  moreover have "ext dxKinds s2 s3"
    using 3 by (rule foldE_ext)
      (rule ext_mono [OF emits_ext [OF createDxTgwRouteTableAssociations_emits]],
       simp_all add: dxKinds_def)
  moreover have "ext dxKinds s3 s'"
    using 4 by (rule foldE_ext)
      (rule ext_mono [OF emits_ext [OF createDxTgwRouteTablePropagations_emits]],
       simp_all add: dxKinds_def)
  ultimately show ?thesis by (blast intro: ext_trans)
qed

lemma createDirectConnectResources_ext:
  "createDirectConnectResources e cfg s = Inr s' \<Longrightarrow> ext dxKinds s s'"
  unfolding createDirectConnectResources_def
  by (erule foldE_ext, erule foldE_ext, erule createDirectConnectResources_association_ext)

lemma getTgwPeeringAttachmentId_emits:
  "getTgwPeeringAttachmentId e n tgwItem s = Inr (i, s1) \<Longrightarrow> emits K s s1"
  unfolding getTgwPeeringAttachmentId_def
  by (auto simp: emits_refl split: option.splits if_splits elim!: bindE_InrE addChild_emits)

lemma routeAttachmentId_emits:
  assumes "routeAttachmentId e tgwItem x s = Inr (i, s1)"
  shows "emits K s s1"
proof (cases x)
  case None
  with assms show ?thesis by (simp add: emits_refl)
next
  case (Some r)
  with assms show ?thesis
    by (cases r) (auto simp: emits_refl elim!: bindE_InrE getTgwPeeringAttachmentId_emits)
qed

lemma createTransitGatewayStaticRouteItem_route_emits:
  assumes "createTransitGatewayStaticRouteItem_route e tgwItem routeTableItem routeItem rid s = Inr s'"
  shows "emits {KStaticRoute} s s'"
proof (cases "truthy (tre_destinationCidrBlock routeItem)")
  case False
  with assms show ?thesis
    by (simp add: createTransitGatewayStaticRouteItem_route_def emits_refl)
next
  case True
  with assms obtain i s1 l b c where
    1: "routeAttachmentId e tgwItem (tre_attachment routeItem) s = Inr (i, s1)"
    and 2: "construct l (TransitGatewayStaticRoute l rid b c i) s1 = Inr s'"
    unfolding createTransitGatewayStaticRouteItem_route_def
    by (auto split: if_splits prod.splits elim!: bindE_InrE)
  from 2 have "emits {KStaticRoute} s1 s'" by (rule emits_construct) simp_all
  with routeAttachmentId_emits [OF 1] show ?thesis by (rule emits_trans)
qed

lemma createTransitGatewayStaticRouteItem_prefixList_emits:
  assumes "createTransitGatewayStaticRouteItem_prefixList e tgwItem routeTableItem routeItem rid s
           = Inr s'"
  shows "emits {KStaticRoute} s s'"
proof (cases "truthy (tre_destinationPrefixList routeItem)")
  case False
  with assms show ?thesis
    by (simp add: createTransitGatewayStaticRouteItem_prefixList_def emits_refl)
next
  case True
  with assms obtain i s1 l p b where
    1: "routeAttachmentId e tgwItem (tre_attachment routeItem) s = Inr (i, s1)"
    and 2: "construct l (TransitGatewayPrefixListReference l p b i rid) s1 = Inr s'"
    unfolding createTransitGatewayStaticRouteItem_prefixList_def
    by (auto split: if_splits prod.splits option.splits elim!: bindE_InrE)
  from 2 have "emits {KStaticRoute} s1 s'" by (rule emits_construct) simp_all
  with routeAttachmentId_emits [OF 1] show ?thesis by (rule emits_trans)
qed

lemma createTransitGatewayStaticRouteItem_emits:
  "createTransitGatewayStaticRouteItem e tgwItem routeTableItem routeItem rid s = Inr s'
   \<Longrightarrow> emits {KStaticRoute} s s'"
  unfolding createTransitGatewayStaticRouteItem_def
  by (auto elim!: bindE_InrE
           dest!: createTransitGatewayStaticRouteItem_route_emits
                  createTransitGatewayStaticRouteItem_prefixList_emits
           intro: emits_trans)

lemma createTransitGatewayStaticRoutes_emits:
  "createTransitGatewayStaticRoutes e cfg s = Inr s' \<Longrightarrow> emits {KStaticRoute} s s'"
  unfolding createTransitGatewayStaticRoutes_def createTransitGatewayStaticRoutes_tgw_def
            createTransitGatewayStaticRoutes_routeTable_def
  by (auto simp: emits_refl split: if_splits option.splits
           elim!: foldE_emits bindE_InrE createTransitGatewayStaticRouteItem_emits)

lemma setCrossAcctPrefixLists_emits:
  assumes "setCrossAcctPrefixLists e s = Inr (m, s')"
  shows "emits K s s'"
proof -
  have "emits K s (snd st')"
    if "foldE (setCrossAcctPrefixLists_peering e) ps st = Inr st'" "emits K s (snd st)" for ps st st'
    using that(1,2)
  proof (rule foldE_invariant [where P = "\<lambda>st. emits K s (snd st)"])
    fix x a b
    assume a: "emits K s (snd a)" and b: "setCrossAcctPrefixLists_peering e x a = Inr b"
    from b obtain acc aid c where
      f: "foldE (\<lambda>routeTable. foldE (setCrossAcctPrefixLists_entry e x acc aid c)
                                  (rt_routes routeTable)) (vpc_routeTables acc) a = Inr b"
      unfolding setCrossAcctPrefixLists_peering_def
      by (auto simp: Let_def split: option.splits elim!: bindE_InrE)
    have entry: "emits K s (snd d)"
      if "setCrossAcctPrefixLists_entry e x acc aid c r c' = Inr d" "emits K s (snd c')" for r c' d
      using that unfolding setCrossAcctPrefixLists_entry_def
      by (auto simp: Let_def split: prod.splits if_splits elim!: bindE_InrE
               dest!: addChild_emits [where K = K] intro: emits_trans)
    from f a show "emits K s (snd b)"
      by (rule foldE_invariant [where P = "\<lambda>st. emits K s (snd st)"])
         (erule foldE_invariant [where P = "\<lambda>st. emits K s (snd st)"], assumption, erule entry)
  qed
  from this [of "peeringList s" "(Map.empty, s)" "(m, s')"] assms show ?thesis
    by (simp add: setCrossAcctPrefixLists_def emits_refl)
qed

lemma setCrossAcctRouteTables_emits:
  assumes "setCrossAcctRouteTables e s = Inr (m, s')"
  shows "emits K s s'"
proof -
  have "emits K s (snd st')"
    if "foldE (setCrossAcctRouteTables_peering e) ps st = Inr st'" "emits K s (snd st)" for ps st st'
    using that(1,2)
  proof (rule foldE_invariant [where P = "\<lambda>st. emits K s (snd st)"])
    fix x a b
    assume a: "emits K s (snd a)" and b: "setCrossAcctRouteTables_peering e x a = Inr b"
    from b obtain acc aid c where
      f: "foldE (\<lambda>routeTable. foldE (setCrossAcctRouteTables_entry e x acc aid c routeTable)
                                  (rt_routes routeTable)) (vpc_routeTables acc) a = Inr b"
      unfolding setCrossAcctRouteTables_peering_def
      by (auto simp: Let_def split: option.splits elim!: bindE_InrE)
    have entry: "emits K s (snd d)"
      if "setCrossAcctRouteTables_entry e x acc aid c rt r c' = Inr d" "emits K s (snd c')"
      for rt r c' d
      using that unfolding setCrossAcctRouteTables_entry_def
      by (auto simp: Let_def split: prod.splits if_splits elim!: bindE_InrE
               dest!: addChild_emits [where K = K] intro: emits_trans)
    from f a show "emits K s (snd b)"
      by (rule foldE_invariant [where P = "\<lambda>st. emits K s (snd st)"])
         (erule foldE_invariant [where P = "\<lambda>st. emits K s (snd st)"], assumption, erule entry)
  qed
  from this [of "peeringList s" "(Map.empty, s)" "(m, s')"] assms show ?thesis
    by (simp add: setCrossAcctRouteTables_def emits_refl)
qed

lemma setPrefixListMap_emits: "setPrefixListMap e cfg s = Inr (m, s') \<Longrightarrow> emits K s s'"
  unfolding setPrefixListMap_def
  by (auto split: prod.splits elim!: bindE_InrE setCrossAcctPrefixLists_emits)

lemma setRouteTableMap_emits: "setRouteTableMap e cfg s = Inr (m, s') \<Longrightarrow> emits K s s'"
  unfolding setRouteTableMap_def
  by (auto split: prod.splits elim!: bindE_InrE setCrossAcctRouteTables_emits)

lemma networkAssociationsStack_steps:
  assumes "networkAssociationsStack e cfg = Inr s"
  shows "\<exists>pl s1 plm s1a rtm s1b s2 s3 s4 s5 s6.
           setPeeringList e cfg = Inr pl
           \<and> createCrossAcctRouteProvider (newStack\<lparr>peeringList := pl\<rparr>) = Inr s1
           \<and> setPrefixListMap e cfg s1 = Inr (plm, s1a)
           \<and> setRouteTableMap e cfg (s1a\<lparr>prefixListMap := plm\<rparr>) = Inr (rtm, s1b)
           \<and> createTransitGatewayResources e cfg (s1b\<lparr>routeTableMap := rtm\<rparr>) = Inr s2
           \<and> createHostedZoneAssociations e cfg s2 = Inr s3
           \<and> createCentralNetworkAssociations e cfg s3 = Inr s4
           \<and> createVpcPeeringConnections e s4 = Inr s5
           \<and> createDirectConnectResources e cfg s5 = Inr s6
           \<and> createTransitGatewayStaticRoutes e cfg s6 = Inr s"
  using assms unfolding networkAssociationsStack_def
  by (auto elim!: bindE_InrE split: prod.splits)

lemma networkAssociationsStack_phases:
  assumes "networkAssociationsStack e cfg = Inr s"
  shows "\<exists>s0 s1 s5. trace s0 = [] \<and> logged s0 = logged newStack
           \<and> createCrossAcctRouteProvider s0 = Inr s1
           \<and> ext middleKinds s1 s5
           \<and> createTransitGatewayStaticRoutes e cfg s5 = Inr s"
proof -
  from networkAssociationsStack_steps [OF assms] obtain pl s1 plm s1a rtm s1b s2 s3 s4 s5 s6 where
    p: "createCrossAcctRouteProvider (newStack\<lparr>peeringList := pl\<rparr>) = Inr s1"
    and pm: "setPrefixListMap e cfg s1 = Inr (plm, s1a)"
    and rm: "setRouteTableMap e cfg (s1a\<lparr>prefixListMap := plm\<rparr>) = Inr (rtm, s1b)"
    and 2: "createTransitGatewayResources e cfg (s1b\<lparr>routeTableMap := rtm\<rparr>) = Inr s2"
    and 3: "createHostedZoneAssociations e cfg s2 = Inr s3"
    and 4: "createCentralNetworkAssociations e cfg s3 = Inr s4"
    and 5: "createVpcPeeringConnections e s4 = Inr s5"
    and 6: "createDirectConnectResources e cfg s5 = Inr s6"
    and 7: "createTransitGatewayStaticRoutes e cfg s6 = Inr s"
    by blast
  have a1: "ext middleKinds s1 s1a" by (rule emits_ext [OF setPrefixListMap_emits [OF pm]])
  have a2: "ext middleKinds s1a (s1a\<lparr>prefixListMap := plm\<rparr>)" by (rule ext_same) simp_all
  have a3: "ext middleKinds (s1a\<lparr>prefixListMap := plm\<rparr>) s1b"
    by (rule emits_ext [OF setRouteTableMap_emits [OF rm]])
  have a4: "ext middleKinds s1b (s1b\<lparr>routeTableMap := rtm\<rparr>)" by (rule ext_same) simp_all
  have a: "ext middleKinds s1 (s1b\<lparr>routeTableMap := rtm\<rparr>)"
    using a1 a2 a3 a4 by (blast intro: ext_trans)
  have b: "ext middleKinds (s1b\<lparr>routeTableMap := rtm\<rparr>) s2"
    by (rule ext_mono [OF createTransitGatewayResources_ext [OF 2]]) (auto simp: middleKinds_def)
  have c: "ext middleKinds s2 s3"
    by (rule ext_mono [OF emits_ext [OF createHostedZoneAssociations_emits [OF 3]]])
       (auto simp: middleKinds_def)
  have d: "ext middleKinds s3 s4"
    by (rule ext_mono [OF createCentralNetworkAssociations_ext [OF 4]]) (auto simp: middleKinds_def)
  have f: "ext middleKinds s4 s5"
    by (rule ext_mono [OF emits_ext [OF createVpcPeeringConnections_emits [OF 5]]])
       (auto simp: middleKinds_def)
  have g: "ext middleKinds s5 s6"
    by (rule ext_mono [OF createDirectConnectResources_ext [OF 6]]) (auto simp: middleKinds_def)
  have "ext middleKinds s1 s6"
    using a b c d f g by (blast intro: ext_trans)
  moreover have "trace (newStack\<lparr>peeringList := pl\<rparr>) = []" by (simp add: newStack_def)
  moreover have "logged (newStack\<lparr>peeringList := pl\<rparr>) = logged newStack" by simp
  ultimately show ?thesis using p 7 by blast
qed



lemma networkAssociationsStack_ext:
  assumes "networkAssociationsStack e cfg = Inr s"
  shows "ext UNIV newStack s"
proof -
  from networkAssociationsStack_phases [OF assms] obtain s0 s1 s5 where
    0: "trace s0 = []" "logged s0 = logged newStack"
    and 1: "createCrossAcctRouteProvider s0 = Inr s1"
    and 2: "ext middleKinds s1 s5"
    and 3: "createTransitGatewayStaticRoutes e cfg s5 = Inr s"
    by blast
  have "ext UNIV newStack s0" using 0 by (intro ext_same) (simp_all add: newStack_def)
  moreover have "ext UNIV s0 s1"
    by (rule ext_mono [OF createCrossAcctRouteProvider_ext [OF 1]]) simp
  moreover have "ext UNIV s1 s5" by (rule ext_mono [OF 2]) simp
  moreover have "ext UNIV s5 s"
    by (rule ext_mono [OF emits_ext [OF createTransitGatewayStaticRoutes_emits [OF 3]]]) simp
  ultimately show ?thesis by (blast intro: ext_trans)
qed

lemma logged_newStack: "logged newStack = (\<lambda>M. Map.empty)"
  by (auto simp: logged_def newStack_def fun_eq_iff split: mapName.splits)

lemma ext_run:
  assumes "ext K s s'" and "trace s = []"
  shows "run (\<lambda>ms ev. attachmentResolved ms ev \<and> cachedOnce ms ev) (logged s) (trace s')"
  using assms unfolding ext_def by (auto elim: run_mono)



lemma run_count_writes:
  assumes "run cachedOnce ms t" and "M \<in> {DnsFirewallMap, QueryLogMap, ResolverRuleMap}"
  shows "length (filter (isWrite M k) t) \<le> (if ms M k = None then 1 else 0)"
  using assms(1)
proof (induction t arbitrary: ms)
  case Nil
  then show ?case by simp
next
  case (Cons ev t)
  then have ok: "cachedOnce ms ev" and rest: "run cachedOnce (written ms ev) t" by simp_all
  note IH = Cons.IH [OF rest]
  show ?case
  proof (cases "isWrite M k ev")
    case True
    then obtain v where ev: "ev = MapSet M k v" by (cases ev) auto
    with ok assms(2) have "ms M k = None" by auto
    moreover have "written ms ev M k \<noteq> None" using ev by simp
    then have "length (filter (isWrite M k) t) = 0" using IH by (simp split: if_splits)
    ultimately show ?thesis using True by simp
  next
    case False
    then have "written ms ev M k = ms M k" by (cases ev) auto
    then show ?thesis using IH False by simp
  qed
qed


subsection \<open>Central endpoint VPCs\<close>

lemma createHostedZoneAssociations_abort:
  assumes "filterE (isCentralEndpointVpc e) (vpcs cfg) = Inr cs"
    and "1 < length cs \<or> (cs \<noteq> [] \<and> partition e \<noteq> ''aws'' \<and> partition e \<noteq> ''aws-cn'')"
  shows "createHostedZoneAssociations e cfg s =
           Inl (if partition e \<noteq> ''aws'' \<and> partition e \<noteq> ''aws-cn''
                then Error ''Central Endpoint VPC is only possible in commercial regions''
                else Error (''multiple ('' @ showNat (length cs)
                            @ '') central endpoint vpcs detected, should only be one''))"
  using assms by (auto simp: createHostedZoneAssociations_def bindE_def)

lemma networkAssociationsStack_abort:
  assumes "filterE (isCentralEndpointVpc e) (vpcs cfg) = Inr cs"
    and "1 < length cs \<or> (cs \<noteq> [] \<and> partition e \<noteq> ''aws'' \<and> partition e \<noteq> ''aws-cn'')"
  shows "\<exists>err. networkAssociationsStack e cfg = Inl err"
  unfolding networkAssociationsStack_def bindE_def
  by (simp add: createHostedZoneAssociations_abort [OF assms] split: sum.splits)

lemma createHostedZoneAssociations_success:
  assumes "filterE (isCentralEndpointVpc e) (vpcs cfg) = Inr cs"
    and "createHostedZoneAssociations e cfg s = Inr s'"
  shows "length cs \<le> 1 \<and> (cs \<noteq> [] \<longrightarrow> partition e = ''aws'' \<or> partition e = ''aws-cn'')
         \<and> (\<exists>new. trace s' = trace s @ new \<and> length new = length cs)"
  using assms
  by (auto simp: createHostedZoneAssociations_def bindE_def emit_def
           split: if_splits list.splits sum.splits elim!: construct_InrE)

text \<open>
  C10. Let \<open>cs\<close> be the VPCs of the configuration that are marked as central
  interface-endpoints VPC and lie in the stack's account and region. If there is more
  than one, or there is one and the partition is neither \<open>aws\<close> nor \<open>aws-cn\<close>, then
  \<open>createHostedZoneAssociations\<close> throws, whatever the stack holds, and so the constructor
  throws and no \<open>AssociateHostedZones\<close> is created; where the function returns, there
  is at most one such VPC, it is in an allowed partition, and the function has created
  exactly one construct if there is one and none otherwise.
\<close>

theorem central_endpoint_vpc_checks:
  assumes "filterE (isCentralEndpointVpc e) (vpcs cfg) = Inr cs"
  shows "((1 < length cs \<or> (cs \<noteq> [] \<and> partition e \<noteq> ''aws'' \<and> partition e \<noteq> ''aws-cn''))
          \<longrightarrow> createHostedZoneAssociations e cfg s =
                Inl (if partition e \<noteq> ''aws'' \<and> partition e \<noteq> ''aws-cn''
                     then Error ''Central Endpoint VPC is only possible in commercial regions''
                     else Error (''multiple ('' @ showNat (length cs)
                                 @ '') central endpoint vpcs detected, should only be one''))
              \<and> (\<exists>err. networkAssociationsStack e cfg = Inl err))
       \<and> (\<forall>s'. createHostedZoneAssociations e cfg s = Inr s'
             \<longrightarrow> length cs \<le> 1
                 \<and> (cs \<noteq> [] \<longrightarrow> partition e = ''aws'' \<or> partition e = ''aws-cn'')
                 \<and> (\<exists>new. trace s' = trace s @ new \<and> length new = length cs))"
  using createHostedZoneAssociations_abort [OF assms, of s]
        networkAssociationsStack_abort [OF assms]
        createHostedZoneAssociations_success [OF assms, of s]
  by blast

lemma two_central_vpcs:
  "filterE (isCentralEndpointVpc env0) (vpcs (mkConfig [centralVpc ''A'', centralVpc ''B'']))
   = Inr [centralVpc ''A'', centralVpc ''B'']"
  by (simp add: isCentralEndpointVpc_def env0_def mkConfig_def centralVpc_def mkVpc_def
                bindE_def getAccountId_def accounts0_def)

theorem central_endpoint_vpc_checks_witness:
  "filterE (isCentralEndpointVpc env0) (vpcs (mkConfig [centralVpc ''A'', centralVpc ''B'']))
   = Inr [centralVpc ''A'', centralVpc ''B'']
   \<and> createHostedZoneAssociations env0 (mkConfig [centralVpc ''A'', centralVpc ''B'']) newStack
     = Inl (Error ''multiple (2) central endpoint vpcs detected, should only be one'')
   \<and> (\<exists>err. networkAssociationsStack env0 (mkConfig [centralVpc ''A'', centralVpc ''B'']) = Inl err)"
  using two_central_vpcs central_endpoint_vpc_checks [OF two_central_vpcs, of newStack]
  by (simp add: env0_def showNat.simps digit_def)


subsection \<open>Transit gateway route tables\<close>

lemmas run_defs = networkAssociationsStack_def setPeeringList_def createCrossAcctRouteProvider_def
  setPrefixListMap_def setCrossAcctPrefixLists_def setRouteTableMap_def setCrossAcctRouteTables_def
  setRouteTableMap_item_def
  createTransitGatewayResources_def createTransitGatewayResources_tgw_def
  createTransitGatewayResources_vpc_def createTransitGatewayResources_cgw_def
  setTransitGatewayMap_def setTransitGatewayRouteTableMap_def
  setTransitGatewayVpcAttachmentsMap_def setTransitGatewayVpcAttachmentsMap_attachment_def
  setTransitGatewayVpcAttachmentsMap_owner_def
  createVpcTransitGatewayAssociations_def createVpcTransitGatewayAssociations_attachment_def
  createVpcTransitGatewayAssociations_owner_def createVpcTransitGatewayAssociations_routeTable_def
  createVpcTransitGatewayPropagations_def createVpcTransitGatewayPropagations_attachment_def
  createVpcTransitGatewayPropagations_owner_def createVpcTransitGatewayPropagations_routeTable_def
  createHostedZoneAssociations_def isCentralEndpointVpc_def
  createCentralNetworkAssociations_def createCentralNetworkAssociations_vpc_def
  createDnsFirewallAssociations_def createDnsFirewallAssociations_item_def lookupDnsFirewall_def
  createQueryLogConfigAssociations_def createQueryLogConfigAssociations_item_def
  createQueryLogConfigAssociations_assoc_def lookupQueryLog_def queryLogConfigNames_def
  createResolverRuleAssociations_def createResolverRuleAssociations_item_def
  lookupResolverRule_def setDnsFirewall_def setQueryLog_def setResolverRule_def vpcIdOf_def
  createVpcPeeringConnections_def
  createDirectConnectResources_def
  createTransitGatewayStaticRoutes_def createTransitGatewayStaticRoutes_tgw_def
  createTransitGatewayStaticRoutes_routeTable_def createTransitGatewayStaticRouteItem_def
  createTransitGatewayStaticRouteItem_route_def createTransitGatewayStaticRouteItem_prefixList_def
  setTransitGateway_def setTransitGatewayRouteTable_def setTransitGatewayAttachment_def
  getTgwPeeringAttachmentId_def
  emit_def newStack_def bindE_def getAccountId_def inScope_def joinKey_def attachmentKey_def
  allVpcItems_def traceOf_def construct_def addChild_def sanitizeId_def

lemmas peering_defs = createCrossAcctRouteProvider_peering_def createCrossAcctRouteProvider_entry_def
  targetsPeering_def setCrossAcctPrefixLists_peering_def setCrossAcctPrefixLists_entry_def
  setCrossAcctRouteTables_peering_def setCrossAcctRouteTables_entry_def
  createVpcPeeringConnections_peering_def createVpcPeeringRoutes_def
  createRequesterVpcPeeringRoutes_def createRequesterVpcPeeringRoutes_entry_def
  createAccepterVpcPeeringRoutes_def createAccepterVpcPeeringRoutes_entry_def
  peeringRouteId_def vpcPeeringRole_def setPeeringList_body_def

lemmas dx_defs = createDirectConnectResources_association_def setDxGatewayMap_def
  createDxGatewayTgwAssociations_def createDxGatewayTgwAssociations_proposal_def
  createDxGatewayTgwAssociations_direct_def dxAssociationIds_def
  createDxTgwRouteTableAssociations_def createDxTgwRouteTablePropagations_def
  setDxGateway_def dxGatewayParameter_def dxGatewayRole_def dxGatewayLookupId_def

lemmas vpn_defs = createTransitGatewayResources_vpn_def setTransitGatewayVpnAttachmentsMap_def
  createVpnTransitGatewayAssociations_def createVpnTransitGatewayPropagations_def
  createVpnTransitGatewayAssociations_routeTable_def
  createVpnTransitGatewayPropagations_routeTable_def

lemmas fixture_defs = env0_def accounts0_def mkConfig_def mkVpc_def tgwT_def tgwT2_def
  attachedVpc_def twoAttachedVpcs_def doublyAttachedVpc_def twoAttachments_def
  env1_def routeVia_def tgwWith_def peeringRoute_def resolverVpc_def centralServices_def


lemma twoAttachedVpcs_runs: "\<exists>s. networkAssociationsStack env0 twoAttachedVpcs = Inr s"
  by (simp add: run_defs fixture_defs)




subsection \<open>Resolved attachments\<close>

lemma createVpcTransitGatewayAssociations_owner_abort:
  assumes "getAccountId e owner = Inr oid" "oid \<notin> set excl"
    and "transitGatewayAttachments a (attachmentKey owner (itemName v)) = None"
  shows "createVpcTransitGatewayAssociations_owner e v att excl owner a =
           Inl (Error (''Transit Gateway attachment '' @ attachmentKey owner (itemName v)
                       @ '' not found''))"
  using assms by (simp add: createVpcTransitGatewayAssociations_owner_def bindE_def)

lemma createVpcTransitGatewayPropagations_owner_abort:
  assumes "getAccountId e owner = Inr oid" "oid \<notin> set excl"
    and "transitGatewayAttachments a (attachmentKey owner (itemName v)) = None"
  shows "createVpcTransitGatewayPropagations_owner e v att excl owner a =
           Inl (Error (''Transit Gateway attachment '' @ attachmentKey owner (itemName v)
                       @ '' not found''))"
  using assms by (simp add: createVpcTransitGatewayPropagations_owner_def bindE_def)

lemma createVpnTransitGatewayAssociations_abort:
  assumes "getAccountId e (cgw_account c) = Inr i" "inScope e i (cgw_region c)"
    and "vpn_routeTableAssociations vpn = Some l"
    and "transitGatewayAttachments a (attachmentKey (vpn_name vpn) (str (vpn_transitGateway vpn))) = None"
  shows "createVpnTransitGatewayAssociations e c vpn a =
           Inl (Error (''Transit Gateway attachment ''
                       @ attachmentKey (vpn_name vpn) (str (vpn_transitGateway vpn))
                       @ '' not found''))"
  using assms by (simp add: createVpnTransitGatewayAssociations_def bindE_def)

lemma createVpnTransitGatewayPropagations_abort:
  assumes "getAccountId e (cgw_account c) = Inr i" "inScope e i (cgw_region c)"
    and "vpn_routeTablePropagations vpn = Some l"
    and "transitGatewayAttachments a (attachmentKey (vpn_name vpn) (str (vpn_transitGateway vpn))) = None"
  shows "createVpnTransitGatewayPropagations e c vpn a =
           Inl (Error (''Transit Gateway attachment ''
                       @ attachmentKey (vpn_name vpn) (str (vpn_transitGateway vpn))
                       @ '' not found''))"
  using assms by (simp add: createVpnTransitGatewayPropagations_def bindE_def)

lemma createDxTgwRouteTableAssociations_abort:
  assumes "inScope e tid (tgw_region tgw)"
    and "transitGatewayAttachments a (attachmentKey (dx_name dx) (tgw_name tgw)) = None"
  shows "createDxTgwRouteTableAssociations e dx tgw n tid a =
           Inl (Error (''[network-associations-stack] Create DX TGW route table associations: unable to locate attachment ''
                       @ attachmentKey (dx_name dx) (tgw_name tgw)))"
  using assms by (simp add: createDxTgwRouteTableAssociations_def)

lemma createDxTgwRouteTablePropagations_abort:
  assumes "inScope e tid (tgw_region tgw)"
    and "transitGatewayAttachments a (attachmentKey (dx_name dx) (tgw_name tgw)) = None"
  shows "createDxTgwRouteTablePropagations e dx tgw n tid a =
           Inl (Error (''[network-associations-stack] Create DX TGW route table associations: unable to locate attachment ''
                       @ attachmentKey (dx_name dx) (tgw_name tgw)))"
  using assms by (simp add: createDxTgwRouteTablePropagations_def)

lemma routeAttachmentId_keyed:
  assumes "routeAttachmentId e tgw (Some x) a = Inr (r, a1)" and "\<forall>n. x \<noteq> TgwPeeringEntry n"
  shows "a1 = a \<and> (r = None \<or> (\<exists>i. r = Some i \<and> i \<in> ran (transitGatewayAttachments a)))"
  using assms by (cases x; cases r) (auto simp: ran_def)

lemma createTransitGatewayStaticRouteItem_keyed:
  assumes "createTransitGatewayStaticRouteItem e tgw rt r rid a = Inr b"
    and "tre_attachment r = Some x" and "\<forall>n. x \<noteq> TgwPeeringEntry n"
  shows "\<exists>new. trace b = trace a @ new
           \<and> (\<forall>ev \<in> set new. \<exists>i \<in> ran (transitGatewayAttachments a). attachmentOf ev = Some i)"
proof -
  from assms(1) obtain m where
    1: "createTransitGatewayStaticRouteItem_route e tgw rt r rid a = Inr m"
    and 2: "createTransitGatewayStaticRouteItem_prefixList e tgw rt r rid m = Inr b"
    unfolding createTransitGatewayStaticRouteItem_def by (elim bindE_InrE)
  have m: "\<exists>new. trace m = trace a @ new
             \<and> (\<forall>ev \<in> set new. \<exists>i \<in> ran (transitGatewayAttachments a). attachmentOf ev = Some i)"
  proof (cases "truthy (tre_destinationCidrBlock r)")
    case False
    with 1 have "m = a" by (simp add: createTransitGatewayStaticRouteItem_route_def)
    then show ?thesis by (intro exI [of _ "[]"]) simp
  next
    case True
    with 1 assms(2) obtain ra a1 where ra: "routeAttachmentId e tgw (Some x) a = Inr (ra, a1)"
      and ne: "ra \<noteq> None"
      and mm: "construct
                 (staticRouteId (trt_name rt) (str (tre_destinationCidrBlock r))
                    (tre_blackhole r) (Some x))
                 (TransitGatewayStaticRoute
                    (staticRouteId (trt_name rt) (str (tre_destinationCidrBlock r))
                       (tre_blackhole r) (Some x))
                    rid (tre_blackhole r) (str (tre_destinationCidrBlock r)) ra) a1 = Inr m"
      unfolding createTransitGatewayStaticRouteItem_route_def
      by (auto split: if_splits prod.splits elim!: bindE_InrE)
    from routeAttachmentId_keyed [OF ra assms(3)] ne obtain i where
      a1: "a1 = a" and i: "ra = Some i" "i \<in> ran (transitGatewayAttachments a)" by auto
    define ev where "ev = TransitGatewayStaticRoute
                          (staticRouteId (trt_name rt) (str (tre_destinationCidrBlock r))
                             (tre_blackhole r) (Some x))
                          rid (tre_blackhole r) (str (tre_destinationCidrBlock r)) ra"
    from mm have "trace m = trace a @ [ev]"
      unfolding a1 ev_def by (elim construct_InrE) simp
    moreover have "attachmentOf ev = Some i" by (simp add: ev_def i)
    ultimately show ?thesis using i(2) by (intro exI [of _ "[ev]"]) auto
  qed
  then obtain new1 where new1: "trace m = trace a @ new1"
    and ok1: "\<forall>ev \<in> set new1. \<exists>i \<in> ran (transitGatewayAttachments a). attachmentOf ev = Some i"
    by blast
  have att: "transitGatewayAttachments m = transitGatewayAttachments a"
    by (rule emits_frame(1) [OF createTransitGatewayStaticRouteItem_route_emits [OF 1]])
  have b: "\<exists>new. trace b = trace m @ new
             \<and> (\<forall>ev \<in> set new. \<exists>i \<in> ran (transitGatewayAttachments m). attachmentOf ev = Some i)"
  proof (cases "truthy (tre_destinationPrefixList r)")
    case False
    with 2 have "b = m" by (simp add: createTransitGatewayStaticRouteItem_prefixList_def)
    then show ?thesis by (intro exI [of _ "[]"]) simp
  next
    case True
    with 2 assms(2) obtain ra m1 pid where ra: "routeAttachmentId e tgw (Some x) m = Inr (ra, m1)"
      and ne: "ra \<noteq> None"
      and bb: "construct
                 (prefixListRouteId e (trt_name rt) (str (tre_destinationPrefixList r))
                    (tre_blackhole r) (Some x))
                 (TransitGatewayPrefixListReference
                    (prefixListRouteId e (trt_name rt) (str (tre_destinationPrefixList r))
                       (tre_blackhole r) (Some x))
                    pid (tre_blackhole r) ra rid) m1 = Inr b"
      unfolding createTransitGatewayStaticRouteItem_prefixList_def
      by (auto split: if_splits option.splits prod.splits elim!: bindE_InrE)
    from routeAttachmentId_keyed [OF ra assms(3)] ne obtain i where
      m1: "m1 = m" and i: "ra = Some i" "i \<in> ran (transitGatewayAttachments m)" by auto
    define ev where "ev = TransitGatewayPrefixListReference
                          (prefixListRouteId e (trt_name rt) (str (tre_destinationPrefixList r))
                             (tre_blackhole r) (Some x))
                          pid (tre_blackhole r) ra rid"
    from bb have "trace b = trace m @ [ev]"
      unfolding m1 ev_def by (elim construct_InrE) simp
    moreover have "attachmentOf ev = Some i" by (simp add: ev_def i)
    ultimately show ?thesis using i(2) by (intro exI [of _ "[ev]"]) auto
  qed
  then obtain new2 where new2: "trace b = trace m @ new2"
    and ok2: "\<forall>ev \<in> set new2. \<exists>i \<in> ran (transitGatewayAttachments a). attachmentOf ev = Some i"
    unfolding att by blast
  have "trace b = trace a @ (new1 @ new2)" using new1 new2 by simp
  moreover have "\<forall>ev \<in> set (new1 @ new2).
                   \<exists>i \<in> ran (transitGatewayAttachments a). attachmentOf ev = Some i"
    using ok1 ok2 by auto
  ultimately show ?thesis by blast
qed

text \<open>
  C2, as the code has it. In a run of the constructor that returns, every association
  and propagation is given an attachment identifier that the attachments map holds at
  the moment the construct is created. A static route or prefix list reference whose
  attachment is a VPC, a Direct Connect gateway or a VPN connection is given an
  identifier of the map as well; that of a transit gateway peering is not taken from
  the map. Where the key of a VPC, VPN or Direct Connect attachment is not in the map,
  the association and the propagation functions throw.
\<close>

theorem associations_use_resolved_attachments:
  assumes "networkAssociationsStack e cfg = Inr s"
  shows "run attachmentResolved (\<lambda>M. Map.empty) (trace s)
       \<and> (\<forall>tgw rt r rid a b x.
             createTransitGatewayStaticRouteItem e tgw rt r rid a = Inr b
             \<longrightarrow> tre_attachment r = Some x \<longrightarrow> (\<forall>n. x \<noteq> TgwPeeringEntry n)
             \<longrightarrow> (\<exists>new. trace b = trace a @ new
                    \<and> (\<forall>ev \<in> set new. \<exists>i \<in> ran (transitGatewayAttachments a).
                          attachmentOf ev = Some i)))
       \<and> (\<forall>owner oid excl v att a.
             getAccountId e owner = Inr oid \<longrightarrow> oid \<notin> set excl
             \<longrightarrow> transitGatewayAttachments a (attachmentKey owner (itemName v)) = None
             \<longrightarrow> createVpcTransitGatewayAssociations_owner e v att excl owner a =
                   Inl (Error (''Transit Gateway attachment ''
                               @ attachmentKey owner (itemName v) @ '' not found''))
                 \<and> createVpcTransitGatewayPropagations_owner e v att excl owner a =
                   Inl (Error (''Transit Gateway attachment ''
                               @ attachmentKey owner (itemName v) @ '' not found'')))
       \<and> (\<forall>c i vpn a.
             getAccountId e (cgw_account c) = Inr i \<longrightarrow> inScope e i (cgw_region c)
             \<longrightarrow> transitGatewayAttachments a
                   (attachmentKey (vpn_name vpn) (str (vpn_transitGateway vpn))) = None
             \<longrightarrow> (vpn_routeTableAssociations vpn \<noteq> None
                   \<longrightarrow> createVpnTransitGatewayAssociations e c vpn a =
                       Inl (Error (''Transit Gateway attachment ''
                                   @ attachmentKey (vpn_name vpn) (str (vpn_transitGateway vpn))
                                   @ '' not found'')))
                 \<and> (vpn_routeTablePropagations vpn \<noteq> None
                   \<longrightarrow> createVpnTransitGatewayPropagations e c vpn a =
                       Inl (Error (''Transit Gateway attachment ''
                                   @ attachmentKey (vpn_name vpn) (str (vpn_transitGateway vpn))
                                   @ '' not found''))))
       \<and> (\<forall>dx tgw tid n a.
             inScope e tid (tgw_region tgw)
             \<longrightarrow> transitGatewayAttachments a (attachmentKey (dx_name dx) (tgw_name tgw)) = None
             \<longrightarrow> createDxTgwRouteTableAssociations e dx tgw n tid a =
                   Inl (Error (''[network-associations-stack] Create DX TGW route table associations: unable to locate attachment ''
                               @ attachmentKey (dx_name dx) (tgw_name tgw)))
                 \<and> createDxTgwRouteTablePropagations e dx tgw n tid a =
                   Inl (Error (''[network-associations-stack] Create DX TGW route table associations: unable to locate attachment ''
                               @ attachmentKey (dx_name dx) (tgw_name tgw))))"
proof -
  have "run (\<lambda>ms ev. attachmentResolved ms ev \<and> cachedOnce ms ev) (logged newStack) (trace s)"
    by (rule ext_run [OF networkAssociationsStack_ext [OF assms]]) (simp add: newStack_def)
  then have "run attachmentResolved (\<lambda>M. Map.empty) (trace s)"
    unfolding logged_newStack by (rule run_mono) simp
  then show ?thesis
    using createTransitGatewayStaticRouteItem_keyed
          createVpcTransitGatewayAssociations_owner_abort
          createVpcTransitGatewayPropagations_owner_abort
          createVpnTransitGatewayAssociations_abort createVpnTransitGatewayPropagations_abort
          createDxTgwRouteTableAssociations_abort createDxTgwRouteTablePropagations_abort
    by (intro conjI allI impI) (assumption | blast | fastforce)+
qed

theorem associations_use_resolved_attachments_witness:
  "\<exists>s. networkAssociationsStack env0 twoAttachedVpcs = Inr s
       \<and> run attachmentResolved (\<lambda>M. Map.empty) (trace s)"
proof -
  from twoAttachedVpcs_runs obtain s where s: "networkAssociationsStack env0 twoAttachedVpcs = Inr s"
    by blast
  have "run attachmentResolved (\<lambda>M. Map.empty) (trace s)"
    using associations_use_resolved_attachments [OF s] by (rule conjunct1)
  with s show ?thesis by blast
qed

text \<open>
  C2, as the claim states it, fails: the static route to the transit gateway peering
  \<open>P\<close> is created with the identifier that \<open>getTgwPeeringAttachmentId\<close> returns, while the
  attachments map is empty.
\<close>

theorem peering_route_bypasses_map:
  "traceOf (networkAssociationsStack env1 peeringRoute) =
   Inr [MapSet TransitGatewaysMap ''T'' (SsmParameter ''/accelerator/network/transitGateways/T/id''),
        MapSet TransitGatewayRouteTablesMap ''T_RT''
          (SsmParameter ''/accelerator/network/transitGateways/T/routeTables/RT/id''),
        TransitGatewayStaticRoute ''RT-10.1.0.0/16-P''
          (SsmParameter ''/accelerator/network/transitGateways/T/routeTables/RT/id'')
          None ''10.1.0.0/16''
          (Some (SsmParameter ''/accelerator/network/transitGateways/T/peering/P/id''))]
   \<and> (case networkAssociationsStack env1 peeringRoute of
        Inl err \<Rightarrow> False
      | Inr s \<Rightarrow> transitGatewayAttachments s = Map.empty)"
  by (simp add: run_defs fixture_defs)


subsection \<open>Names that do not resolve\<close>

lemma setPeeringList_body_no_requester:
  assumes "filter (\<lambda>item. Some (vpc_name item) = nthOpt (vp_vpcs p) 0) (vpcs cfg) = []"
  shows "setPeeringList_body e cfg p l = Inl (TypeError ''account'')"
  using assms by (simp add: setPeeringList_body_def)

lemma createCrossAcctRouteProvider_peering_error:
  "createCrossAcctRouteProvider_peering p b = Inl err \<Longrightarrow> err = TypeError ''routeTables''"
  by (auto simp: createCrossAcctRouteProvider_peering_def split: option.splits)

lemma foldE_provider_undefined:
  assumes "\<exists>p \<in> set ps. p_accepter p = None"
  shows "foldE createCrossAcctRouteProvider_peering ps b = Inl (TypeError ''routeTables'')"
  using assms
proof (induction ps arbitrary: b)
  case Nil
  then show ?case by simp
next
  case (Cons p ps)
  show ?case
  proof (cases "createCrossAcctRouteProvider_peering p b")
    case (Inl err)
    then show ?thesis using createCrossAcctRouteProvider_peering_error [OF Inl] by simp
  next
    case (Inr b')
    then have "p_accepter p \<noteq> None"
      by (auto simp: createCrossAcctRouteProvider_peering_def split: option.splits)
    with Cons.prems have "\<exists>p \<in> set ps. p_accepter p = None" by auto
    from Cons.IH [OF this] Inr show ?thesis by simp
  qed
qed

lemma createCrossAcctRouteProvider_undefined:
  assumes "\<exists>p \<in> set (peeringList a). p_accepter p = None"
  shows "createCrossAcctRouteProvider a = Inl (TypeError ''routeTables'')"
  using foldE_provider_undefined [OF assms]
  by (simp add: createCrossAcctRouteProvider_def bindE_def)

text \<open>
  C1, as the code has it. \<open>setPeeringList\<close> checks no name: a requester name that matches
  no VPC ends it with the \<open>TypeError\<close> of reading \<open>account\<close> of \<open>undefined\<close>, and a peering
  recorded with an undefined accepter ends \<open>createCrossAcctRouteProvider\<close> with the
  \<open>TypeError\<close> of reading \<open>routeTables\<close>. The peering route functions name what they do
  not find: the route table, for the requester and the accepter, and the prefix list,
  for the requester and for an accepter of the requester's account and region.
\<close>

theorem named_resolution_errors:
  "(filter (\<lambda>item. Some (vpc_name item) = nthOpt (vp_vpcs p) 0) (vpcs cfg) = []
      \<longrightarrow> setPeeringList_body e cfg p l = Inl (TypeError ''account''))
   \<and> ((\<exists>q \<in> set (peeringList a). p_accepter q = None)
      \<longrightarrow> createCrossAcctRouteProvider a = Inl (TypeError ''routeTables''))
   \<and> (targetsPeering n r
      \<longrightarrow> (routeTableMap a (joinKey (vpc_name req) (rt_name rt)) = None
           \<longrightarrow> createRequesterVpcPeeringRoutes_entry e req n rt r a =
                 Inl (Error (''Route Table '' @ rt_name rt @ '' not found'')))
        \<and> (routeTableMap a (joinKey (vpc_name req) (rt_name rt)) \<noteq> None
           \<longrightarrow> truthy (rte_destinationPrefixList r)
           \<longrightarrow> prefixListMap a (str (rte_destinationPrefixList r)) = None
           \<longrightarrow> createRequesterVpcPeeringRoutes_entry e req n rt r a =
                 Inl (Error (''[network-associations-stack] Prefix list ''
                             @ str (rte_destinationPrefixList r) @ '' not found'')))
        \<and> (routeTableMap a (joinKey (vpc_name acc) (rt_name rt)) = None
           \<longrightarrow> createAccepterVpcPeeringRoutes_entry e aid acc req n rt r a =
                 Inl (Error (''[network-associations-stack] Route Table '' @ rt_name rt
                             @ '' not found'')))
        \<and> (routeTableMap a (joinKey (vpc_name acc) (rt_name rt)) \<noteq> None
           \<longrightarrow> vpc_account req = vpc_account acc \<and> vpc_region req = vpc_region acc
           \<longrightarrow> truthy (rte_destinationPrefixList r)
           \<longrightarrow> prefixListMap a (str (rte_destinationPrefixList r)) = None
           \<longrightarrow> createAccepterVpcPeeringRoutes_entry e aid acc req n rt r a =
                 Inl (Error (''[network-associations-stack] Prefix list ''
                             @ str (rte_destinationPrefixList r) @ '' not found''))))"
  using setPeeringList_body_no_requester [of p cfg e l]
        createCrossAcctRouteProvider_undefined [of a]
  by (auto simp: createRequesterVpcPeeringRoutes_entry_def
                 createAccepterVpcPeeringRoutes_entry_def)

theorem named_resolution_errors_witness:
  "createRequesterVpcPeeringRoutes_entry env0 (mkVpc ''A'' ''Network'' ''us-east-1'') ''P''
     \<lparr>rt_name = ''rt1'', rt_routes = []\<rparr>
     \<lparr>rte_name = ''toB'', rte_type = Some ''vpcPeering'', rte_target = Some ''P'',
      rte_destination = Some ''10.2.0.0/16'', rte_destinationPrefixList = None\<rparr> newStack =
   Inl (Error ''Route Table rt1 not found'')"
  using named_resolution_errors
          [where n = "''P''" and a = newStack and e = env0
             and r = "\<lparr>rte_name = ''toB'', rte_type = Some ''vpcPeering'', rte_target = Some ''P'',
                       rte_destination = Some ''10.2.0.0/16'', rte_destinationPrefixList = None\<rparr>"
             and req = "mkVpc ''A'' ''Network'' ''us-east-1''"
             and rt = "\<lparr>rt_name = ''rt1'', rt_routes = []\<rparr>"]
  by (simp add: targetsPeering_def newStack_def)

text \<open>
  C1, as the claim states it, fails: the peering \<open>P\<close> between the VPC \<open>A\<close> and a VPC
  \<open>Missing\<close> that no configuration entry declares is put on the peering list, with an
  undefined accepter and without an error.
\<close>

theorem missing_accepter_is_recorded:
  "setPeeringList env0 missingAccepter =
     Inr [\<lparr>p_name = ''P'', p_requester = mkVpc ''A'' ''Network'' ''us-east-1'', p_accepter = None\<rparr>]"
  by (simp add: setPeeringList_def setPeeringList_body_def missingAccepter_def bindE_def
                getAccountId_def fixture_defs)


subsection \<open>Cached identifiers\<close>

text \<open>
  C6. The attachments map is keyed by the owning account and the name of the VPC, without
  the name of the attachment or of the transit gateway, and it is written without a
  guard. The VPC \<open>A\<close> of the account \<open>Network\<close> has the attachment \<open>ToT\<close> to the transit
  gateway \<open>T\<close>, associated with the route table \<open>RT\<close> of \<open>T\<close>, and the attachment \<open>ToT2\<close> to
  the transit gateway \<open>T2\<close>. Both attachments are resolved under the key \<open>Network_A\<close>: the
  key is written twice in one run, with two different identifiers, and the association
  of the attachment \<open>ToT\<close> with the route table \<open>RT\<close>, which reads the key after both
  writes, is created with the identifier of the attachment \<open>ToT2\<close>.
\<close>

theorem attachments_map_key_written_twice:
  "traceOf (networkAssociationsStack env0 twoAttachments) =
   Inr [MapSet TransitGatewaysMap ''T'' (SsmParameter ''/accelerator/network/transitGateways/T/id''),
        MapSet TransitGatewayRouteTablesMap ''T_RT''
          (SsmParameter ''/accelerator/network/transitGateways/T/routeTables/RT/id''),
        MapSet TransitGatewaysMap ''T2'' (SsmParameter ''/accelerator/network/transitGateways/T2/id''),
        MapSet TransitGatewayAttachmentsMap ''Network_A''
          (SsmParameter ''/accelerator/network/vpc/A/transitGatewayAttachment/ToT/id''),
        MapSet TransitGatewayAttachmentsMap ''Network_A''
          (SsmParameter ''/accelerator/network/vpc/A/transitGatewayAttachment/ToT2/id''),
        TransitGatewayRouteTableAssociation ''ToTRTAssociation''
          (SsmParameter ''/accelerator/network/vpc/A/transitGatewayAttachment/ToT2/id'')
          (SsmParameter ''/accelerator/network/transitGateways/T/routeTables/RT/id''),
        TransitGatewayStaticRoute ''RT-10.0.0.0/8-blackhole''
          (SsmParameter ''/accelerator/network/transitGateways/T/routeTables/RT/id'')
          (Some True) ''10.0.0.0/8'' None]"
  by (simp add: run_defs fixture_defs)

subsection \<open>Attachment keys\<close>

text \<open>
  C9. The key of a VPC attachment joins the owning account and the VPC name, the key of
  a VPN attachment joins the name of the VPN connection and the name of the transit
  gateway, and both are stored in the one attachments map. The VPC \<open>T\<close> of the account
  \<open>Network\<close> is attached to the transit gateway \<open>T\<close>, and the VPN connection \<open>Network\<close>
  ends on the same transit gateway: two distinct attachments of \<open>T\<close>, with no separator
  in any name, and both are stored under the key \<open>Network_T\<close>. The static route to the
  VPC, which reads the key afterwards, is created with the identifier of the VPN
  attachment.
\<close>

theorem vpc_and_vpn_attachment_share_key:
  "traceOf (networkAssociationsStack env0 vpcAndVpn) =
   Inr [MapSet TransitGatewaysMap ''T'' (SsmParameter ''/accelerator/network/transitGateways/T/id''),
        MapSet TransitGatewayRouteTablesMap ''T_RT''
          (SsmParameter ''/accelerator/network/transitGateways/T/routeTables/RT/id''),
        MapSet TransitGatewayAttachmentsMap ''Network_T''
          (SsmParameter ''/accelerator/network/vpc/T/transitGatewayAttachment/TAtt/id''),
        MapSet TransitGatewayAttachmentsMap ''Network_T''
          (AttachmentLookup ''Network'' ''111''
             (SsmParameter ''/accelerator/network/transitGateways/T/id'') VPN None),
        TransitGatewayStaticRoute ''RT-10.1.0.0/16-T-Network''
          (SsmParameter ''/accelerator/network/transitGateways/T/routeTables/RT/id'')
          None ''10.1.0.0/16''
          (Some (AttachmentLookup ''Network'' ''111''
                   (SsmParameter ''/accelerator/network/transitGateways/T/id'') VPN None))]"
  by (simp add: run_defs vpn_defs fixture_defs vpcAndVpn_def)

subsection \<open>Direct Connect gateway associations\<close>

text \<open>
  C8. The Direct Connect gateway \<open>DX\<close> of the account \<open>Shared\<close> is associated with transit
  gateways of the account \<open>Network\<close>, the account of the stack. With the one association
  to \<open>T\<close> the constructor fetches the identifier of \<open>DX\<close> from the account \<open>Shared\<close> and
  creates the association proposal. With a second association, to \<open>T2\<close>,
  \<open>setDxGatewayMap\<close> is called again and creates a second lookup construct with the
  identifier \<open>SsmParamLookupDX\<close>, which names the gateway and not the transit gateway: the
  constructor throws on the duplicate identifier, and no proposal for \<open>T2\<close> is created.
\<close>

theorem second_dx_association_throws:
  "traceOf (networkAssociationsStack env0 (dxAssociations [''T''])) =
   Inr [MapSet TransitGatewaysMap ''T'' (SsmParameter ''/accelerator/network/transitGateways/T/id''),
        MapSet TransitGatewayRouteTablesMap ''T_RT''
          (SsmParameter ''/accelerator/network/transitGateways/T/routeTables/RT/id''),
        MapSet TransitGatewaysMap ''T2'' (SsmParameter ''/accelerator/network/transitGateways/T2/id''),
        MapSet DxGatewayMap ''DX''
          (SsmParameterLookup ''/accelerator/network/directConnectGateways/DX/id'' ''222''
             ''us-east-1'' ''AWSAccelerator-GetDXSsmParamRole-us-east-1''),
        DirectConnectGatewayAssociation ''DXTDxGatewayAssociationProposal''
          \<lparr>dap_allowedPrefixes = [''10.0.0.0/8''],
           dap_directConnectGatewayId =
             SsmParameterLookup ''/accelerator/network/directConnectGateways/DX/id'' ''222''
               ''us-east-1'' ''AWSAccelerator-GetDXSsmParamRole-us-east-1'',
           dap_directConnectGatewayOwnerAccount = Some ''222'',
           dap_gatewayId = SsmParameter ''/accelerator/network/transitGateways/T/id''\<rparr>,
        TransitGatewayStaticRoute ''RT-10.0.0.0/8-blackhole''
          (SsmParameter ''/accelerator/network/transitGateways/T/routeTables/RT/id'')
          (Some True) ''10.0.0.0/8'' None]
   \<and> networkAssociationsStack env0 (dxAssociations [''T'', ''T2'']) =
       Inl (DuplicateConstruct ''SsmParamLookupDX'')"
  by (simp add: run_defs dx_defs fixture_defs dxTo_def dxAssociations_def)

subsection \<open>Routes of the accepter of a VPC peering\<close>

text \<open>
  C5. The VPC \<open>A\<close> of the account \<open>Network\<close>, the account of the stack, requests the
  peerings \<open>P1\<close> with the VPC \<open>B\<close> and \<open>P2\<close> with the VPC \<open>C\<close>, both of the account
  \<open>Shared\<close>; the accepters have one route table each, with one route that targets the
  peering.
  \<^item> When the route tables have different names (\<open>rtB\<close>, \<open>rtC\<close>) the constructor creates
    the provider once and one cross-account route for each accepter.
  \<^item> When both route tables have the name \<open>rt\<close>, \<open>setCrossAcctRouteTables\<close> creates the
    lookup construct \<open>SsmParamLookuprt\<close> for \<open>B\<close> and again for \<open>C\<close> (its guard is the key
    of the VPC and the route table, its construct identifier the route table name alone):
    the constructor throws on the duplicate identifier before any peering or route is
    created.
  \<^item> With requester and accepter in the account and region of the stack the route of the
    accepter is created directly, without provider.
\<close>

theorem like_named_accepter_route_tables_throw:
  "networkAssociationsStack env0 (twoAccepters ''rt'' ''rt'') =
     Inl (DuplicateConstruct ''SsmParamLookuprt'')
   \<and> traceOf (networkAssociationsStack env0 (twoAccepters ''rtB'' ''rtC'')) =
     Inr [CrossAccountRouteFramework,
          VpcPeering
            \<lparr>vpp_name = ''P1'', vpp_peerOwnerId = ''222'', vpp_peerRegion = ''us-east-1'',
             vpp_peerVpcId =
               SsmParameterLookup ''/accelerator/network/vpc/B/id'' ''222'' ''us-east-1''
                 ''AWSAccelerator-VpcPeeringRole-us-east-1'',
             vpp_peerRoleName = Some ''AWSAccelerator-VpcPeeringRole-us-east-1'',
             vpp_vpcId = SsmParameter ''/accelerator/network/vpc/A/id''\<rparr>,
          PutSsmParameter ''us-east-1'' ''/accelerator/network/vpcPeering/P1/id'' ''222''
            ''AWSAccelerator-VpcPeeringRole-us-east-1'' (PeeringId ''P1''),
          CrossAcctPeeringRoute ''P1''
            \<lparr>car_id = ''BVpcrtBRouteTabletoA'', car_ownerAccount = ''222'',
             car_ownerRegion = ''us-east-1'', car_partition = ''aws'',
             car_roleName = ''AWSAccelerator-VpcPeeringRole-us-east-1'',
             car_routeTableId =
               SsmParameterLookup ''/accelerator/network/vpc/B/routeTable/rtB/id'' ''222''
                 ''us-east-1'' ''AWSAccelerator-VpcPeeringRole-us-east-1'',
             car_destination = Some ''10.1.0.0/16'', car_destinationPrefixListId = None\<rparr>,
          VpcPeering
            \<lparr>vpp_name = ''P2'', vpp_peerOwnerId = ''222'', vpp_peerRegion = ''us-east-1'',
             vpp_peerVpcId =
               SsmParameterLookup ''/accelerator/network/vpc/C/id'' ''222'' ''us-east-1''
                 ''AWSAccelerator-VpcPeeringRole-us-east-1'',
             vpp_peerRoleName = Some ''AWSAccelerator-VpcPeeringRole-us-east-1'',
             vpp_vpcId = SsmParameter ''/accelerator/network/vpc/A/id''\<rparr>,
          PutSsmParameter ''us-east-1'' ''/accelerator/network/vpcPeering/P2/id'' ''222''
            ''AWSAccelerator-VpcPeeringRole-us-east-1'' (PeeringId ''P2''),
          CrossAcctPeeringRoute ''P2''
            \<lparr>car_id = ''CVpcrtCRouteTabletoA'', car_ownerAccount = ''222'',
             car_ownerRegion = ''us-east-1'', car_partition = ''aws'',
             car_roleName = ''AWSAccelerator-VpcPeeringRole-us-east-1'',
             car_routeTableId =
               SsmParameterLookup ''/accelerator/network/vpc/C/routeTable/rtC/id'' ''222''
                 ''us-east-1'' ''AWSAccelerator-VpcPeeringRole-us-east-1'',
             car_destination = Some ''10.1.0.0/16'', car_destinationPrefixListId = None\<rparr>]
   \<and> traceOf (networkAssociationsStack env0 samePeering) =
     Inr [VpcPeering
            \<lparr>vpp_name = ''P'', vpp_peerOwnerId = ''111'', vpp_peerRegion = ''us-east-1'',
             vpp_peerVpcId = SsmParameter ''/accelerator/network/vpc/B/id'',
             vpp_peerRoleName = None,
             vpp_vpcId = SsmParameter ''/accelerator/network/vpc/A/id''\<rparr>,
          PeeringRoute ''P'' ''BVpcrtBRouteTabletoPeer''
            (SsmParameter ''/accelerator/network/vpc/B/routeTable/rtB/id'')
            (Some ''10.1.0.0/16'') None]"
  by (simp add: run_defs peering_defs fixture_defs peerEntry_def samePeering_def
                acceptingVpc_def twoAccepters_def)

subsection \<open>Static routes: dispatch and errors\<close>













end
